theory Spec2Isabelle
  imports Complex_Main "HOL-Library.AList" "HOL-Library.Sublist"
begin

section \<open>Python values, exceptions and external calls\<close>

text \<open>
  The script \<^verbatim>\<open>xbd+randargument_editing.py\<close> is glue code around torch, theconf, tqdm and
  the RandAugment package. Its own control flow is embedded here; every call into those
  libraries that creates or changes one of their objects is recorded, with its arguments,
  as an event in a trace, and every value read back from them is a function of the trace
  so far (record \<open>ext\<close>). Python floats are modelled as reals: rounding is not modelled.
  Calls of \<^verbatim>\<open>logger\<close> print only and are not recorded; where their arguments can raise,
  the raise is modelled.
\<close>

datatype error =
    KeyError string
  | ValueError string
  | ZeroDivisionError
  | AttributeError string
  | TypeError string

datatype 't pyval =
    PyInt int
  | PyFloat real
  | PyTensor 't
  | PyDict "(string \<times> 't pyval) list"

type_synonym metrics = "(string \<times> real) list"

datatype criterion = SmoothCrossEntropyLoss real | CrossEntropyLoss

datatype optimizer_obj = SGD real real real bool | LARS optimizer_obj

datatype scheduler_obj =
    CosineAnnealingLR int real
  | adjust_learning_rate_resnet
  | GradualWarmupScheduler real int scheduler_obj

datatype 't event =
    GetModel string int
  | NewOptimizer optimizer_obj
  | NewScheduler scheduler_obj
  | ModelLoadStateDict "(string \<times> 't pyval) list"
  | OptimizerLoadStateDict "'t pyval"
  | SchedulerLoadStateDict "'t pyval"
  | ModelCuda
  | ModelTrain
  | ModelEval
  | SetDescription string int int
  | ZeroGrad
  | ModelCall 't
  | Backward 't
  | ClipGradNorm real
  | OptimizerStep
  | SetPostfix metrics
  | SchedulerStep real
  | AddScalar string string real int
  | TorchSave string "(string \<times> 't pyval) list"
  | Reporter int metrics metrics "metrics option"

text \<open>
  A computation takes the state and returns either the exception raised or a value,
  together with the state reached: an exception keeps the effects that came before it.
\<close>

type_synonym ('s, 'a) prog = "'s \<Rightarrow> (error + 'a) \<times> 's"

definition returnM :: "'a \<Rightarrow> ('s, 'a) prog" where
  "returnM x = (\<lambda>s. (Inr x, s))"

definition raise :: "error \<Rightarrow> ('s, 'a) prog" where
  "raise e = (\<lambda>s. (Inl e, s))"

definition bindM :: "('s, 'a) prog \<Rightarrow> ('a \<Rightarrow> ('s, 'b) prog) \<Rightarrow> ('s, 'b) prog" where
  "bindM m f = (\<lambda>s. case m s of (Inl e, s') \<Rightarrow> (Inl e, s') | (Inr x, s') \<Rightarrow> f x s')"

definition emit :: "'t event \<Rightarrow> ('t event list, unit) prog" where
  "emit ev = (\<lambda>tr. (Inr (), tr @ [ev]))"

definition whenM :: "bool \<Rightarrow> ('s, unit) prog \<Rightarrow> ('s, unit) prog" where
  "whenM c m = (if c then m else returnM ())"

text \<open>\<^verbatim>\<open>d[k]\<close> on a mapping read from the configuration: a missing key raises KeyError.\<close>

definition getitem :: "string \<Rightarrow> 'a option \<Rightarrow> ('s, 'a) prog" where
  "getitem k v = (case v of None \<Rightarrow> raise (KeyError k) | Some x \<Rightarrow> returnM x)"

text \<open>\<^verbatim>\<open>d.get(k, default)\<close>.\<close>

definition dict_get :: "'a option \<Rightarrow> 'a \<Rightarrow> 'a" where
  "dict_get v d = (case v of None \<Rightarrow> d | Some x \<Rightarrow> x)"

section \<open>The configuration \<^verbatim>\<open>C.get()\<close>\<close>

text \<open>
  The keys the script reads. A field is \<open>None\<close> when the key is missing from the
  configuration file.
\<close>

record optimizer_conf =
  opt_type :: "string option"
  opt_momentum :: "real option"
  opt_decay :: "real option"
  opt_nesterov :: "bool option"
  opt_clip :: "real option"
  opt_label_smoothing :: "real option"
  opt_lars :: "bool option"

record warmup_conf =
  warmup_multiplier :: "real option"
  warmup_epoch :: "int option"

record lr_schedule_conf =
  sched_type :: "string option"
  sched_warmup :: "warmup_conf option"

record config =
  cfg_epoch :: "int option"
  cfg_dataset :: "string option"
  cfg_batch :: "int option"
  cfg_model :: "string option"
  cfg_lr :: "real option"
  cfg_optimizer :: "optimizer_conf option"
  cfg_lr_schedule :: "lr_schedule_conf option"

section \<open>External collaborators\<close>

text \<open>
  \<open>'t\<close> is \<^verbatim>\<open>torch.Tensor\<close>. The fields are the library calls whose results the script
  uses: \<^verbatim>\<open>len(data)\<close>, \<^verbatim>\<open>tensor.item()\<close>, \<^verbatim>\<open>model(data)\<close>, \<^verbatim>\<open>loss_fn(preds, label)\<close>,
  \<^verbatim>\<open>accuracy(preds, label, (1, 5))\<close>, \<^verbatim>\<open>optimizer.param_groups[0]['lr']\<close>, the three
  \<^verbatim>\<open>state_dict()\<close> calls, \<^verbatim>\<open>num_class\<close> and \<^verbatim>\<open>get_dataloaders\<close> (its train, valid and test
  loaders; a loader is the finite list of the (data, label) batches one pass yields).
\<close>

type_synonym 't loader = "('t \<times> 't) list"

record 't ext =
  tensor_len :: "'t \<Rightarrow> nat"
  tensor_item :: "'t \<Rightarrow> real"
  model_call :: "'t event list \<Rightarrow> 't \<Rightarrow> 't"
  loss_call :: "criterion \<Rightarrow> 't \<Rightarrow> 't \<Rightarrow> 't"
  accuracy :: "'t \<Rightarrow> 't \<Rightarrow> 't \<times> 't"
  param_lr :: "'t event list \<Rightarrow> real"
  model_state_dict :: "'t event list \<Rightarrow> 't pyval"
  optimizer_state_dict :: "'t event list \<Rightarrow> 't pyval"
  scheduler_state_dict :: "'t event list \<Rightarrow> 't pyval"
  num_class :: "string \<Rightarrow> int"
  get_dataloaders :: "string \<Rightarrow> int \<Rightarrow> string \<Rightarrow> real \<Rightarrow> int \<Rightarrow> 't loader \<times> 't loader \<times> 't loader"

section \<open>Accumulator\<close>

text \<open>
  Modelled from the spec: the class \<^verbatim>\<open>Accumulator\<close> of \<^verbatim>\<open>RandAugment.metrics\<close> is imported
  by the script and is not among the sources. Section 4.1 of the specification gives
  its contract: \<^verbatim>\<open>add\<close> adds each value to the running total of its key, creating the key
  at zero if unseen; \<^verbatim>\<open>scale\<close> (the operator \<^verbatim>\<open>/\<close>) returns a new mapping with every entry
  divided by the divisor and fails with a domain error if the divisor is zero; \<^verbatim>\<open>items\<close>
  gives the entries in insertion order. The specification does not say what indexing
  an absent name gives; the model raises KeyError as a plain mapping does.
\<close>

definition acc_add :: "metrics \<Rightarrow> string \<Rightarrow> real \<Rightarrow> metrics" where
  "acc_add m k v = AList.update k (dict_get (map_of m k) 0 + v) m"

definition add_dict :: "metrics \<Rightarrow> (string \<times> real) list \<Rightarrow> metrics" where
  "add_dict m kvs = fold (\<lambda>(k, v) m. acc_add m k v) kvs m"

definition scale :: "metrics \<Rightarrow> nat \<Rightarrow> ('s, metrics) prog" where
  "scale m d =
     (if d = 0 then raise ZeroDivisionError
      else returnM (map (\<lambda>(k, v). (k, v / real d)) m))"

definition acc_getitem :: "metrics \<Rightarrow> string \<Rightarrow> ('s, real) prog" where
  "acc_getitem m k = getitem k (map_of m k)"

section \<open>run_epoch\<close>

text \<open>
  Lines 38 to 70, the body of the loop over the batches. The loop variables are the
  accumulator, \<^verbatim>\<open>cnt\<close> and \<^verbatim>\<open>steps\<close>; the trace is the state.
\<close>

definition run_batch ::
  "'t ext \<Rightarrow> config \<Rightarrow> criterion \<Rightarrow> optimizer_obj option \<Rightarrow> int \<Rightarrow> bool \<Rightarrow>
   scheduler_obj option \<Rightarrow> nat \<Rightarrow> 't \<times> 't \<Rightarrow> metrics \<times> nat \<times> nat \<Rightarrow>
   ('t event list, metrics \<times> nat \<times> nat) prog" where
  "run_batch ext cfg loss_fn optimizer epoch verbose scheduler total_steps b st =
     (case b of (data, label) \<Rightarrow> case st of (metrics, cnt, steps) \<Rightarrow>
      let steps = steps + 1 in
      bindM (whenM (optimizer \<noteq> None) (emit ZeroGrad)) (\<lambda>_.
      bindM (\<lambda>tr. (Inr (model_call ext tr data), tr @ [ModelCall data])) (\<lambda>preds.
      let loss = loss_call ext loss_fn preds label in
      bindM (whenM (optimizer \<noteq> None)
               (bindM (emit (Backward loss)) (\<lambda>_.
                bindM (getitem ''optimizer'' (cfg_optimizer cfg)) (\<lambda>oc.
                bindM (whenM (dict_get (opt_clip oc) 5 > 0)
                         (emit (ClipGradNorm (dict_get (opt_clip oc) 5)))) (\<lambda>_.
                emit OptimizerStep))))) (\<lambda>_.
      let (top1, top5) = accuracy ext preds label;
          metrics = add_dict metrics
            [(''loss'', tensor_item ext loss * real (tensor_len ext data)),
             (''top1'', tensor_item ext top1 * real (tensor_len ext data)),
             (''top5'', tensor_item ext top5 * real (tensor_len ext data))];
          cnt = cnt + tensor_len ext data in
      bindM (whenM verbose
               (bindM (scale metrics cnt) (\<lambda>postfix.
                bindM (\<lambda>tr. (Inr (if optimizer \<noteq> None
                                    then AList.update ''lr'' (param_lr ext tr) postfix
                                    else postfix), tr)) (\<lambda>postfix.
                emit (SetPostfix postfix))))) (\<lambda>_.
      bindM (whenM (scheduler \<noteq> None)
               (if total_steps = 0 then raise ZeroDivisionError
                else emit (SchedulerStep (real_of_int epoch - 1 + real steps / real total_steps)))) (\<lambda>_.
      returnM (metrics, cnt, steps)))))))"

fun run_batches ::
  "'t ext \<Rightarrow> config \<Rightarrow> criterion \<Rightarrow> optimizer_obj option \<Rightarrow> int \<Rightarrow> bool \<Rightarrow>
   scheduler_obj option \<Rightarrow> nat \<Rightarrow> 't loader \<Rightarrow> metrics \<times> nat \<times> nat \<Rightarrow>
   ('t event list, metrics \<times> nat \<times> nat) prog" where
  "run_batches ext cfg loss_fn optimizer epoch verbose scheduler total_steps [] st = returnM st"
| "run_batches ext cfg loss_fn optimizer epoch verbose scheduler total_steps (b # bs) st =
     bindM (run_batch ext cfg loss_fn optimizer epoch verbose scheduler total_steps b st)
       (run_batches ext cfg loss_fn optimizer epoch verbose scheduler total_steps bs)"

text \<open>
  Lines 81 to 83: \<^verbatim>\<open>writer.add_scalar\<close> for every entry; with \<^verbatim>\<open>writer=None\<close> the first
  call raises AttributeError.
\<close>

fun add_scalars :: "string option \<Rightarrow> metrics \<Rightarrow> int \<Rightarrow> ('t event list, unit) prog" where
  "add_scalars writer [] epoch = returnM ()"
| "add_scalars writer ((key, val) # kvs) epoch =
     (case writer of
        None \<Rightarrow> raise (AttributeError ''add_scalar'')
      | Some w \<Rightarrow> bindM (emit (AddScalar w key val epoch)) (\<lambda>_. add_scalars writer kvs epoch))"

text \<open>
  \<^verbatim>\<open>run_epoch(model, loader, loss_fn, optimizer, desc_default, epoch, writer, verbose,
  scheduler)\<close>. The model is the one the trace has built; \<open>tqdm_disable\<close> is whether the
  environment variable \<^verbatim>\<open>TASK_NAME\<close> is set and not empty.
\<close>

definition run_epoch ::
  "'t ext \<Rightarrow> config \<Rightarrow> bool \<Rightarrow> 't loader \<Rightarrow> criterion \<Rightarrow> optimizer_obj option \<Rightarrow> string \<Rightarrow>
   int \<Rightarrow> string option \<Rightarrow> bool \<Rightarrow> scheduler_obj option \<Rightarrow> ('t event list, metrics) prog" where
  "run_epoch ext cfg tqdm_disable loader loss_fn optimizer desc_default epoch writer verbose scheduler =
     bindM (whenM verbose
              (bindM (getitem ''epoch'' (cfg_epoch cfg)) (\<lambda>max_epoch.
               emit (SetDescription desc_default epoch max_epoch)))) (\<lambda>_.
     let total_steps = length loader in
     bindM (run_batches ext cfg loss_fn optimizer epoch verbose scheduler total_steps loader ([], 0, 0))
       (\<lambda>(metrics, cnt, steps).
     bindM (whenM tqdm_disable
              (bindM (getitem ''epoch'' (cfg_epoch cfg)) (\<lambda>_.
               bindM (scale metrics cnt) (\<lambda>_. returnM ())))) (\<lambda>_.
     bindM (scale metrics cnt) (\<lambda>metrics.
     bindM (\<lambda>tr. (Inr (if optimizer \<noteq> None
                         then AList.update ''lr'' (param_lr ext tr) metrics
                         else metrics), tr)) (\<lambda>metrics.
     bindM (whenM verbose (add_scalars writer metrics epoch)) (\<lambda>_.
     returnM metrics))))))"

section \<open>train_and_eval\<close>

text \<open>
  The state of \<^verbatim>\<open>train_and_eval\<close> is the trace together with the files \<^verbatim>\<open>torch.load\<close>
  and \<^verbatim>\<open>torch.save\<close> read and write (the loaded object, by path).
\<close>

type_synonym 't world = "'t event list \<times> (string \<Rightarrow> (string \<times> 't pyval) list option)"

definition in_trace :: "('t event list, 'a) prog \<Rightarrow> ('t world, 'a) prog" where
  "in_trace m = (\<lambda>(tr, fs). case m tr of (r, tr') \<Rightarrow> (r, (tr', fs)))"

definition torch_save :: "(string \<times> 't pyval) list \<Rightarrow> string \<Rightarrow> ('t world, unit) prog" where
  "torch_save obj path = (\<lambda>(tr, fs). (Inr (), (tr @ [TorchSave path obj], fs(path \<mapsto> obj))))"

text \<open>A dict display or comprehension: a repeated key keeps its place and takes the later value.\<close>

definition dict_of :: "('k \<times> 'v) list \<Rightarrow> ('k \<times> 'v) list" where
  "dict_of kvs = fold (\<lambda>(k, v). AList.update k v) kvs []"

text \<open>\<^verbatim>\<open>sub in s\<close> on strings.\<close>

definition str_in :: "string \<Rightarrow> string \<Rightarrow> bool" where
  "str_in sub s = sublist sub s"

text \<open>Lines 148 and 152: \<^verbatim>\<open>{k if 'module.' in k else 'module.'+k: v for k, v in items}\<close>.\<close>

definition module_keys :: "(string \<times> 'v) list \<Rightarrow> (string \<times> 'v) list" where
  "module_keys items =
     dict_of (map (\<lambda>(k, v). (if str_in ''module.'' k then k else ''module.'' @ k, v)) items)"

text \<open>A string argument or an object in a condition: \<^verbatim>\<open>None\<close> and \<^verbatim>\<open>''\<close> are false.\<close>

definition truthy :: "string option \<Rightarrow> bool" where
  "truthy s = (case s of None \<Rightarrow> False | Some p \<Rightarrow> p \<noteq> [])"

text \<open>
  The number a Python value stands for in \<^verbatim>\<open>result['best_valid'] < valid_metrics[metric]\<close>;
  a mapping does not compare with a float. Tensors are not modelled as numbers: Python
  compares a one-element tensor, the model raises; the statements about the loop suppose
  a best value that is an integer or a float.
\<close>

definition as_number :: "'t pyval \<Rightarrow> ('s, real) prog" where
  "as_number v =
     (case v of
        PyInt n \<Rightarrow> returnM (real_of_int n)
      | PyFloat x \<Rightarrow> returnM x
      | _ \<Rightarrow> raise (TypeError ''<''))"

text \<open>What lines 91 to 139 construct.\<close>

record 't built =
  b_max_epoch :: int
  b_trainloader :: "'t loader"
  b_validloader :: "'t loader"
  b_testloader :: "'t loader"
  b_criterion :: criterion
  b_optimizer :: optimizer_obj
  b_scheduler :: scheduler_obj
  b_writers :: "string list"

text \<open>Lines 102 to 111.\<close>

definition make_optimizer :: "config \<Rightarrow> optimizer_conf \<Rightarrow> ('t event list, optimizer_obj) prog" where
  "make_optimizer cfg oc =
     bindM (getitem ''type'' (opt_type oc)) (\<lambda>ty.
     if ty = ''sgd'' then
       bindM (getitem ''lr'' (cfg_lr cfg)) (\<lambda>lr.
       bindM (getitem ''decay'' (opt_decay oc)) (\<lambda>decay.
       bindM (getitem ''nesterov'' (opt_nesterov oc)) (\<lambda>nesterov.
       let optimizer = SGD lr (dict_get (opt_momentum oc) (9 / 10)) decay nesterov in
       bindM (emit (NewOptimizer optimizer)) (\<lambda>_. returnM optimizer))))
     else raise (ValueError (''invalid optimizer type='' @ ty)))"

text \<open>Lines 118 to 132. An empty \<^verbatim>\<open>warmup\<close> mapping is false in the condition of line 126.\<close>

definition make_scheduler :: "config \<Rightarrow> int \<Rightarrow> ('t event list, scheduler_obj) prog" where
  "make_scheduler cfg T_max =
     bindM (getitem ''lr_schedule'' (cfg_lr_schedule cfg)) (\<lambda>ls.
     let lr_scheduler_type = dict_get (sched_type ls) ''cosine'' in
     bindM (if lr_scheduler_type = ''cosine'' then
              bindM (emit (NewScheduler (CosineAnnealingLR T_max 0))) (\<lambda>_.
              returnM (CosineAnnealingLR T_max 0))
            else if lr_scheduler_type = ''resnet'' then
              bindM (emit (NewScheduler adjust_learning_rate_resnet)) (\<lambda>_.
              returnM adjust_learning_rate_resnet)
            else raise (ValueError (''invalid lr_schduler='' @ lr_scheduler_type))) (\<lambda>scheduler.
     case sched_warmup ls of
       None \<Rightarrow> returnM scheduler
     | Some wu \<Rightarrow>
         if warmup_multiplier wu = None \<and> warmup_epoch wu = None then returnM scheduler
         else
           bindM (getitem ''multiplier'' (warmup_multiplier wu)) (\<lambda>multiplier.
           bindM (getitem ''epoch'' (warmup_epoch wu)) (\<lambda>total_epoch.
           bindM (emit (NewScheduler (GradualWarmupScheduler multiplier total_epoch scheduler))) (\<lambda>_.
           returnM (GradualWarmupScheduler multiplier total_epoch scheduler))))))"

text \<open>Lines 91 to 139.\<close>

definition build ::
  "'t ext \<Rightarrow> config \<Rightarrow> string option \<Rightarrow> string \<Rightarrow> real \<Rightarrow> int \<Rightarrow> ('t event list, 't built) prog" where
  "build ext cfg tag dataroot test_ratio cv_fold =
     bindM (getitem ''epoch'' (cfg_epoch cfg)) (\<lambda>max_epoch.
     bindM (getitem ''dataset'' (cfg_dataset cfg)) (\<lambda>dataset.
     bindM (getitem ''batch'' (cfg_batch cfg)) (\<lambda>batch.
     case get_dataloaders ext dataset batch dataroot test_ratio cv_fold of
       (trainloader, validloader, testloader_) \<Rightarrow>
     bindM (getitem ''model'' (cfg_model cfg)) (\<lambda>model_name.
     bindM (emit (GetModel model_name (num_class ext dataset))) (\<lambda>_.
     bindM (getitem ''optimizer'' (cfg_optimizer cfg)) (\<lambda>oc.
     let lb_smooth = dict_get (opt_label_smoothing oc) 0;
         criterion = (if lb_smooth > 0 then SmoothCrossEntropyLoss lb_smooth else CrossEntropyLoss) in
     bindM (make_optimizer cfg oc) (\<lambda>optimizer.
     bindM (if dict_get (opt_lars oc) False
            then bindM (emit (NewOptimizer (LARS optimizer))) (\<lambda>_. returnM (LARS optimizer))
            else returnM optimizer) (\<lambda>optimizer.
     bindM (make_scheduler cfg max_epoch) (\<lambda>scheduler.
     let log_dir = (\<lambda>x. ''./logs/'' @ (case tag of None \<Rightarrow> ''None'' | Some t \<Rightarrow> t) @ ''/'' @ x) in
     returnM \<lparr> b_max_epoch = max_epoch, b_trainloader = trainloader, b_validloader = validloader,
               b_testloader = testloader_, b_criterion = criterion, b_optimizer = optimizer,
               b_scheduler = scheduler,
               b_writers = map log_dir [''train'', ''valid'', ''test''] \<rparr>)))))))))"

text \<open>
  Lines 141 to 158: \<^verbatim>\<open>result\<close> and \<^verbatim>\<open>epoch_start\<close> after the checkpoint at \<^verbatim>\<open>save_path\<close>, if
  there is one, has been loaded. \<^verbatim>\<open>data[key].items()\<close> needs a mapping. The \<^verbatim>\<open>epoch\<close> entry
  is an integer when line 199 wrote it, and only integer entries are modelled: for any
  other entry the model raises a TypeError at line 158, where Python raises it for a
  string or a mapping, while a float entry is added to and fails only at \<^verbatim>\<open>range\<close> in line
  178. The statements about a resumed run suppose an integer entry.
\<close>

definition load_model_state :: "'t pyval \<Rightarrow> ('t event list, unit) prog" where
  "load_model_state v =
     (case v of
        PyDict items \<Rightarrow> emit (ModelLoadStateDict (module_keys items))
      | _ \<Rightarrow> raise (AttributeError ''items''))"

definition resume ::
  "string \<Rightarrow> string option \<Rightarrow> ('t world, (string \<times> 't pyval) list \<times> int) prog" where
  "resume metric save_path =
     (\<lambda>(tr, fs).
       (if truthy save_path \<and> fs (the save_path) \<noteq> None then
          (let data = the (fs (the save_path)) in
           in_trace
            (bindM (if map_of data ''model'' \<noteq> None \<or> map_of data ''state_dict'' \<noteq> None then
                      (let key = (if map_of data ''model'' \<noteq> None then ''model'' else ''state_dict'') in
                       bindM (load_model_state (the (map_of data key))) (\<lambda>_.
                       returnM (if map_of data metric \<noteq> None
                                then [(''best_valid'', the (map_of data metric))] else [])))
                    else
                      bindM (emit (ModelLoadStateDict (module_keys data))) (\<lambda>_. returnM [])) (\<lambda>result.
             bindM (whenM (map_of data ''optimizer'' \<noteq> None)
                      (emit (OptimizerLoadStateDict (the (map_of data ''optimizer''))))) (\<lambda>_.
             bindM (whenM (map_of data ''scheduler'' \<noteq> None)
                      (emit (SchedulerLoadStateDict (the (map_of data ''scheduler''))))) (\<lambda>_.
             bindM (case map_of data ''epoch'' of
                      None \<Rightarrow> returnM 1
                    | Some (PyInt n) \<Rightarrow> returnM (n + 1)
                    | Some _ \<Rightarrow> raise (TypeError ''+'')) (\<lambda>epoch_start.
             returnM (result, epoch_start))))))) (tr, fs)
        else (Inr ([], 1), (tr, fs))))"

text \<open>
  What \<^verbatim>\<open>train_and_eval\<close> returns: the validation metrics on the path of line 175, the
  \<^verbatim>\<open>result\<close> mapping on the path of line 218.
\<close>

datatype 't outcome = EvalMetrics metrics | Result "(string \<times> 't pyval) list"

text \<open>Lines 161 to 175.\<close>

definition eval_only ::
  "'t ext \<Rightarrow> config \<Rightarrow> bool \<Rightarrow> 't built \<Rightarrow> int \<Rightarrow> ('t event list, metrics) prog" where
  "eval_only ext cfg tqdm_disable b epoch_start =
     bindM (emit ModelCuda) (\<lambda>_.
     bindM (emit ModelEval) (\<lambda>_.
     bindM (run_epoch ext cfg tqdm_disable (b_validloader b) (b_criterion b) None ''valid''
              epoch_start None True None) (\<lambda>valid_metrics.
     bindM (run_epoch ext cfg tqdm_disable (b_testloader b) (b_criterion b) None ''test ''
              epoch_start None True None) (\<lambda>test_metrics.
     returnM valid_metrics))))"

text \<open>Lines 194 to 205.\<close>

definition save_if_best ::
  "'t ext \<Rightarrow> string \<Rightarrow> string option \<Rightarrow> int \<Rightarrow> metrics \<Rightarrow> (string \<times> 't pyval) list \<Rightarrow>
   ('t world, (string \<times> 't pyval) list) prog" where
  "save_if_best ext metric save_path epoch valid_metrics result =
     bindM (case map_of result ''best_valid'' of
              None \<Rightarrow> returnM True
            | Some best \<Rightarrow>
                bindM (acc_getitem valid_metrics metric) (\<lambda>v.
                bindM (as_number best) (\<lambda>b. returnM (b < v)))) (\<lambda>better.
     if better then
       bindM (acc_getitem valid_metrics metric) (\<lambda>v.
       bindM (whenM (truthy save_path)
                (\<lambda>(tr, fs). torch_save
                   (dict_of [(''epoch'', PyInt epoch),
                             (metric, PyFloat v),
                             (''model'', model_state_dict ext tr),
                             (''optimizer'', optimizer_state_dict ext tr),
                             (''scheduler'', scheduler_state_dict ext tr)])
                   (the save_path) (tr, fs))) (\<lambda>_.
       returnM (AList.update ''best_valid'' (PyFloat v) result)))
     else returnM result)"

text \<open>Lines 180 to 216, one iteration of the loop over the epochs.\<close>

definition train_epoch ::
  "'t ext \<Rightarrow> config \<Rightarrow> bool \<Rightarrow> 't built \<Rightarrow> string \<Rightarrow> string option \<Rightarrow> int \<Rightarrow>
   (string \<times> 't pyval) list \<Rightarrow> ('t world, (string \<times> 't pyval) list) prog" where
  "train_epoch ext cfg tqdm_disable b metric save_path epoch result =
     bindM (in_trace
       (bindM (emit ModelCuda) (\<lambda>_.
        bindM (emit ModelTrain) (\<lambda>_.
        bindM (run_epoch ext cfg tqdm_disable (b_trainloader b) (b_criterion b)
                 (Some (b_optimizer b)) ''train'' epoch (Some (b_writers b ! 0)) True None) (\<lambda>train_metrics.
        bindM (emit ModelEval) (\<lambda>_.
        bindM (run_epoch ext cfg tqdm_disable (b_validloader b) (b_criterion b)
                 None ''valid'' epoch (Some (b_writers b ! 1)) True None) (\<lambda>valid_metrics.
        returnM (train_metrics, valid_metrics)))))))) (\<lambda>(train_metrics, valid_metrics).
     bindM (save_if_best ext metric save_path epoch valid_metrics result) (\<lambda>result.
     bindM (in_trace
       (bindM (getitem ''epoch'' (cfg_epoch cfg)) (\<lambda>e.
        bindM (if e - epoch \<le> 5 then
                 bindM (run_epoch ext cfg tqdm_disable (b_testloader b) (b_criterion b)
                          None ''test '' epoch (Some (b_writers b ! 2)) True None) (\<lambda>test_metrics.
                 returnM (Some test_metrics))
               else returnM None) (\<lambda>test_metrics.
        bindM (emit (Reporter epoch train_metrics valid_metrics test_metrics)) (\<lambda>_.
        emit (SchedulerStep (real_of_int epoch))))))) (\<lambda>_.
     returnM result)))"

text \<open>Line 179: the loop over \<^verbatim>\<open>range(epoch_start, max_epoch + 1)\<close>.\<close>

fun train_loop ::
  "'t ext \<Rightarrow> config \<Rightarrow> bool \<Rightarrow> 't built \<Rightarrow> string \<Rightarrow> string option \<Rightarrow> int list \<Rightarrow>
   (string \<times> 't pyval) list \<Rightarrow> ('t world, (string \<times> 't pyval) list) prog" where
  "train_loop ext cfg tqdm_disable b metric save_path [] result = returnM result"
| "train_loop ext cfg tqdm_disable b metric save_path (epoch # epochs) result =
     bindM (train_epoch ext cfg tqdm_disable b metric save_path epoch result)
       (train_loop ext cfg tqdm_disable b metric save_path epochs)"

text \<open>
  \<^verbatim>\<open>train_and_eval(tag, dataroot, test_ratio, cv_fold, reporter, metric, save_path,
  only_eval)\<close>. The call of the reporter is recorded whether it is the caller's or the
  default of line 89, which does nothing.
\<close>

definition train_and_eval ::
  "'t ext \<Rightarrow> config \<Rightarrow> bool \<Rightarrow> string option \<Rightarrow> string \<Rightarrow> real \<Rightarrow> int \<Rightarrow> string \<Rightarrow>
   string option \<Rightarrow> bool \<Rightarrow> ('t world, 't outcome) prog" where
  "train_and_eval ext cfg tqdm_disable tag dataroot test_ratio cv_fold metric save_path only_eval =
     bindM (in_trace (build ext cfg tag dataroot test_ratio cv_fold)) (\<lambda>b.
     bindM (resume metric save_path) (\<lambda>(result, epoch_start).
     if only_eval then
       bindM (in_trace (eval_only ext cfg tqdm_disable b epoch_start)) (\<lambda>valid_metrics.
       returnM (EvalMetrics valid_metrics))
     else
       bindM (train_loop ext cfg tqdm_disable b metric save_path [epoch_start..b_max_epoch b] result)
         (\<lambda>result. returnM (Result result))))"

section \<open>What a run is compared with\<close>

text \<open>
  The definitions of this section are not part of the script; the theorems state its
  behaviour with them.
\<close>

text \<open>
  The loss, top-1 and top-5 values of one batch, as lines 45, 46 and 54 compute them when
  the batch starts at trace \<open>tr\<close>.
\<close>

definition batch_values :: "'t ext \<Rightarrow> criterion \<Rightarrow> optimizer_obj option \<Rightarrow> 't event list \<Rightarrow> 't \<times> 't \<Rightarrow> real \<times> real \<times> real" where
  "batch_values ext loss_fn optimizer tr b =
     (case b of (data, label) \<Rightarrow>
      let preds = model_call ext (if optimizer \<noteq> None then tr @ [ZeroGrad] else tr) data;
          loss = loss_call ext loss_fn preds label;
          (top1, top5) = accuracy ext preds label
      in (tensor_item ext loss, tensor_item ext top1, tensor_item ext top5))"

text \<open>
  The per-batch values \<open>(loss, top1, top5, len(data))\<close> of the batches of one pass, each
  taken at the trace the loop has reached when it comes to the batch.
\<close>

fun batch_stats ::
  "'t ext \<Rightarrow> config \<Rightarrow> criterion \<Rightarrow> optimizer_obj option \<Rightarrow> int \<Rightarrow> bool \<Rightarrow>
   scheduler_obj option \<Rightarrow> nat \<Rightarrow> 't loader \<Rightarrow> metrics \<times> nat \<times> nat \<Rightarrow> 't event list \<Rightarrow>
   (real \<times> real \<times> real \<times> nat) list" where
  "batch_stats ext cfg loss_fn optimizer epoch verbose scheduler total_steps [] st tr = []"
| "batch_stats ext cfg loss_fn optimizer epoch verbose scheduler total_steps (b # bs) st tr =
     (case batch_values ext loss_fn optimizer tr b of
        (l, t1, t5) \<Rightarrow> (l, t1, t5, tensor_len ext (fst b))) #
     (case run_batch ext cfg loss_fn optimizer epoch verbose scheduler total_steps b st tr of
        (Inr st', tr') \<Rightarrow> batch_stats ext cfg loss_fn optimizer epoch verbose scheduler total_steps bs st' tr'
      | (Inl e, tr') \<Rightarrow> [])"

definition epoch_stats ::
  "'t ext \<Rightarrow> config \<Rightarrow> 't loader \<Rightarrow> criterion \<Rightarrow> optimizer_obj option \<Rightarrow> string \<Rightarrow> int \<Rightarrow> bool \<Rightarrow>
   scheduler_obj option \<Rightarrow> 't event list \<Rightarrow> (real \<times> real \<times> real \<times> nat) list" where
  "epoch_stats ext cfg loader loss_fn optimizer desc_default epoch verbose scheduler tr =
     batch_stats ext cfg loss_fn optimizer epoch verbose scheduler (length loader) loader ([], 0, 0)
       (snd (whenM verbose
               (bindM (getitem ''epoch'' (cfg_epoch cfg)) (\<lambda>max_epoch.
                emit (SetDescription desc_default epoch max_epoch))) tr))"

text \<open>
  The sample-weighted mean of values \<open>v\<close> that each stand for \<open>n\<close> samples, and the
  plain mean of the same values.
\<close>

definition weighted_mean :: "(real \<times> nat) list \<Rightarrow> real" where
  "weighted_mean xs = sum_list (map (\<lambda>(v, n). v * real n) xs) / real (sum_list (map snd xs))"

definition simple_mean :: "(real \<times> nat) list \<Rightarrow> real" where
  "simple_mean xs = sum_list (map fst xs) / real (length xs)"

text \<open>Projections of a trace: the calls of one kind, in order.\<close>

definition grad_events :: "'t event list \<Rightarrow> 't event list" where
  "grad_events tr =
     filter (\<lambda>e. case e of Backward _ \<Rightarrow> True | ClipGradNorm _ \<Rightarrow> True | OptimizerStep \<Rightarrow> True | _ \<Rightarrow> False) tr"

definition sched_steps :: "'t event list \<Rightarrow> real list" where
  "sched_steps tr = concat (map (\<lambda>e. case e of SchedulerStep x \<Rightarrow> [x] | _ \<Rightarrow> []) tr)"

definition passes :: "'t event list \<Rightarrow> (string \<times> int) list" where
  "passes tr = concat (map (\<lambda>e. case e of SetDescription d ep mx \<Rightarrow> [(d, ep)] | _ \<Rightarrow> []) tr)"

text \<open>The events a pass emits after its description.\<close>

definition pass_event :: "'t event \<Rightarrow> bool" where
  "pass_event e =
     (case e of
        ZeroGrad \<Rightarrow> True | ModelCall _ \<Rightarrow> True | Backward _ \<Rightarrow> True | ClipGradNorm _ \<Rightarrow> True
      | OptimizerStep \<Rightarrow> True | SetPostfix _ \<Rightarrow> True | SchedulerStep _ \<Rightarrow> True
      | AddScalar _ _ _ _ \<Rightarrow> True | _ \<Rightarrow> False)"

text \<open>The running total of a key, and the two shapes the accumulator of a pass takes.\<close>

definition acc_total :: "metrics \<Rightarrow> string \<Rightarrow> real" where
  "acc_total m k = dict_get (map_of m k) 0"

definition acc_shape :: "metrics \<Rightarrow> bool" where
  "acc_shape m = (m = [] \<or> map fst m = [''loss'', ''top1'', ''top5''])"

text \<open>More projections of a trace: the reporter calls, \<^verbatim>\<open>torch.save\<close> calls and
  \<^verbatim>\<open>model.load_state_dict\<close> calls, in order.\<close>

definition reports :: "'t event list \<Rightarrow> (int \<times> metrics \<times> metrics \<times> metrics option) list" where
  "reports tr = concat (map (\<lambda>e. case e of Reporter ep tm vm ts \<Rightarrow> [(ep, tm, vm, ts)] | _ \<Rightarrow> []) tr)"

definition saves :: "'t event list \<Rightarrow> (string \<times> (string \<times> 't pyval) list) list" where
  "saves tr = concat (map (\<lambda>e. case e of TorchSave p obj \<Rightarrow> [(p, obj)] | _ \<Rightarrow> []) tr)"

definition model_loads :: "'t event list \<Rightarrow> (string \<times> 't pyval) list list" where
  "model_loads tr = concat (map (\<lambda>e. case e of ModelLoadStateDict d \<Rightarrow> [d] | _ \<Rightarrow> []) tr)"

text \<open>The events of the construction phase and of the resume phase.\<close>

definition construct_event :: "'t event \<Rightarrow> bool" where
  "construct_event e =
     (case e of GetModel _ _ \<Rightarrow> True | NewOptimizer _ \<Rightarrow> True | NewScheduler _ \<Rightarrow> True | _ \<Rightarrow> False)"

definition load_event :: "'t event \<Rightarrow> bool" where
  "load_event e =
     (case e of ModelLoadStateDict _ \<Rightarrow> True | OptimizerLoadStateDict _ \<Rightarrow> True
      | SchedulerLoadStateDict _ \<Rightarrow> True | _ \<Rightarrow> False)"

text \<open>
  A loader a pass can average over: at least one batch, and no batch without samples.
\<close>

definition loader_ok :: "'t ext \<Rightarrow> 't loader \<Rightarrow> bool" where
  "loader_ok ext loader = (loader \<noteq> [] \<and> list_all (\<lambda>(d, l). 0 < tensor_len ext d) loader)"

text \<open>
  The tracked best value as a number, whether \<^verbatim>\<open>result\<close> can be compared at all, and the
  condition of line 195 on a validation value \<open>v\<close>.
\<close>

definition num_of :: "'t pyval \<Rightarrow> real option" where
  "num_of v = (case v of PyInt n \<Rightarrow> Some (real_of_int n) | PyFloat x \<Rightarrow> Some x | _ \<Rightarrow> None)"

definition best_ok :: "(string \<times> 't pyval) list \<Rightarrow> bool" where
  "best_ok result = (case map_of result ''best_valid'' of None \<Rightarrow> True | Some b \<Rightarrow> num_of b \<noteq> None)"

definition improves :: "(string \<times> 't pyval) list \<Rightarrow> real \<Rightarrow> bool" where
  "improves result v =
     (case map_of result ''best_valid'' of
        None \<Rightarrow> True
      | Some b \<Rightarrow> (case num_of b of None \<Rightarrow> False | Some x \<Rightarrow> x < v))"

text \<open>The passes of one iteration of the training loop, with the epoch each is run for.\<close>

definition epoch_passes :: "int \<Rightarrow> int \<Rightarrow> (string \<times> int) list" where
  "epoch_passes mx epoch =
     [(''train'', epoch), (''valid'', epoch)] @ (if mx - epoch \<le> 5 then [(''test '', epoch)] else [])"

text \<open>
  A configuration the construction phase accepts: every key read by indexing is there,
  \<^verbatim>\<open>optimizer.type\<close> is \<^verbatim>\<open>sgd\<close>, \<^verbatim>\<open>lr_schedule.type\<close> is absent, \<^verbatim>\<open>cosine\<close> or \<^verbatim>\<open>resnet\<close>, and a
  \<^verbatim>\<open>warmup\<close> mapping that is not empty has both of its keys. The errors of a configuration
  are KeyError and ValueError.
\<close>

definition sched_ok :: "lr_schedule_conf \<Rightarrow> bool" where
  "sched_ok ls = (sched_type ls \<in> {None, Some ''cosine'', Some ''resnet''}
                       \<and> (case sched_warmup ls of
                             None \<Rightarrow> True
                           | Some wu \<Rightarrow> (warmup_multiplier wu = None) = (warmup_epoch wu = None)))"

definition config_ok :: "config \<Rightarrow> bool" where
  "config_ok cfg =
     (cfg_epoch cfg \<noteq> None \<and> cfg_dataset cfg \<noteq> None \<and> cfg_batch cfg \<noteq> None \<and> cfg_model cfg \<noteq> None
      \<and> (case cfg_optimizer cfg of
            None \<Rightarrow> False
          | Some oc \<Rightarrow> opt_type oc = Some ''sgd'' \<and> cfg_lr cfg \<noteq> None \<and> opt_decay oc \<noteq> None
                       \<and> opt_nesterov oc \<noteq> None)
      \<and> (case cfg_lr_schedule cfg of
            None \<Rightarrow> False
          | Some ls \<Rightarrow> sched_type ls \<in> {None, Some ''cosine'', Some ''resnet''}
                       \<and> (case sched_warmup ls of
                             None \<Rightarrow> True
                           | Some wu \<Rightarrow> (warmup_multiplier wu = None) = (warmup_epoch wu = None))))"

definition config_error :: "error \<Rightarrow> bool" where
  "config_error e = (case e of KeyError _ \<Rightarrow> True | ValueError _ \<Rightarrow> True | _ \<Rightarrow> False)"

text \<open>
  The checkpoint \<^verbatim>\<open>train_and_eval\<close> finds: the file at \<^verbatim>\<open>save_path\<close> when the path is given
  and not empty. A checkpoint the resume phase and the loop can use: the model entry is
  a mapping, the stored best value a number and the epoch an integer. The epoch the
  loop starts at, and the model state the checkpoint holds in either of its shapes.
\<close>

definition checkpoint_at :: "(string \<Rightarrow> 'a option) \<Rightarrow> string option \<Rightarrow> 'a option" where
  "checkpoint_at fs save_path = (case save_path of None \<Rightarrow> None | Some p \<Rightarrow> if p = [] then None else fs p)"

definition is_dict :: "'t pyval \<Rightarrow> bool" where
  "is_dict v = (case v of PyDict _ \<Rightarrow> True | _ \<Rightarrow> False)"

definition is_int :: "'t pyval \<Rightarrow> bool" where
  "is_int v = (case v of PyInt _ \<Rightarrow> True | _ \<Rightarrow> False)"

definition checkpoint_ok :: "string \<Rightarrow> (string \<times> 't pyval) list \<Rightarrow> bool" where
  "checkpoint_ok metric data =
     ((case map_of data ''model'' of
         Some v \<Rightarrow> is_dict v \<and> (case map_of data metric of None \<Rightarrow> True | Some b \<Rightarrow> num_of b \<noteq> None)
       | None \<Rightarrow>
           (case map_of data ''state_dict'' of
              Some v \<Rightarrow> is_dict v \<and> (case map_of data metric of None \<Rightarrow> True | Some b \<Rightarrow> num_of b \<noteq> None)
            | None \<Rightarrow> True))
      \<and> (case map_of data ''epoch'' of None \<Rightarrow> True | Some v \<Rightarrow> is_int v))"

definition expected_start :: "(string \<times> 't pyval) list option \<Rightarrow> int" where
  "expected_start ck =
     (case ck of
        None \<Rightarrow> 1
      | Some data \<Rightarrow> (case map_of data ''epoch'' of Some (PyInt n) \<Rightarrow> n + 1 | _ \<Rightarrow> 1))"

definition model_state :: "(string \<times> 't pyval) list \<Rightarrow> (string \<times> 't pyval) list" where
  "model_state data =
     (case map_of data ''model'' of
        Some (PyDict sd) \<Rightarrow> sd
      | Some _ \<Rightarrow> []
      | None \<Rightarrow>
          (case map_of data ''state_dict'' of
             Some (PyDict sd) \<Rightarrow> sd
           | Some _ \<Rightarrow> []
           | None \<Rightarrow> data))"

text \<open>
  The tracked best value read as a number, and the best value the loop tracks over a
  list of validation values, from a start value: a value replaces the best when there is
  none or when it is strictly greater. The validation values of the target metric that a
  trace reports, in order.
\<close>

definition best_value :: "(string \<times> 't pyval) list \<Rightarrow> real option" where
  "best_value result = (case map_of result ''best_valid'' of None \<Rightarrow> None | Some b \<Rightarrow> num_of b)"

fun track_best :: "real option \<Rightarrow> real list \<Rightarrow> real option" where
  "track_best best [] = best"
| "track_best best (v # vs) =
     track_best (case best of None \<Rightarrow> Some v | Some b \<Rightarrow> if b < v then Some v else Some b) vs"

definition valid_values :: "string \<Rightarrow> 't event list \<Rightarrow> real list" where
  "valid_values metric tr =
     concat (map (\<lambda>(e, tm, vm, ts). case map_of vm metric of None \<Rightarrow> [] | Some v \<Rightarrow> [v]) (reports tr))"

text \<open>
  What a checkpoint restores: the best value, kept only by a checkpoint with a \<^verbatim>\<open>model\<close> or
  \<^verbatim>\<open>state_dict\<close> entry (lines 149 and 150), and the \<^verbatim>\<open>load_state_dict\<close> calls of lines 148 to 156,
  in their order: the model, then the optimizer and the scheduler when the checkpoint has
  their entries.
\<close>

definition restored_best :: "string \<Rightarrow> (string \<times> 't pyval) list option \<Rightarrow> real option" where
  "restored_best metric ck =
     (case ck of
        None \<Rightarrow> None
      | Some data \<Rightarrow>
          if map_of data ''model'' = None \<and> map_of data ''state_dict'' = None then None
          else (case map_of data metric of None \<Rightarrow> None | Some b \<Rightarrow> num_of b))"

definition restore_calls :: "(string \<times> 't pyval) list \<Rightarrow> 't event list" where
  "restore_calls data =
     [ModelLoadStateDict (module_keys (model_state data))]
     @ (case map_of data ''optimizer'' of None \<Rightarrow> [] | Some v \<Rightarrow> [OptimizerLoadStateDict v])
     @ (case map_of data ''scheduler'' of None \<Rightarrow> [] | Some v \<Rightarrow> [SchedulerLoadStateDict v])"

section \<open>A small instance\<close>

text \<open>
  Tensors are lists of reals: \<^verbatim>\<open>len\<close> is the length, \<^verbatim>\<open>item\<close> the first entry. The model
  returns its input, the loss is the label and the accuracies are the predictions and
  the label, so that a batch carries its own metric values.
\<close>

definition demo_loader :: "real list loader" where
  "demo_loader = [([1, 1], [1]), ([0], [0])]"

definition demo_ext :: "real list ext" where
  "demo_ext =
     \<lparr> tensor_len = length,
       tensor_item = (\<lambda>t. case t of [] \<Rightarrow> 0 | x # _ \<Rightarrow> x),
       model_call = (\<lambda>tr data. data),
       loss_call = (\<lambda>c preds label. label),
       accuracy = (\<lambda>preds label. (preds, label)),
       param_lr = (\<lambda>tr. 1 / 10),
       model_state_dict = (\<lambda>tr. PyDict [(''fc.weight'', PyTensor [1])]),
       optimizer_state_dict = (\<lambda>tr. PyDict []),
       scheduler_state_dict = (\<lambda>tr. PyDict []),
       num_class = (\<lambda>d. 10),
       get_dataloaders = (\<lambda>dataset batch dataroot test_ratio split_idx.
          (demo_loader, demo_loader, demo_loader)) \<rparr>"

definition demo_optimizer_conf :: optimizer_conf where
  "demo_optimizer_conf =
     \<lparr> opt_type = Some ''sgd'', opt_momentum = None, opt_decay = Some (1 / 2000),
       opt_nesterov = Some True, opt_clip = None, opt_label_smoothing = None, opt_lars = None \<rparr>"

definition demo_config :: config where
  "demo_config =
     \<lparr> cfg_epoch = Some 2, cfg_dataset = Some ''cifar10'', cfg_batch = Some 128,
       cfg_model = Some ''wresnet28_10'', cfg_lr = Some (1 / 10),
       cfg_optimizer = Some demo_optimizer_conf,
       cfg_lr_schedule = Some \<lparr> sched_type = Some ''cosine'', sched_warmup = None \<rparr> \<rparr>"

text \<open>
  Files for the instance: no file at all; a checkpoint as line 198 writes it, after epoch
  1; and one model state in both shapes, bare and wrapped under \<^verbatim>\<open>state_dict\<close>.
\<close>

definition no_files :: "string \<Rightarrow> (string \<times> real list pyval) list option" where
  "no_files = (\<lambda>p. None)"

definition demo_checkpoint :: "(string \<times> real list pyval) list" where
  "demo_checkpoint =
     [(''epoch'', PyInt 1), (''top1'', PyFloat (1 / 2)),
      (''model'', PyDict [(''fc.weight'', PyTensor [1])]),
      (''optimizer'', PyDict []), (''scheduler'', PyDict [])]"

definition demo_files :: "string \<Rightarrow> (string \<times> real list pyval) list option" where
  "demo_files = (\<lambda>p. if p = ''ckpt.pth'' then Some demo_checkpoint else None)"

definition bare_checkpoint :: "(string \<times> real list pyval) list" where
  "bare_checkpoint = [(''fc.weight'', PyTensor [1]), (''module.fc.bias'', PyTensor [2])]"

definition wrapped_checkpoint :: "(string \<times> real list pyval) list" where
  "wrapped_checkpoint = [(''epoch'', PyInt 1), (''state_dict'', PyDict bare_checkpoint)]"

definition bare_files :: "string \<Rightarrow> (string \<times> real list pyval) list option" where
  "bare_files = (\<lambda>p. if p = ''ckpt.pth'' then Some bare_checkpoint else None)"

definition wrapped_files :: "string \<Rightarrow> (string \<times> real list pyval) list option" where
  "wrapped_files = (\<lambda>p. if p = ''ckpt.pth'' then Some wrapped_checkpoint else None)"

text \<open>
  A checkpoint after epoch 1 whose best value, 0.9, no epoch of the instance reaches. A
  model state with a key that contains \<^verbatim>\<open>module.\<close> without starting with it, bare and wrapped
  under \<^verbatim>\<open>model\<close>.
\<close>

definition best_checkpoint :: "(string \<times> real list pyval) list" where
  "best_checkpoint =
     [(''epoch'', PyInt 1), (''top1'', PyFloat (9 / 10)),
      (''model'', PyDict [(''fc.weight'', PyTensor [1])]),
      (''optimizer'', PyDict []), (''scheduler'', PyDict [])]"

definition best_files :: "string \<Rightarrow> (string \<times> real list pyval) list option" where
  "best_files = (\<lambda>p. if p = ''ckpt.pth'' then Some best_checkpoint else None)"

definition se_checkpoint :: "(string \<times> real list pyval) list" where
  "se_checkpoint = [(''se_module.fc.weight'', PyTensor [1]), (''fc.bias'', PyTensor [2])]"

definition se_wrapped_checkpoint :: "(string \<times> real list pyval) list" where
  "se_wrapped_checkpoint = [(''epoch'', PyInt 1), (''model'', PyDict se_checkpoint)]"

definition se_files :: "string \<Rightarrow> (string \<times> real list pyval) list option" where
  "se_files = (\<lambda>p. if p = ''ckpt.pth'' then Some se_checkpoint else None)"

definition se_wrapped_files :: "string \<Rightarrow> (string \<times> real list pyval) list option" where
  "se_wrapped_files = (\<lambda>p. if p = ''ckpt.pth'' then Some se_wrapped_checkpoint else None)"

text \<open>
  Configurations: \<^verbatim>\<open>optimizer.type\<close> set to \<^verbatim>\<open>adam\<close>, and an \<^verbatim>\<open>lr_schedule\<close> without the key
  \<^verbatim>\<open>type\<close>. What the construction phase builds from the instance's configuration.
\<close>

definition adam_config :: config where
  "adam_config = demo_config \<lparr> cfg_optimizer := Some (demo_optimizer_conf \<lparr> opt_type := Some ''adam'' \<rparr>) \<rparr>"

definition untyped_schedule_config :: config where
  "untyped_schedule_config =
     demo_config \<lparr> cfg_epoch := Some 1,
                   cfg_lr_schedule := Some \<lparr> sched_type = None, sched_warmup = None \<rparr> \<rparr>"

definition demo_built :: "real list built" where
  "demo_built =
     \<lparr> b_max_epoch = 2, b_trainloader = demo_loader, b_validloader = demo_loader, b_testloader = demo_loader,
       b_criterion = CrossEntropyLoss, b_optimizer = SGD (1 / 10) (9 / 10) (1 / 2000) True,
       b_scheduler = CosineAnnealingLR 2 0,
       b_writers = [''./logs/demo/train'', ''./logs/demo/valid'', ''./logs/demo/test''] \<rparr>"

text \<open>
  The scenario of section 8 of the specification: three epochs whose validation top-1
  values are 0.40, 0.55 and 0.50. The model's output depends on how many epochs have been
  reported.
\<close>

definition scenario_ext :: "real list ext" where
  "scenario_ext =
     demo_ext \<lparr> model_call := (\<lambda>tr data.
                  [if length (reports tr) = 0 then 2 / 5 else if length (reports tr) = 1 then 11 / 20 else 1 / 2]),
                get_dataloaders := (\<lambda>dataset batch dataroot test_ratio split_idx.
                  ([([0], [0])], [([0], [0])], [([0], [0])])) \<rparr>"

definition scenario_config :: config where
  "scenario_config = demo_config \<lparr> cfg_epoch := Some 3 \<rparr>"

section \<open>The monad and the accumulator\<close>

lemma returnM_apply [simp]: "returnM x s = (Inr x, s)" by (simp add: returnM_def)

lemma raise_apply [simp]: "raise e s = (Inl e, s)" by (simp add: raise_def)

lemma emit_apply [simp]: "emit ev tr = (Inr (), tr @ [ev])" by (simp add: emit_def)

lemma bindM_apply: "bindM m f s = (case m s of (Inl e, s') \<Rightarrow> (Inl e, s') | (Inr x, s') \<Rightarrow> f x s')"
  by (simp add: bindM_def)

lemma bindM_Inr [simp]: "m s = (Inr x, s') \<Longrightarrow> bindM m f s = f x s'" by (simp add: bindM_def)

lemma bindM_Inl [simp]: "m s = (Inl e, s') \<Longrightarrow> bindM m f s = (Inl e, s')" by (simp add: bindM_def)

lemma whenM_apply [simp]: "whenM c m s = (if c then m s else (Inr (), s))" by (simp add: whenM_def)

lemma getitem_Some [simp]: "getitem k (Some x) s = (Inr x, s)" by (simp add: getitem_def)

lemma getitem_None [simp]: "getitem k None s = (Inl (KeyError k), s)" by (simp add: getitem_def)

lemma scale_apply [simp]: "scale m d s = (if d = 0 then (Inl ZeroDivisionError, s) else (Inr (map (\<lambda>(k, v). (k, v / real d)) m), s))"
  by (simp add: scale_def)

lemma run_batch_ok:
  assumes "0 < tensor_len ext data"
    and "optimizer \<noteq> None \<Longrightarrow> cfg_optimizer cfg = Some oc"
    and "scheduler \<noteq> None \<Longrightarrow> total_steps \<noteq> 0"
  shows "\<exists>loss pf. run_batch ext cfg loss_fn optimizer epoch verbose scheduler total_steps (data, label) (m, cnt, steps) tr =
     (Inr (case batch_values ext loss_fn optimizer tr (data, label) of (l, t1, t5) \<Rightarrow>
            add_dict m [(''loss'', l * real (tensor_len ext data)),
                        (''top1'', t1 * real (tensor_len ext data)),
                        (''top5'', t5 * real (tensor_len ext data))],
           cnt + tensor_len ext data, steps + 1),
      tr @ (if optimizer \<noteq> None then [ZeroGrad] else []) @ [ModelCall data] @
           (if optimizer \<noteq> None then [Backward loss] @ (if dict_get (opt_clip oc) 5 > 0 then [ClipGradNorm (dict_get (opt_clip oc) 5)] else []) @ [OptimizerStep] else []) @
           (if verbose then [SetPostfix pf] else []) @
           (if scheduler \<noteq> None then [SchedulerStep (real_of_int epoch - 1 + real (steps + 1) / real total_steps)] else []))"
  using assms
  by (cases "optimizer = None"; cases "scheduler = None"; cases verbose)
     (simp_all add: run_batch_def batch_values_def bindM_apply Let_def split: prod.splits)

lemma add_dict_shape:
  assumes "acc_shape m"
  shows "add_dict m [(''loss'', a), (''top1'', b), (''top5'', c)] =
         [(''loss'', acc_total m ''loss'' + a), (''top1'', acc_total m ''top1'' + b),
          (''top5'', acc_total m ''top5'' + c)]"
proof (cases "m = []")
  case True
  then show ?thesis by (simp add: add_dict_def acc_add_def acc_total_def dict_get_def)
next
  case False
  with assms obtain A B C where "m = [(''loss'', A), (''top1'', B), (''top5'', C)]"
    by (auto simp: acc_shape_def Cons_eq_map_conv)
  then show ?thesis by (simp add: add_dict_def acc_add_def acc_total_def dict_get_def)
qed

lemma grad_events_append [simp]: "grad_events (xs @ ys) = grad_events xs @ grad_events ys"
  by (simp add: grad_events_def)

lemma sched_steps_append [simp]: "sched_steps (xs @ ys) = sched_steps xs @ sched_steps ys"
  by (simp add: sched_steps_def)

lemma run_batches_ok:
  assumes "list_all (\<lambda>(d, l). 0 < tensor_len ext d) bs"
    and "optimizer \<noteq> None \<Longrightarrow> cfg_optimizer cfg = Some oc"
    and "scheduler \<noteq> None \<Longrightarrow> total_steps \<noteq> 0"
    and "acc_shape m"
  shows "\<exists>m' evs. run_batches ext cfg loss_fn optimizer epoch verbose scheduler total_steps bs (m, cnt, steps) tr =
           (Inr (m', cnt + sum_list (map (\<lambda>(d, l). tensor_len ext d) bs), steps + length bs), tr @ evs)
         \<and> list_all pass_event evs
         \<and> (bs \<noteq> [] \<longrightarrow> m' =
              (let st = batch_stats ext cfg loss_fn optimizer epoch verbose scheduler total_steps bs (m, cnt, steps) tr in
               [(''loss'', acc_total m ''loss'' + sum_list (map (\<lambda>(l, t1, t5, n). l * real n) st)),
                (''top1'', acc_total m ''top1'' + sum_list (map (\<lambda>(l, t1, t5, n). t1 * real n) st)),
                (''top5'', acc_total m ''top5'' + sum_list (map (\<lambda>(l, t1, t5, n). t5 * real n) st))]))
         \<and> (bs = [] \<longrightarrow> m' = m)
         \<and> map snd (map snd (map snd (batch_stats ext cfg loss_fn optimizer epoch verbose scheduler total_steps bs (m, cnt, steps) tr)))
             = map (\<lambda>(d, l). tensor_len ext d) bs
         \<and> (\<exists>ls. length ls = length bs \<and> grad_events evs =
               (if optimizer \<noteq> None
                then concat (map (\<lambda>l. [Backward l] @ (if dict_get (opt_clip oc) 5 > 0 then [ClipGradNorm (dict_get (opt_clip oc) 5)] else []) @ [OptimizerStep]) ls)
                else []))
         \<and> sched_steps evs =
               (if scheduler \<noteq> None
                then map (\<lambda>k. real_of_int epoch - 1 + real k / real total_steps) [steps + 1 ..< steps + length bs + 1]
                else [])"
  using assms
proof (induction bs arbitrary: m cnt steps tr)
  case Nil
  show ?case by (simp add: grad_events_def sched_steps_def)
next
  case (Cons b bs)
  obtain data label where b: "b = (data, label)" by (cases b)
  from Cons.prems(1) b have pos: "0 < tensor_len ext data" and rest: "list_all (\<lambda>(d, l). 0 < tensor_len ext d) bs"
    by simp_all
  obtain l t1 t5 where bv: "batch_values ext loss_fn optimizer tr (data, label) = (l, t1, t5)"
    by (cases "batch_values ext loss_fn optimizer tr (data, label)")
  define m1 where "m1 = [(''loss'', acc_total m ''loss'' + l * real (tensor_len ext data)),
          (''top1'', acc_total m ''top1'' + t1 * real (tensor_len ext data)),
          (''top5'', acc_total m ''top5'' + t5 * real (tensor_len ext data))]"
  from run_batch_ok [where ext=ext and data=data and optimizer=optimizer and cfg=cfg and oc=oc and scheduler=scheduler
      and total_steps=total_steps and loss_fn=loss_fn and label=label and m=m and cnt=cnt and steps=steps and tr=tr
      and epoch=epoch and verbose=verbose, OF pos Cons.prems(2) Cons.prems(3)]
  obtain loss pf evs1 where rb: "run_batch ext cfg loss_fn optimizer epoch verbose scheduler total_steps (data, label) (m, cnt, steps) tr =
      (Inr (m1, cnt + tensor_len ext data, steps + 1), tr @ evs1)"
    and evs1: "evs1 = (if optimizer \<noteq> None then [ZeroGrad] else []) @ [ModelCall data] @
           (if optimizer \<noteq> None then [Backward loss] @ (if dict_get (opt_clip oc) 5 > 0 then [ClipGradNorm (dict_get (opt_clip oc) 5)] else []) @ [OptimizerStep] else []) @
           (if verbose then [SetPostfix pf] else []) @
           (if scheduler \<noteq> None then [SchedulerStep (real_of_int epoch - 1 + real (steps + 1) / real total_steps)] else [])"
    by (auto simp: bv m1_def add_dict_shape [OF Cons.prems(4)])
  have sh1: "acc_shape m1" by (simp add: m1_def acc_shape_def)
  from Cons.IH [where m=m1 and cnt="cnt + tensor_len ext data" and steps="steps + 1" and tr="tr @ evs1",
      OF rest Cons.prems(2) Cons.prems(3) sh1]
  obtain m' evs ls where
    run: "run_batches ext cfg loss_fn optimizer epoch verbose scheduler total_steps bs (m1, cnt + tensor_len ext data, steps + 1) (tr @ evs1) =
           (Inr (m', cnt + tensor_len ext data + sum_list (map (\<lambda>(d, l). tensor_len ext d) bs), steps + 1 + length bs), (tr @ evs1) @ evs)"
    and pe: "list_all pass_event evs"
    and ne: "bs \<noteq> [] \<longrightarrow> m' =
              (let st = batch_stats ext cfg loss_fn optimizer epoch verbose scheduler total_steps bs (m1, cnt + tensor_len ext data, steps + 1) (tr @ evs1) in
               [(''loss'', acc_total m1 ''loss'' + sum_list (map (\<lambda>(l, t1, t5, n). l * real n) st)),
                (''top1'', acc_total m1 ''top1'' + sum_list (map (\<lambda>(l, t1, t5, n). t1 * real n) st)),
                (''top5'', acc_total m1 ''top5'' + sum_list (map (\<lambda>(l, t1, t5, n). t5 * real n) st))])"
    and em: "bs = [] \<longrightarrow> m' = m1"
    and sz: "map snd (map snd (map snd (batch_stats ext cfg loss_fn optimizer epoch verbose scheduler total_steps bs (m1, cnt + tensor_len ext data, steps + 1) (tr @ evs1))))
             = map (\<lambda>(d, l). tensor_len ext d) bs"
    and ls: "length ls = length bs" "grad_events evs =
               (if optimizer \<noteq> None
                then concat (map (\<lambda>l. [Backward l] @ (if dict_get (opt_clip oc) 5 > 0 then [ClipGradNorm (dict_get (opt_clip oc) 5)] else []) @ [OptimizerStep]) ls)
                else [])"
    and ss: "sched_steps evs =
               (if scheduler \<noteq> None
                then map (\<lambda>k. real_of_int epoch - 1 + real k / real total_steps) [steps + 1 + 1 ..< steps + 1 + length bs + 1]
                else [])"
    by blast
  have pe1: "list_all pass_event evs1" by (auto simp: evs1 pass_event_def)
  have g1: "grad_events evs1 = (if optimizer \<noteq> None
                then [Backward loss] @ (if dict_get (opt_clip oc) 5 > 0 then [ClipGradNorm (dict_get (opt_clip oc) 5)] else []) @ [OptimizerStep]
                else [])"
    by (auto simp: evs1 grad_events_def)
  have s1: "sched_steps evs1 = (if scheduler \<noteq> None then [real_of_int epoch - 1 + real (steps + 1) / real total_steps] else [])"
    by (auto simp: evs1 sched_steps_def)
  have run': "run_batches ext cfg loss_fn optimizer epoch verbose scheduler total_steps (b # bs) (m, cnt, steps) tr =
           (Inr (m', cnt + sum_list (map (\<lambda>(d, l). tensor_len ext d) (b # bs)), steps + length (b # bs)), tr @ (evs1 @ evs))"
    using rb run by (simp add: b add.assoc)
  have stats: "batch_stats ext cfg loss_fn optimizer epoch verbose scheduler total_steps (b # bs) (m, cnt, steps) tr =
         (l, t1, t5, tensor_len ext data) #
         batch_stats ext cfg loss_fn optimizer epoch verbose scheduler total_steps bs (m1, cnt + tensor_len ext data, steps + 1) (tr @ evs1)"
    using rb bv by (simp add: b)
  have m': "m' = (let st = batch_stats ext cfg loss_fn optimizer epoch verbose scheduler total_steps (b # bs) (m, cnt, steps) tr in
               [(''loss'', acc_total m ''loss'' + sum_list (map (\<lambda>(l, t1, t5, n). l * real n) st)),
                (''top1'', acc_total m ''top1'' + sum_list (map (\<lambda>(l, t1, t5, n). t1 * real n) st)),
                (''top5'', acc_total m ''top5'' + sum_list (map (\<lambda>(l, t1, t5, n). t5 * real n) st))])"
  proof (cases "bs = []")
    case True
    with em have "m' = m1" by simp
    moreover from stats True
    have "batch_stats ext cfg loss_fn optimizer epoch verbose scheduler total_steps [b] (m, cnt, steps) tr =
          [(l, t1, t5, tensor_len ext data)]" by simp
    ultimately show ?thesis unfolding True by (simp add: m1_def)
  next
    case False
    have t: "acc_total m1 ''loss'' = acc_total m ''loss'' + l * real (tensor_len ext data)"
      "acc_total m1 ''top1'' = acc_total m ''top1'' + t1 * real (tensor_len ext data)"
      "acc_total m1 ''top5'' = acc_total m ''top5'' + t5 * real (tensor_len ext data)"
      by (simp_all add: m1_def acc_total_def dict_get_def)
    from ne False show ?thesis
      unfolding stats by (simp add: Let_def t add.assoc)
  qed
  have gr: "grad_events (evs1 @ evs) =
               (if optimizer \<noteq> None
                then concat (map (\<lambda>l. [Backward l] @ (if dict_get (opt_clip oc) 5 > 0 then [ClipGradNorm (dict_get (opt_clip oc) 5)] else []) @ [OptimizerStep]) (loss # ls))
                else [])"
    by (simp add: g1 ls(2))
  have "[steps + 1 ..< steps + length (b # bs) + 1] = (steps + 1) # [steps + 1 + 1 ..< steps + 1 + length bs + 1]"
    by (subst upt_rec) simp
  then have sc: "sched_steps (evs1 @ evs) =
               (if scheduler \<noteq> None
                then map (\<lambda>k. real_of_int epoch - 1 + real k / real total_steps) [steps + 1 ..< steps + length (b # bs) + 1]
                else [])"
    using s1 ss by simp
  have len: "length (loss # ls) = length (b # bs)" using ls(1) by simp
  have szc: "map snd (map snd (map snd (batch_stats ext cfg loss_fn optimizer epoch verbose scheduler total_steps (b # bs) (m, cnt, steps) tr)))
             = map (\<lambda>(d, l). tensor_len ext d) (b # bs)"
    unfolding stats using sz by (simp add: b)
  have pec: "list_all pass_event (evs1 @ evs)" using pe pe1 by simp
  have nec: "b # bs \<noteq> [] \<longrightarrow> m' = (let st = batch_stats ext cfg loss_fn optimizer epoch verbose scheduler total_steps (b # bs) (m, cnt, steps) tr in
               [(''loss'', acc_total m ''loss'' + sum_list (map (\<lambda>(l, t1, t5, n). l * real n) st)),
                (''top1'', acc_total m ''top1'' + sum_list (map (\<lambda>(l, t1, t5, n). t1 * real n) st)),
                (''top5'', acc_total m ''top5'' + sum_list (map (\<lambda>(l, t1, t5, n). t5 * real n) st))])"
    using m' by blast
  have emc: "b # bs = [] \<longrightarrow> m' = m" by simp
  have grc: "\<exists>ls. length ls = length (b # bs) \<and> grad_events (evs1 @ evs) =
               (if optimizer \<noteq> None
                then concat (map (\<lambda>l. [Backward l] @ (if dict_get (opt_clip oc) 5 > 0 then [ClipGradNorm (dict_get (opt_clip oc) 5)] else []) @ [OptimizerStep]) ls)
                else [])"
    using len gr by blast
  show ?case
    apply (rule exI [of _ m'], rule exI [of _ "evs1 @ evs"])
    apply (intro conjI)
          apply (rule run')
         apply (rule pec)
        apply (rule nec)
       apply (rule emc)
      apply (rule szc)
     apply (rule grc)
    apply (rule sc)
    done
qed

lemma passes_append [simp]: "passes (xs @ ys) = passes xs @ passes ys"
  by (simp add: passes_def)

lemma add_scalars_Some:
  "add_scalars (Some w) m epoch tr = (Inr (), tr @ map (\<lambda>(k, v). AddScalar w k v epoch) m)"
  by (induction m arbitrary: tr) (auto simp: bindM_apply)

lemma weighted_mean_stats:
  "weighted_mean (map (\<lambda>(l, t1, t5, n). (l, n)) st) =
     sum_list (map (\<lambda>(l, t1, t5, n). l * real n) st) / real (sum_list (map snd (map snd (map snd st))))"
  "weighted_mean (map (\<lambda>(l, t1, t5, n). (t1, n)) st) =
     sum_list (map (\<lambda>(l, t1, t5, n). t1 * real n) st) / real (sum_list (map snd (map snd (map snd st))))"
  "weighted_mean (map (\<lambda>(l, t1, t5, n). (t5, n)) st) =
     sum_list (map (\<lambda>(l, t1, t5, n). t5 * real n) st) / real (sum_list (map snd (map snd (map snd st))))"
  by (simp_all add: weighted_mean_def o_def case_prod_unfold)

lemma pass_event_proj:
  assumes "list_all pass_event evs"
  shows "passes evs = []"
  using assms by (induction evs) (auto simp: passes_def pass_event_def split: event.splits)

lemma run_epoch_ok:
  fixes ext :: "'t ext"
  assumes ne: "loader \<noteq> []"
    and pos: "list_all (\<lambda>(d, l). 0 < tensor_len ext d) loader"
    and ep: "verbose \<or> tqdm_disable \<Longrightarrow> cfg_epoch cfg = Some mx"
    and oc: "optimizer \<noteq> None \<Longrightarrow> cfg_optimizer cfg = Some oc"
    and wr: "verbose \<Longrightarrow> writer = Some w"
  shows "\<exists>m evs lrv ls. run_epoch ext cfg tqdm_disable loader loss_fn optimizer desc_default epoch writer verbose scheduler tr =
           (Inr m, tr @ (if verbose then [SetDescription desc_default epoch mx] else []) @ evs)
         \<and> list_all pass_event evs
         \<and> m = (let st = epoch_stats ext cfg loader loss_fn optimizer desc_default epoch verbose scheduler tr in
                [(''loss'', weighted_mean (map (\<lambda>(l, t1, t5, n). (l, n)) st)),
                 (''top1'', weighted_mean (map (\<lambda>(l, t1, t5, n). (t1, n)) st)),
                 (''top5'', weighted_mean (map (\<lambda>(l, t1, t5, n). (t5, n)) st))])
                @ (if optimizer \<noteq> None then [(''lr'', lrv)] else [])
         \<and> map snd (map snd (map snd (epoch_stats ext cfg loader loss_fn optimizer desc_default epoch verbose scheduler tr)))
               = map (\<lambda>(d, l). tensor_len ext d) loader
         \<and> length ls = length loader
         \<and> grad_events evs =
               (if optimizer \<noteq> None
                then concat (map (\<lambda>l. [Backward l] @ (if dict_get (opt_clip oc) 5 > 0 then [ClipGradNorm (dict_get (opt_clip oc) 5)] else []) @ [OptimizerStep]) ls)
                else [])
         \<and> sched_steps evs =
               (if scheduler \<noteq> None
                then map (\<lambda>k. real_of_int epoch - 1 + real k / real (length loader)) [1 ..< length loader + 1]
                else [])"
proof -
  define tr0 where "tr0 = tr @ (if verbose then [SetDescription desc_default epoch mx] else [])"
  have first: "whenM verbose
               (bindM (getitem ''epoch'' (cfg_epoch cfg)) (\<lambda>max_epoch.
                emit (SetDescription desc_default epoch max_epoch))) tr = (Inr (), tr0)"
    using ep by (auto simp: tr0_def bindM_apply)
  have ts: "scheduler \<noteq> None \<Longrightarrow> length loader \<noteq> 0" using ne by simp
  have sh: "acc_shape []" by (simp add: acc_shape_def)
  define st where "st = batch_stats ext cfg loss_fn optimizer epoch verbose scheduler (length loader) loader ([], 0, 0) tr0"
  have st_eq: "epoch_stats ext cfg loader loss_fn optimizer desc_default epoch verbose scheduler tr = st"
    by (simp only: epoch_stats_def first st_def snd_conv)
  define cnt where "cnt = sum_list (map (\<lambda>(d, l). tensor_len ext d) loader)"
  from run_batches_ok [where ext=ext and bs=loader and optimizer=optimizer and cfg=cfg and oc=oc
      and scheduler=scheduler and total_steps="length loader" and m="[]" and cnt=0 and steps=0 and tr=tr0
      and loss_fn=loss_fn and epoch=epoch and verbose=verbose, OF pos oc ts sh]
  obtain m' evs ls where
    run: "run_batches ext cfg loss_fn optimizer epoch verbose scheduler (length loader) loader ([], 0, 0) tr0 =
           (Inr (m', cnt, length loader), tr0 @ evs)"
    and pe: "list_all pass_event evs"
    and m': "m' = [(''loss'', sum_list (map (\<lambda>(l, t1, t5, n). l * real n) st)),
                (''top1'', sum_list (map (\<lambda>(l, t1, t5, n). t1 * real n) st)),
                (''top5'', sum_list (map (\<lambda>(l, t1, t5, n). t5 * real n) st))]"
    and sz: "map snd (map snd (map snd st)) = map (\<lambda>(d, l). tensor_len ext d) loader"
    and ls: "length ls = length loader" "grad_events evs =
               (if optimizer \<noteq> None
                then concat (map (\<lambda>l. [Backward l] @ (if dict_get (opt_clip oc) 5 > 0 then [ClipGradNorm (dict_get (opt_clip oc) 5)] else []) @ [OptimizerStep]) ls)
                else [])"
    and ss: "sched_steps evs =
               (if scheduler \<noteq> None
                then map (\<lambda>k. real_of_int epoch - 1 + real k / real (length loader)) [1 ..< length loader + 1]
                else [])"
    using ne by (auto simp: Let_def acc_total_def dict_get_def st_def cnt_def)
  have cpos: "cnt \<noteq> 0"
  proof -
    obtain d l bs where "loader = (d, l) # bs" using ne by (cases loader) auto
    with pos show ?thesis by (simp add: cnt_def)
  qed
  have cst: "sum_list (map snd (map snd (map snd st))) = cnt" by (simp only: sz cnt_def)
  define ms where "ms = [(''loss'', weighted_mean (map (\<lambda>(l, t1, t5, n). (l, n)) st)),
                 (''top1'', weighted_mean (map (\<lambda>(l, t1, t5, n). (t1, n)) st)),
                 (''top5'', weighted_mean (map (\<lambda>(l, t1, t5, n). (t5, n)) st))]"
  have sc: "map (\<lambda>(k, v). (k, v / real cnt)) m' = ms"
    unfolding m' ms_def weighted_mean_stats cst by simp
  have sc': "scale m' cnt (tr0 @ evs) = (Inr ms, tr0 @ evs)" using cpos sc by simp
  define mf where "mf = (if optimizer \<noteq> None then AList.update ''lr'' (param_lr ext (tr0 @ evs)) ms else ms)"
  have mf: "mf = ms @ (if optimizer \<noteq> None then [(''lr'', param_lr ext (tr0 @ evs))] else [])"
    by (simp add: mf_def ms_def)
  define sevs :: "'t event list" where "sevs = (if verbose then map (\<lambda>(k, v). AddScalar w k v epoch) mf else [])"
  have as: "whenM verbose (add_scalars writer mf epoch) (tr0 @ evs) = (Inr (), (tr0 @ evs) @ sevs)"
    using wr by (auto simp: add_scalars_Some sevs_def)
  have pes: "list_all pass_event sevs"
    by (auto simp: sevs_def pass_event_def list_all_iff)
  have tq: "whenM tqdm_disable
              (bindM (getitem ''epoch'' (cfg_epoch cfg)) (\<lambda>_.
               bindM (scale m' cnt) (\<lambda>_. returnM ()))) (tr0 @ evs) = (Inr (), tr0 @ evs)"
    using ep cpos by (auto simp: bindM_apply)
  have res: "run_epoch ext cfg tqdm_disable loader loss_fn optimizer desc_default epoch writer verbose scheduler tr =
           (Inr mf, tr0 @ evs @ sevs)"
    unfolding run_epoch_def
    by (simp only: bindM_apply first Let_def run prod.case sum.case tq sc' mf_def [symmetric] as
        returnM_apply append_assoc)
  have ge: "grad_events sevs = []" by (auto simp: sevs_def grad_events_def filter_empty_conv)
  have se: "sched_steps sevs = []" by (auto simp: sevs_def sched_steps_def)
  show ?thesis
    apply (rule exI [of _ mf], rule exI [of _ "evs @ sevs"], rule exI [of _ "param_lr ext (tr0 @ evs)"], rule exI [of _ ls])
    apply (intro conjI)
         apply (simp add: res tr0_def)
        apply (simp add: pe pes)
        apply (simp add: st_eq mf ms_def)
       apply (simp only: st_eq sz)
      apply (rule ls(1))
     apply (simp add: ge ls(2))
    apply (simp add: se ss)
    done
qed

section \<open>The phases of train_and_eval\<close>

lemma reports_append [simp]: "reports (xs @ ys) = reports xs @ reports ys"
  by (simp add: reports_def)

lemma saves_append [simp]: "saves (xs @ ys) = saves xs @ saves ys"
  by (simp add: saves_def)

lemma model_loads_append [simp]: "model_loads (xs @ ys) = model_loads xs @ model_loads ys"
  by (simp add: model_loads_def)

lemma pass_event_projs:
  assumes "list_all pass_event evs"
  shows "reports evs = []" "saves evs = []" "model_loads evs = []"
  using assms
  by (induction evs) (auto simp: reports_def saves_def model_loads_def pass_event_def split: event.splits)

lemma in_trace_apply: "in_trace m (tr, fs) = (case m tr of (r, tr') \<Rightarrow> (r, (tr', fs)))"
  by (simp add: in_trace_def)

lemma torch_save_apply: "torch_save obj path (tr, fs) = (Inr (), (tr @ [TorchSave path obj], fs(path \<mapsto> obj)))"
  by (simp add: torch_save_def)

lemma as_number_apply: "as_number v s = (case num_of v of None \<Rightarrow> (Inl (TypeError ''<''), s) | Some x \<Rightarrow> (Inr x, s))"
  by (cases v) (simp_all add: as_number_def num_of_def)

lemma save_if_best_ok:
  assumes "map_of vm metric = Some v" and "best_ok result"
  shows "save_if_best ext metric save_path epoch vm result (tr, fs) =
     (Inr (if improves result v then AList.update ''best_valid'' (PyFloat v) result else result),
      (if improves result v \<and> truthy save_path
       then (tr @ [TorchSave (the save_path)
                     (dict_of [(''epoch'', PyInt epoch), (metric, PyFloat v),
                               (''model'', model_state_dict ext tr),
                               (''optimizer'', optimizer_state_dict ext tr),
                               (''scheduler'', scheduler_state_dict ext tr)])],
             fs(the save_path \<mapsto>
                     dict_of [(''epoch'', PyInt epoch), (metric, PyFloat v),
                               (''model'', model_state_dict ext tr),
                               (''optimizer'', optimizer_state_dict ext tr),
                               (''scheduler'', scheduler_state_dict ext tr)]))
       else (tr, fs)))"
  using assms
  by (auto simp: save_if_best_def bindM_apply acc_getitem_def as_number_apply torch_save_apply
      best_ok_def improves_def split: option.splits)

lemma run_epoch_eval_ok:
  fixes ext :: "'t ext"
  assumes "loader_ok ext loader" and "cfg_epoch cfg = Some mx"
  shows "\<exists>m evs. run_epoch ext cfg tqdm_disable loader loss_fn None desc_default epoch (Some w) True None tr =
           (Inr m, tr @ SetDescription desc_default epoch mx # evs)
         \<and> list_all pass_event evs
         \<and> map fst m = [''loss'', ''top1'', ''top5'']"
proof -
  have ne: "loader \<noteq> []" and pos: "list_all (\<lambda>(d, l). 0 < tensor_len ext d) loader"
    using assms(1) by (simp_all add: loader_ok_def)
  have ep: "True \<or> tqdm_disable \<Longrightarrow> cfg_epoch cfg = Some mx" using assms(2) by simp
  have oc: "(None :: optimizer_obj option) \<noteq> None \<Longrightarrow> cfg_optimizer cfg = Some undefined" by simp
  have wr: "True \<Longrightarrow> Some w = Some w" by simp
  from run_epoch_ok [where ext=ext and cfg=cfg and tqdm_disable=tqdm_disable and loader=loader and loss_fn=loss_fn
      and optimizer=None and desc_default=desc_default and epoch=epoch and writer="Some w" and verbose=True
      and scheduler=None and tr=tr and mx=mx and oc=undefined and w=w, OF ne pos ep oc wr]
  show ?thesis by (auto simp: Let_def)
qed

lemma run_epoch_train_ok:
  fixes ext :: "'t ext"
  assumes "loader_ok ext loader" and "cfg_epoch cfg = Some mx" and "cfg_optimizer cfg = Some oc"
  shows "\<exists>m evs. run_epoch ext cfg tqdm_disable loader loss_fn (Some opt) desc_default epoch (Some w) True None tr =
           (Inr m, tr @ SetDescription desc_default epoch mx # evs)
         \<and> list_all pass_event evs"
proof -
  have ne: "loader \<noteq> []" and pos: "list_all (\<lambda>(d, l). 0 < tensor_len ext d) loader"
    using assms(1) by (simp_all add: loader_ok_def)
  have ep: "True \<or> tqdm_disable \<Longrightarrow> cfg_epoch cfg = Some mx" using assms(2) by simp
  have oc: "Some opt \<noteq> None \<Longrightarrow> cfg_optimizer cfg = Some oc" using assms(3) by simp
  have wr: "True \<Longrightarrow> Some w = Some w" by simp
  from run_epoch_ok [where ext=ext and cfg=cfg and tqdm_disable=tqdm_disable and loader=loader and loss_fn=loss_fn
      and optimizer="Some opt" and desc_default=desc_default and epoch=epoch and writer="Some w" and verbose=True
      and scheduler=None and tr=tr and mx=mx and oc=oc and w=w, OF ne pos ep oc wr]
  show ?thesis by (auto simp: Let_def)
qed

lemma pass_event_not_load:
  assumes "list_all pass_event evs"
  shows "list_all (\<lambda>e. \<not> load_event e) evs"
  using assms
  by (induction evs) (auto simp: pass_event_def load_event_def split: event.splits)

lemma train_epoch_ok:
  fixes ext :: "'t ext"
  assumes ep: "cfg_epoch cfg = Some mx"
    and oc: "cfg_optimizer cfg = Some oc"
    and ltr: "loader_ok ext (b_trainloader b)"
    and lva: "loader_ok ext (b_validloader b)"
    and lte: "loader_ok ext (b_testloader b)"
    and met: "metric \<in> {''loss'', ''top1'', ''top5''}"
    and best: "best_ok result"
  shows "\<exists>tm vm ts v ckpt evs.
     train_epoch ext cfg tqdm_disable b metric save_path epoch result (tr, fs) =
       (Inr (if improves result v then AList.update ''best_valid'' (PyFloat v) result else result),
        (tr @ evs, if improves result v \<and> truthy save_path then fs(the save_path \<mapsto> ckpt) else fs))
     \<and> map_of vm metric = Some v
     \<and> reports evs = [(epoch, tm, vm, if mx - epoch \<le> 5 then Some ts else None)]
     \<and> saves evs = (if improves result v \<and> truthy save_path then [(the save_path, ckpt)] else [])
     \<and> map_of ckpt ''epoch'' = Some (PyInt epoch)
     \<and> map_of ckpt metric = Some (PyFloat v)
     \<and> passes evs = [(''train'', epoch), (''valid'', epoch)] @ (if mx - epoch \<le> 5 then [(''test '', epoch)] else [])
     \<and> model_loads evs = []
     \<and> list_all (\<lambda>e. \<not> load_event e) evs"
proof -
  define tr1 where "tr1 = (tr @ [ModelCuda]) @ [ModelTrain]"
  from run_epoch_train_ok [OF ltr ep oc, where tqdm_disable=tqdm_disable and loss_fn="b_criterion b" and opt="b_optimizer b"
      and desc_default="''train''" and epoch=epoch and w="b_writers b ! 0" and tr=tr1]
  obtain tm e1 where r1: "run_epoch ext cfg tqdm_disable (b_trainloader b) (b_criterion b) (Some (b_optimizer b))
        ''train'' epoch (Some (b_writers b ! 0)) True None tr1 = (Inr tm, tr1 @ SetDescription ''train'' epoch mx # e1)"
    and p1: "list_all pass_event e1" by auto
  define tr2 where "tr2 = (tr1 @ SetDescription ''train'' epoch mx # e1) @ [ModelEval]"
  from run_epoch_eval_ok [OF lva ep, where tqdm_disable=tqdm_disable and loss_fn="b_criterion b"
      and desc_default="''valid''" and epoch=epoch and w="b_writers b ! 1" and tr=tr2]
  obtain vm e2 where r2: "run_epoch ext cfg tqdm_disable (b_validloader b) (b_criterion b) None
        ''valid'' epoch (Some (b_writers b ! 1)) True None tr2 = (Inr vm, tr2 @ SetDescription ''valid'' epoch mx # e2)"
    and p2: "list_all pass_event e2" and k2: "map fst vm = [''loss'', ''top1'', ''top5'']" by auto
  define tr3 where "tr3 = tr2 @ SetDescription ''valid'' epoch mx # e2"
  have blk1: "in_trace
       (bindM (emit ModelCuda) (\<lambda>_.
        bindM (emit ModelTrain) (\<lambda>_.
        bindM (run_epoch ext cfg tqdm_disable (b_trainloader b) (b_criterion b)
                 (Some (b_optimizer b)) ''train'' epoch (Some (b_writers b ! 0)) True None) (\<lambda>train_metrics.
        bindM (emit ModelEval) (\<lambda>_.
        bindM (run_epoch ext cfg tqdm_disable (b_validloader b) (b_criterion b)
                 None ''valid'' epoch (Some (b_writers b ! 1)) True None) (\<lambda>valid_metrics.
        returnM (train_metrics, valid_metrics))))))) (tr, fs) = (Inr (tm, vm), (tr3, fs))"
    by (simp only: in_trace_apply bindM_apply emit_apply prod.case sum.case tr1_def [symmetric] r1
        tr2_def [symmetric] r2 tr3_def [symmetric] returnM_apply)
  obtain v where v: "map_of vm metric = Some v"
  proof -
    from k2 obtain a b c where "vm = [(''loss'', a), (''top1'', b), (''top5'', c)]"
      by (auto simp: Cons_eq_map_conv)
    with met that show ?thesis by auto
  qed
  define ckpt where "ckpt = dict_of [(''epoch'', PyInt epoch), (metric, PyFloat v),
                               (''model'', model_state_dict ext tr3),
                               (''optimizer'', optimizer_state_dict ext tr3),
                               (''scheduler'', scheduler_state_dict ext tr3)]"
  define better where "better = (improves result v \<and> truthy save_path)"
  define result' where "result' = (if improves result v then AList.update ''best_valid'' (PyFloat v) result else result)"
  define sv where "sv = (if better then [TorchSave (the save_path) ckpt] else [])"
  define fs' where "fs' = (if better then fs(the save_path \<mapsto> ckpt) else fs)"
  have blk2: "save_if_best ext metric save_path epoch vm result (tr3, fs) = (Inr result', (tr3 @ sv, fs'))"
    by (simp add: save_if_best_ok [OF v best] ckpt_def better_def result'_def sv_def fs'_def)
  define tr4 where "tr4 = tr3 @ sv"
  from run_epoch_eval_ok [OF lte ep, where tqdm_disable=tqdm_disable and loss_fn="b_criterion b"
      and desc_default="''test ''" and epoch=epoch and w="b_writers b ! 2" and tr=tr4]
  obtain ts e3 where r3: "run_epoch ext cfg tqdm_disable (b_testloader b) (b_criterion b) None
        ''test '' epoch (Some (b_writers b ! 2)) True None tr4 = (Inr ts, tr4 @ SetDescription ''test '' epoch mx # e3)"
    and p3: "list_all pass_event e3" by auto
  define tse where "tse = (if mx - epoch \<le> 5 then SetDescription ''test '' epoch mx # e3 else [])"
  define tso where "tso = (if mx - epoch \<le> 5 then Some ts else None)"
  have tst: "(if mx - epoch \<le> 5 then
                 bindM (run_epoch ext cfg tqdm_disable (b_testloader b) (b_criterion b)
                          None ''test '' epoch (Some (b_writers b ! 2)) True None) (\<lambda>test_metrics.
                 returnM (Some test_metrics))
               else returnM None) tr4 = (Inr tso, tr4 @ tse)"
    by (simp add: bindM_apply r3 tse_def tso_def)
  have blk3: "in_trace
       (bindM (getitem ''epoch'' (cfg_epoch cfg)) (\<lambda>e.
        bindM (if e - epoch \<le> 5 then
                 bindM (run_epoch ext cfg tqdm_disable (b_testloader b) (b_criterion b)
                          None ''test '' epoch (Some (b_writers b ! 2)) True None) (\<lambda>test_metrics.
                 returnM (Some test_metrics))
               else returnM None) (\<lambda>test_metrics.
        bindM (emit (Reporter epoch tm vm test_metrics)) (\<lambda>_.
        emit (SchedulerStep (real_of_int epoch)))))) (tr4, fs') =
      (Inr (), (((tr4 @ tse) @ [Reporter epoch tm vm tso]) @ [SchedulerStep (real_of_int epoch)], fs'))"
    by (simp only: in_trace_apply bindM_apply ep getitem_Some prod.case sum.case tst emit_apply)
  define evs where "evs = [ModelCuda, ModelTrain] @ SetDescription ''train'' epoch mx # e1 @ [ModelEval]
      @ SetDescription ''valid'' epoch mx # e2 @ sv @ tse @ [Reporter epoch tm vm tso, SchedulerStep (real_of_int epoch)]"
  have trf: "((tr4 @ tse) @ [Reporter epoch tm vm tso]) @ [SchedulerStep (real_of_int epoch)] = tr @ evs"
    by (simp add: tr4_def tr3_def tr2_def tr1_def evs_def)
  have run: "train_epoch ext cfg tqdm_disable b metric save_path epoch result (tr, fs) = (Inr result', (tr @ evs, fs'))"
    unfolding train_epoch_def
    by (simp only: bindM_apply blk1 prod.case sum.case blk2 tr4_def [symmetric] blk3 returnM_apply trf)
  have pr1: "reports e1 = []" "saves e1 = []" "model_loads e1 = []" "passes e1 = []"
    using p1 by (simp_all add: pass_event_projs pass_event_proj)
  have pr2: "reports e2 = []" "saves e2 = []" "model_loads e2 = []" "passes e2 = []"
    using p2 by (simp_all add: pass_event_projs pass_event_proj)
  have pr3: "reports e3 = []" "saves e3 = []" "model_loads e3 = []" "passes e3 = []"
    using p3 by (simp_all add: pass_event_projs pass_event_proj)
  have single: "reports [e] = (case e of Reporter ep tm vm ts \<Rightarrow> [(ep, tm, vm, ts)] | _ \<Rightarrow> [])"
    "saves [e] = (case e of TorchSave p obj \<Rightarrow> [(p, obj)] | _ \<Rightarrow> [])"
    "model_loads [e] = (case e of ModelLoadStateDict d \<Rightarrow> [d] | _ \<Rightarrow> [])"
    "passes [e] = (case e of SetDescription d ep mx \<Rightarrow> [(d, ep)] | _ \<Rightarrow> [])" for e :: "'t event"
    by (simp_all add: reports_def saves_def model_loads_def passes_def)
  have cons: "reports (e # es) = reports [e] @ reports es" "saves (e # es) = saves [e] @ saves es"
    "model_loads (e # es) = model_loads [e] @ model_loads es" "passes (e # es) = passes [e] @ passes es"
    for e :: "'t event" and es
    by (simp_all add: reports_def saves_def model_loads_def passes_def)
  have nil: "reports ([] :: 't event list) = []" "saves ([] :: 't event list) = []"
    "model_loads ([] :: 't event list) = []" "passes ([] :: 't event list) = []"
    by (simp_all add: reports_def saves_def model_loads_def passes_def)
  have ptse: "reports tse = []" "saves tse = []" "model_loads tse = []"
    "passes tse = (if mx - epoch \<le> 5 then [(''test '', epoch)] else [])"
    by (simp_all add: tse_def cons [of _ e3] single pr3 nil)
  have psv: "reports sv = []" "saves sv = (if better then [(the save_path, ckpt)] else [])" "model_loads sv = []"
    "passes sv = []"
    by (simp_all add: sv_def single nil)
  have c1: "reports evs = [(epoch, tm, vm, tso)]"
    unfolding evs_def by (simp add: cons [of _ "_ # _"] cons [of _ "_ @ _"] single pr1 pr2 ptse psv nil)
  have c2: "saves evs = (if better then [(the save_path, ckpt)] else [])"
    unfolding evs_def by (simp add: cons [of _ "_ # _"] cons [of _ "_ @ _"] single pr1 pr2 ptse psv nil)
  have c3: "model_loads evs = []"
    unfolding evs_def by (simp add: cons [of _ "_ # _"] cons [of _ "_ @ _"] single pr1 pr2 ptse psv nil)
  have c4: "passes evs = [(''train'', epoch), (''valid'', epoch)] @ (if mx - epoch \<le> 5 then [(''test '', epoch)] else [])"
    unfolding evs_def by (simp add: cons [of _ "_ # _"] cons [of _ "_ @ _"] single pr1 pr2 ptse psv nil)
  have k1: "map_of ckpt ''epoch'' = Some (PyInt epoch)" and k2: "map_of ckpt metric = Some (PyFloat v)"
    using met by (auto simp: ckpt_def dict_of_def)
  have c5: "list_all (\<lambda>e. \<not> load_event e) evs"
    using pass_event_not_load [OF p1] pass_event_not_load [OF p2] pass_event_not_load [OF p3]
    by (simp add: evs_def sv_def tse_def load_event_def)
  show ?thesis
    apply (rule exI [of _ tm], rule exI [of _ vm], rule exI [of _ ts], rule exI [of _ v], rule exI [of _ ckpt],
        rule exI [of _ evs])
    apply (intro conjI)
            apply (simp add: run result'_def fs'_def better_def)
           apply (rule v)
          apply (simp add: c1 tso_def)
         apply (simp add: c2 better_def)
        apply (rule k1)
       apply (rule k2)
      apply (rule c4)
     apply (rule c3)
    apply (rule c5)
    done
qed

lemma best_ok_update: "best_ok (AList.update ''best_valid'' (PyFloat v) result)"
  by (simp add: best_ok_def update_conv' num_of_def)

lemma best_value_step:
  assumes "best_ok result"
  shows "best_value (if improves result v then AList.update ''best_valid'' (PyFloat v) result else result) =
         (case best_value result of None \<Rightarrow> Some v | Some b \<Rightarrow> if b < v then Some v else Some b)"
  using assms
  by (auto simp: best_value_def best_ok_def improves_def update_conv' num_of_def split: option.splits)

lemma track_best_append: "track_best best (xs @ ys) = track_best (track_best best xs) ys"
  by (induction xs arbitrary: best) simp_all

lemma valid_values_append [simp]: "valid_values metric (xs @ ys) = valid_values metric xs @ valid_values metric ys"
  by (simp add: valid_values_def)

lemma train_loop_ok:
  fixes ext :: "'t ext"
  assumes ep: "cfg_epoch cfg = Some mx"
    and oc: "cfg_optimizer cfg = Some oc"
    and ltr: "loader_ok ext (b_trainloader b)"
    and lva: "loader_ok ext (b_validloader b)"
    and lte: "loader_ok ext (b_testloader b)"
    and met: "metric \<in> {''loss'', ''top1'', ''top5''}"
    and best: "best_ok result"
  shows "\<exists>result' evs fs'.
     train_loop ext cfg tqdm_disable b metric save_path epochs result (tr, fs) = (Inr result', (tr @ evs, fs'))
     \<and> best_ok result'
     \<and> map (\<lambda>(e, tm, vm, ts). (e, ts \<noteq> None)) (reports evs) = map (\<lambda>e. (e, mx - e \<le> 5)) epochs
     \<and> passes evs = concat (map (epoch_passes mx) epochs)
     \<and> model_loads evs = []
     \<and> list_all (\<lambda>e. \<not> load_event e) evs
     \<and> best_value result' = track_best (best_value result) (valid_values metric evs)"
  using best
proof (induction epochs arbitrary: result tr fs)
  case Nil
  show ?case
    by (simp add: Nil.prems reports_def passes_def model_loads_def valid_values_def)
next
  case (Cons epoch epochs)
  from train_epoch_ok [OF ep oc ltr lva lte met Cons.prems, where tqdm_disable=tqdm_disable and save_path=save_path
      and epoch=epoch and tr=tr and fs=fs]
  obtain tm vm ts v ckpt e1 where
    r1: "train_epoch ext cfg tqdm_disable b metric save_path epoch result (tr, fs) =
       (Inr (if improves result v then AList.update ''best_valid'' (PyFloat v) result else result),
        (tr @ e1, if improves result v \<and> truthy save_path then fs(the save_path \<mapsto> ckpt) else fs))"
    and rp1: "reports e1 = [(epoch, tm, vm, if mx - epoch \<le> 5 then Some ts else None)]"
    and ps1: "passes e1 = [(''train'', epoch), (''valid'', epoch)] @ (if mx - epoch \<le> 5 then [(''test '', epoch)] else [])"
    and ml1: "model_loads e1 = []"
    and vv1: "map_of vm metric = Some v"
    and nl1: "list_all (\<lambda>e. \<not> load_event e) e1"
    by auto
  define result1 where "result1 = (if improves result v then AList.update ''best_valid'' (PyFloat v) result else result)"
  define fs1 where "fs1 = (if improves result v \<and> truthy save_path then fs(the save_path \<mapsto> ckpt) else fs)"
  have b1: "best_ok result1" using Cons.prems by (simp add: result1_def best_ok_update)
  from Cons.IH [OF b1, where tr="tr @ e1" and fs=fs1]
  obtain result' e2 fs' where
    r2: "train_loop ext cfg tqdm_disable b metric save_path epochs result1 (tr @ e1, fs1) = (Inr result', ((tr @ e1) @ e2, fs'))"
    and b2: "best_ok result'"
    and rp2: "map (\<lambda>(e, tm, vm, ts). (e, ts \<noteq> None)) (reports e2) = map (\<lambda>e. (e, mx - e \<le> 5)) epochs"
    and ps2: "passes e2 = concat (map (epoch_passes mx) epochs)"
    and ml2: "model_loads e2 = []"
    and nl2: "list_all (\<lambda>e. \<not> load_event e) e2"
    and bv2: "best_value result' = track_best (best_value result1) (valid_values metric e2)"
    by auto
  have run: "train_loop ext cfg tqdm_disable b metric save_path (epoch # epochs) result (tr, fs) = (Inr result', (tr @ (e1 @ e2), fs'))"
    using r1 r2 by (simp add: bindM_apply result1_def fs1_def)
  have c1: "map (\<lambda>(e, tm, vm, ts). (e, ts \<noteq> None)) (reports (e1 @ e2)) = map (\<lambda>e. (e, mx - e \<le> 5)) (epoch # epochs)"
    using rp1 rp2 by simp
  have c2: "passes (e1 @ e2) = concat (map (epoch_passes mx) (epoch # epochs))"
    by (simp add: ps1 ps2 epoch_passes_def)
  have c3: "model_loads (e1 @ e2) = []" by (simp add: ml1 ml2)
  have c4: "list_all (\<lambda>e. \<not> load_event e) (e1 @ e2)" using nl1 nl2 by simp
  have vv: "valid_values metric e1 = [v]" by (simp add: valid_values_def rp1 vv1)
  have bv1: "best_value result1 = track_best (best_value result) [v]"
    unfolding result1_def by (simp add: best_value_step [OF Cons.prems])
  have c5: "best_value result' = track_best (best_value result) (valid_values metric (e1 @ e2))"
    by (simp only: valid_values_append track_best_append vv bv2 bv1)
  show ?case
    by (intro exI [of _ result'] exI [of _ "e1 @ e2"] exI [of _ fs'] conjI run b2 c1 c2 c3 c4 c5)
qed

lemma construct_event_simps [simp]:
  "construct_event (GetModel n c)" "construct_event (NewOptimizer x)" "construct_event (NewScheduler y)"
  by (simp_all add: construct_event_def)

lemma make_optimizer_cases:
  "make_optimizer cfg oc tr =
       (if opt_type oc = None then (Inl (KeyError ''type''), tr)
        else if opt_type oc \<noteq> Some ''sgd'' then (Inl (ValueError (''invalid optimizer type='' @ the (opt_type oc))), tr)
        else if cfg_lr cfg = None then (Inl (KeyError ''lr''), tr)
        else if opt_decay oc = None then (Inl (KeyError ''decay''), tr)
        else if opt_nesterov oc = None then (Inl (KeyError ''nesterov''), tr)
        else (Inr (SGD (the (cfg_lr cfg)) (dict_get (opt_momentum oc) (9 / 10)) (the (opt_decay oc)) (the (opt_nesterov oc))),
              tr @ [NewOptimizer (SGD (the (cfg_lr cfg)) (dict_get (opt_momentum oc) (9 / 10)) (the (opt_decay oc)) (the (opt_nesterov oc)))]))"
  by (cases "opt_type oc"; cases "cfg_lr cfg"; cases "opt_decay oc"; cases "opt_nesterov oc")
     (simp_all add: make_optimizer_def bindM_apply Let_def)

lemma make_scheduler_cases:
  fixes tr :: "'t event list"
  shows "\<exists>r evs. make_scheduler cfg T tr = (r, tr @ evs) \<and> list_all construct_event evs
     \<and> (case cfg_lr_schedule cfg of
          None \<Rightarrow> r = Inl (KeyError ''lr_schedule'')
        | Some ls \<Rightarrow>
            (if sched_type ls \<notin> {None, Some ''cosine'', Some ''resnet''}
             then r = Inl (ValueError (''invalid lr_schduler='' @ the (sched_type ls)))
             else if sched_ok ls then \<not> isl r else (\<exists>k. r = Inl (KeyError k))))"
proof (cases "cfg_lr_schedule cfg")
  case None
  then show ?thesis by (simp add: make_scheduler_def bindM_apply)
next
  case (Some ls)
  show ?thesis
  proof (cases "sched_type ls \<in> {None, Some ''cosine'', Some ''resnet''}")
    case False
    then show ?thesis using Some
      by (cases "sched_type ls") (auto simp: make_scheduler_def bindM_apply Let_def dict_get_def)
  next
    case True
    define s0 where "s0 = (if dict_get (sched_type ls) ''cosine'' = ''cosine'' then CosineAnnealingLR T 0 else adjust_learning_rate_resnet)"
    have first: "(if dict_get (sched_type ls) ''cosine'' = ''cosine'' then
              bindM (emit (NewScheduler (CosineAnnealingLR T 0))) (\<lambda>_.
              returnM (CosineAnnealingLR T 0))
            else if dict_get (sched_type ls) ''cosine'' = ''resnet'' then
              bindM (emit (NewScheduler adjust_learning_rate_resnet)) (\<lambda>_.
              returnM adjust_learning_rate_resnet)
            else raise (ValueError (''invalid lr_schduler='' @ dict_get (sched_type ls) ''cosine''))) tr
         = (Inr s0, tr @ [NewScheduler s0 :: 't event])"
      using True by (auto simp: dict_get_def bindM_apply s0_def)
    show ?thesis
    proof (cases "sched_warmup ls")
      case None
      with True Some first show ?thesis
        by (intro exI [of _ "Inr s0"] exI [of _ "[NewScheduler s0]"])
           (simp add: make_scheduler_def bindM_apply Let_def sched_ok_def)
    next
      case wu: (Some wu)
      show ?thesis
      proof (cases "warmup_multiplier wu")
        case None
        show ?thesis
        proof (cases "warmup_epoch wu")
          case n2: None
          with None wu True Some first show ?thesis
            by (intro exI [of _ "Inr s0"] exI [of _ "[NewScheduler s0]"])
               (simp add: make_scheduler_def bindM_apply Let_def sched_ok_def)
        next
          case s2: (Some te)
          with None wu True Some first show ?thesis
            by (intro exI [of _ "Inl (KeyError ''multiplier'')"] exI [of _ "[NewScheduler s0]"])
               (simp add: make_scheduler_def bindM_apply Let_def sched_ok_def)
        qed
      next
        case (Some mu)
        note mu = this
        show ?thesis
        proof (cases "warmup_epoch wu")
          case None
          with mu wu True \<open>cfg_lr_schedule cfg = Some ls\<close> first show ?thesis
            by (intro exI [of _ "Inl (KeyError ''epoch'')"] exI [of _ "[NewScheduler s0]"])
               (simp add: make_scheduler_def bindM_apply Let_def sched_ok_def)
        next
          case (Some te)
          with mu wu True \<open>cfg_lr_schedule cfg = Some ls\<close> first show ?thesis
            by (intro exI [of _ "Inr (GradualWarmupScheduler mu te s0)"]
                exI [of _ "[NewScheduler s0, NewScheduler (GradualWarmupScheduler mu te s0)]"])
               (simp add: make_scheduler_def bindM_apply Let_def sched_ok_def)
        qed
      qed
    qed
  qed
qed

lemma make_optimizer_fail:
  assumes "\<not> (opt_type oc = Some ''sgd'' \<and> cfg_lr cfg \<noteq> None \<and> opt_decay oc \<noteq> None \<and> opt_nesterov oc \<noteq> None)"
  shows "\<exists>e. make_optimizer cfg oc tr = (Inl e, tr) \<and> config_error e
     \<and> (\<forall>ty. opt_type oc = Some ty \<longrightarrow> ty \<noteq> ''sgd'' \<longrightarrow> e = ValueError (''invalid optimizer type='' @ ty))"
proof (cases "opt_type oc")
  case None
  then show ?thesis by (simp add: make_optimizer_cases config_error_def)
next
  case (Some ty)
  show ?thesis
  proof (cases "ty = ''sgd''")
    case False
    with Some show ?thesis by (simp add: make_optimizer_cases config_error_def)
  next
    case True
    with Some assms show ?thesis
      by (cases "cfg_lr cfg"; cases "opt_decay oc"; cases "opt_nesterov oc")
         (simp_all add: make_optimizer_cases config_error_def)
  qed
qed

lemma build_unfold:
  assumes "cfg_epoch cfg = Some mx" "cfg_dataset cfg = Some ds" "cfg_batch cfg = Some bt"
    "cfg_model cfg = Some mn" "cfg_optimizer cfg = Some oc"
  shows "build ext cfg tag dataroot test_ratio cv_fold tr =
     (case make_optimizer cfg oc (tr @ [GetModel mn (num_class ext ds)]) of
        (Inl e, tr1) \<Rightarrow> (Inl e, tr1)
      | (Inr opt, tr1) \<Rightarrow>
          (case make_scheduler cfg mx (if dict_get (opt_lars oc) False then tr1 @ [NewOptimizer (LARS opt)] else tr1) of
             (Inl e, tr3) \<Rightarrow> (Inl e, tr3)
           | (Inr sch, tr3) \<Rightarrow>
               (Inr \<lparr> b_max_epoch = mx,
                      b_trainloader = fst (get_dataloaders ext ds bt dataroot test_ratio cv_fold),
                      b_validloader = fst (snd (get_dataloaders ext ds bt dataroot test_ratio cv_fold)),
                      b_testloader = snd (snd (get_dataloaders ext ds bt dataroot test_ratio cv_fold)),
                      b_criterion = (if dict_get (opt_label_smoothing oc) 0 > 0
                                     then SmoothCrossEntropyLoss (dict_get (opt_label_smoothing oc) 0)
                                     else CrossEntropyLoss),
                      b_optimizer = (if dict_get (opt_lars oc) False then LARS opt else opt),
                      b_scheduler = sch,
                      b_writers = map (\<lambda>x. ''./logs/'' @ (case tag of None \<Rightarrow> ''None'' | Some t \<Rightarrow> t) @ ''/'' @ x)
                                    [''train'', ''valid'', ''test''] \<rparr>, tr3)))"
  using assms
  by (simp add: build_def bindM_apply Let_def split: prod.splits sum.splits)

lemma build_cases:
  fixes tr :: "'t event list"
  shows "\<exists>r evs. build ext cfg tag dataroot test_ratio cv_fold tr = (r, tr @ evs) \<and> list_all construct_event evs
     \<and> (if config_ok cfg
         then (\<exists>b. r = Inr b \<and> cfg_epoch cfg = Some (b_max_epoch b)
                 \<and> (b_trainloader b, b_validloader b, b_testloader b) =
                     get_dataloaders ext (the (cfg_dataset cfg)) (the (cfg_batch cfg)) dataroot test_ratio cv_fold)
         else (\<exists>e. r = Inl e \<and> config_error e))
     \<and> (cfg_epoch cfg \<noteq> None \<and> cfg_dataset cfg \<noteq> None \<and> cfg_batch cfg \<noteq> None \<and> cfg_model cfg \<noteq> None
          \<longrightarrow> (case cfg_optimizer cfg of
                 None \<Rightarrow> True
               | Some oc \<Rightarrow>
                   (case opt_type oc of
                      None \<Rightarrow> True
                    | Some ty \<Rightarrow>
                        if ty \<noteq> ''sgd'' then r = Inl (ValueError (''invalid optimizer type='' @ ty))
                        else (cfg_lr cfg \<noteq> None \<and> opt_decay oc \<noteq> None \<and> opt_nesterov oc \<noteq> None
                              \<longrightarrow> (case cfg_lr_schedule cfg of
                                     None \<Rightarrow> True
                                   | Some ls \<Rightarrow>
                                       (case sched_type ls of
                                          None \<Rightarrow> True
                                        | Some sty \<Rightarrow> sty \<notin> {''cosine'', ''resnet''}
                                            \<longrightarrow> r = Inl (ValueError (''invalid lr_schduler='' @ sty))))))))"
proof -
  have nil: "list_all construct_event ([] :: 't event list)" by simp
  consider (e) "cfg_epoch cfg = None"
    | (d) mx where "cfg_epoch cfg = Some mx" "cfg_dataset cfg = None"
    | (b) mx ds where "cfg_epoch cfg = Some mx" "cfg_dataset cfg = Some ds" "cfg_batch cfg = None"
    | (m) mx ds bt where "cfg_epoch cfg = Some mx" "cfg_dataset cfg = Some ds" "cfg_batch cfg = Some bt" "cfg_model cfg = None"
    | (o) mx ds bt mn where "cfg_epoch cfg = Some mx" "cfg_dataset cfg = Some ds" "cfg_batch cfg = Some bt"
        "cfg_model cfg = Some mn" "cfg_optimizer cfg = None"
    | (ok) mx ds bt mn oc where "cfg_epoch cfg = Some mx" "cfg_dataset cfg = Some ds" "cfg_batch cfg = Some bt"
        "cfg_model cfg = Some mn" "cfg_optimizer cfg = Some oc"
    by (cases "cfg_epoch cfg"; cases "cfg_dataset cfg"; cases "cfg_batch cfg"; cases "cfg_model cfg";
        cases "cfg_optimizer cfg") auto
  then show ?thesis
  proof cases
    case e
    then show ?thesis
      by (intro exI [of _ "Inl (KeyError ''epoch'')"] exI [of _ "[]"])
         (simp add: build_def bindM_apply config_ok_def config_error_def)
  next
    case d
    then show ?thesis
      by (intro exI [of _ "Inl (KeyError ''dataset'')"] exI [of _ "[]"])
         (simp add: build_def bindM_apply config_ok_def config_error_def)
  next
    case b
    then show ?thesis
      by (intro exI [of _ "Inl (KeyError ''batch'')"] exI [of _ "[]"])
         (simp add: build_def bindM_apply config_ok_def config_error_def)
  next
    case m
    then show ?thesis
      by (intro exI [of _ "Inl (KeyError ''model'')"] exI [of _ "[]"])
         (simp add: build_def bindM_apply config_ok_def config_error_def split: prod.splits)
  next
    case o
    then show ?thesis
      by (intro exI [of _ "Inl (KeyError ''optimizer'')"] exI [of _ "[GetModel mn (num_class ext ds)]"])
         (simp add: build_def bindM_apply config_ok_def config_error_def split: prod.splits)
  next
    case ok
    note bu = build_unfold [OF ok, of ext tag dataroot test_ratio cv_fold tr]
    define tr0 where "tr0 = tr @ [GetModel mn (num_class ext ds)]"
    show ?thesis
    proof (cases "opt_type oc = Some ''sgd'' \<and> cfg_lr cfg \<noteq> None \<and> opt_decay oc \<noteq> None \<and> opt_nesterov oc \<noteq> None")
      case False
      from make_optimizer_fail [OF this, of tr0]
      obtain e where mo: "make_optimizer cfg oc tr0 = (Inl e, tr0)" and ce: "config_error e"
        and ty: "\<And>ty. opt_type oc = Some ty \<Longrightarrow> ty \<noteq> ''sgd'' \<Longrightarrow> e = ValueError (''invalid optimizer type='' @ ty)"
        by blast
      from False ok mo ce ty show ?thesis
        by (intro exI [of _ "Inl e"] exI [of _ "[GetModel mn (num_class ext ds)]"])
           (auto simp: bu tr0_def [symmetric] config_ok_def split: option.splits)
    next
      case True
      define opt where "opt = SGD (the (cfg_lr cfg)) (dict_get (opt_momentum oc) (9 / 10)) (the (opt_decay oc)) (the (opt_nesterov oc))"
      define tr2 where "tr2 = (if dict_get (opt_lars oc) False then (tr0 @ [NewOptimizer opt]) @ [NewOptimizer (LARS opt)] else tr0 @ [NewOptimizer opt])"
      define e2 :: "'t event list" where "e2 = [GetModel mn (num_class ext ds), NewOptimizer opt] @ (if dict_get (opt_lars oc) False then [NewOptimizer (LARS opt)] else [])"
      have tr2: "tr2 = tr @ e2" by (simp add: tr2_def e2_def tr0_def)
      have c2: "list_all construct_event e2" by (simp add: e2_def)
      from True have mo: "make_optimizer cfg oc tr0 = (Inr opt, tr0 @ [NewOptimizer opt])"
        by (auto simp: make_optimizer_cases opt_def)
      from make_scheduler_cases [of cfg mx tr2]
      obtain r3 e3 where ms: "make_scheduler cfg mx tr2 = (r3, tr2 @ e3)" and c3: "list_all construct_event e3"
        and k3: "(case cfg_lr_schedule cfg of
          None \<Rightarrow> r3 = Inl (KeyError ''lr_schedule'')
        | Some ls \<Rightarrow>
            (if sched_type ls \<notin> {None, Some ''cosine'', Some ''resnet''}
             then r3 = Inl (ValueError (''invalid lr_schduler='' @ the (sched_type ls)))
             else if sched_ok ls then \<not> isl r3 else (\<exists>k. r3 = Inl (KeyError k))))"
        by blast
      have run: "build ext cfg tag dataroot test_ratio cv_fold tr =
         (case r3 of Inl e \<Rightarrow> (Inl e, tr @ e2 @ e3)
          | Inr sch \<Rightarrow> (Inr \<lparr> b_max_epoch = mx,
                      b_trainloader = fst (get_dataloaders ext ds bt dataroot test_ratio cv_fold),
                      b_validloader = fst (snd (get_dataloaders ext ds bt dataroot test_ratio cv_fold)),
                      b_testloader = snd (snd (get_dataloaders ext ds bt dataroot test_ratio cv_fold)),
                      b_criterion = (if dict_get (opt_label_smoothing oc) 0 > 0
                                     then SmoothCrossEntropyLoss (dict_get (opt_label_smoothing oc) 0)
                                     else CrossEntropyLoss),
                      b_optimizer = (if dict_get (opt_lars oc) False then LARS opt else opt),
                      b_scheduler = sch,
                      b_writers = map (\<lambda>x. ''./logs/'' @ (case tag of None \<Rightarrow> ''None'' | Some t \<Rightarrow> t) @ ''/'' @ x)
                                    [''train'', ''valid'', ''test''] \<rparr>, tr @ e2 @ e3))"
        unfolding bu tr0_def [symmetric] mo
        using ms by (simp add: tr2_def [symmetric] tr2 split: sum.splits)
      have c23: "list_all construct_event (e2 @ e3)" using c2 c3 by simp
      show ?thesis
      proof (cases r3)
        case (Inl e)
        with k3 have nok: "\<not> config_ok cfg" and ce: "config_error e"
          and sty: "\<And>ls sty. cfg_lr_schedule cfg = Some ls \<Longrightarrow> sched_type ls = Some sty \<Longrightarrow> sty \<notin> {''cosine'', ''resnet''}
                \<Longrightarrow> e = ValueError (''invalid lr_schduler='' @ sty)"
          by (auto simp: config_ok_def sched_ok_def config_error_def ok split: option.splits if_splits)
        from Inl run c23 nok ce sty True ok show ?thesis
          by (intro exI [of _ "Inl e"] exI [of _ "e2 @ e3"]) (auto split: option.splits)
      next
        case (Inr sch)
        with k3 have cok: "config_ok cfg"
          and sty: "\<And>ls sty. cfg_lr_schedule cfg = Some ls \<Longrightarrow> sched_type ls = Some sty \<Longrightarrow> sty \<in> {''cosine'', ''resnet''}"
          using True ok by (auto simp: config_ok_def sched_ok_def split: option.splits if_splits)
        define bb where "bb = \<lparr> b_max_epoch = mx,
                      b_trainloader = fst (get_dataloaders ext ds bt dataroot test_ratio cv_fold),
                      b_validloader = fst (snd (get_dataloaders ext ds bt dataroot test_ratio cv_fold)),
                      b_testloader = snd (snd (get_dataloaders ext ds bt dataroot test_ratio cv_fold)),
                      b_criterion = (if dict_get (opt_label_smoothing oc) 0 > 0
                                     then SmoothCrossEntropyLoss (dict_get (opt_label_smoothing oc) 0)
                                     else CrossEntropyLoss),
                      b_optimizer = (if dict_get (opt_lars oc) False then LARS opt else opt),
                      b_scheduler = sch,
                      b_writers = map (\<lambda>x. ''./logs/'' @ (case tag of None \<Rightarrow> ''None'' | Some t \<Rightarrow> t) @ ''/'' @ x)
                                    [''train'', ''valid'', ''test''] \<rparr>"
        have run': "build ext cfg tag dataroot test_ratio cv_fold tr = (Inr bb, tr @ e2 @ e3)"
          using run Inr by (simp add: bb_def)
        have bbp: "cfg_epoch cfg = Some (b_max_epoch bb)"
          "(b_trainloader bb, b_validloader bb, b_testloader bb) =
                     get_dataloaders ext (the (cfg_dataset cfg)) (the (cfg_batch cfg)) dataroot test_ratio cv_fold"
          using ok by (simp_all add: bb_def)
        from run' bbp c23 cok sty True ok show ?thesis
          by (intro exI [of _ "Inr bb"] exI [of _ "e2 @ e3"]) (auto split: option.splits)
      qed
    qed
  qed
qed

lemma load_event_simps [simp]:
  "load_event (ModelLoadStateDict d)" "load_event (OptimizerLoadStateDict v)" "load_event (SchedulerLoadStateDict v)"
  by (simp_all add: load_event_def)

lemma resume_none:
  assumes "checkpoint_at fs save_path = None"
  shows "resume metric save_path (tr, fs) = (Inr ([], 1), (tr, fs))"
proof -
  from assms have "\<not> (truthy save_path \<and> fs (the save_path) \<noteq> None)"
    by (cases save_path) (auto simp: checkpoint_at_def truthy_def split: if_splits)
  then show ?thesis unfolding resume_def by (simp only: prod.case if_False)
qed

lemma resume_some:
  assumes "checkpoint_at fs save_path = Some data"
  shows "resume metric save_path (tr, fs) =
     in_trace
            (bindM (if map_of data ''model'' \<noteq> None \<or> map_of data ''state_dict'' \<noteq> None then
                      (let key = (if map_of data ''model'' \<noteq> None then ''model'' else ''state_dict'') in
                       bindM (load_model_state (the (map_of data key))) (\<lambda>_.
                       returnM (if map_of data metric \<noteq> None
                                then [(''best_valid'', the (map_of data metric))] else [])))
                    else
                      bindM (emit (ModelLoadStateDict (module_keys data))) (\<lambda>_. returnM [])) (\<lambda>result.
             bindM (whenM (map_of data ''optimizer'' \<noteq> None)
                      (emit (OptimizerLoadStateDict (the (map_of data ''optimizer''))))) (\<lambda>_.
             bindM (whenM (map_of data ''scheduler'' \<noteq> None)
                      (emit (SchedulerLoadStateDict (the (map_of data ''scheduler''))))) (\<lambda>_.
             bindM (case map_of data ''epoch'' of
                      None \<Rightarrow> returnM 1
                    | Some (PyInt n) \<Rightarrow> returnM (n + 1)
                    | Some _ \<Rightarrow> raise (TypeError ''+'')) (\<lambda>epoch_start.
             returnM (result, epoch_start)))))) (tr, fs)"
proof -
  from assms have c: "truthy save_path \<and> fs (the save_path) \<noteq> None" and d: "the (fs (the save_path)) = data"
    by (cases save_path; auto simp: checkpoint_at_def truthy_def split: if_splits)+
  show ?thesis
    unfolding resume_def by (simp only: prod.case c if_True Let_def d simp_thms)
qed

lemma resume_ok:
  fixes tr :: "'t event list"
  assumes "checkpoint_at fs save_path = Some data" and "checkpoint_ok metric data"
  shows "\<exists>result evs. resume metric save_path (tr, fs) =
            (Inr (result, expected_start (Some data)), (tr @ evs, fs))
     \<and> best_ok result \<and> list_all load_event evs \<and> model_loads evs = [module_keys (model_state data)]
     \<and> evs = restore_calls data \<and> best_value result = restored_best metric (Some data)"
proof -
  define e1 :: "'t event list" where "e1 = [ModelLoadStateDict (module_keys (model_state data))]"
  define result :: "(string \<times> 't pyval) list" where "result = (if (map_of data ''model'' \<noteq> None \<or> map_of data ''state_dict'' \<noteq> None) \<and> map_of data metric \<noteq> None
                                then [(''best_valid'', the (map_of data metric))] else [])"
  have s1: "(if map_of data ''model'' \<noteq> None \<or> map_of data ''state_dict'' \<noteq> None then
                      (let key = (if map_of data ''model'' \<noteq> None then ''model'' else ''state_dict'') in
                       bindM (load_model_state (the (map_of data key))) (\<lambda>_.
                       returnM (if map_of data metric \<noteq> None
                                then [(''best_valid'', the (map_of data metric))] else [])))
                    else
                      bindM (emit (ModelLoadStateDict (module_keys data))) (\<lambda>_. returnM [])) tr = (Inr result, tr @ e1)"
    using assms(2)
    by (auto simp: checkpoint_ok_def is_dict_def model_state_def load_model_state_def bindM_apply Let_def
        result_def e1_def split: option.splits pyval.splits)
  define e2 :: "'t event list" where "e2 = (if map_of data ''optimizer'' \<noteq> None then [OptimizerLoadStateDict (the (map_of data ''optimizer''))] else [])"
  define e3 :: "'t event list" where "e3 = (if map_of data ''scheduler'' \<noteq> None then [SchedulerLoadStateDict (the (map_of data ''scheduler''))] else [])"
  have s2: "whenM (map_of data ''optimizer'' \<noteq> None)
                      (emit (OptimizerLoadStateDict (the (map_of data ''optimizer'')))) (tr @ e1) = (Inr (), (tr @ e1) @ e2)"
    by (simp add: e2_def)
  have s3: "whenM (map_of data ''scheduler'' \<noteq> None)
                      (emit (SchedulerLoadStateDict (the (map_of data ''scheduler'')))) ((tr @ e1) @ e2) = (Inr (), ((tr @ e1) @ e2) @ e3)"
    by (simp add: e3_def)
  have s4: "(case map_of data ''epoch'' of
                      None \<Rightarrow> returnM 1
                    | Some (PyInt n) \<Rightarrow> returnM (n + 1)
                    | Some _ \<Rightarrow> raise (TypeError ''+'')) (((tr @ e1) @ e2) @ e3) = (Inr (expected_start (Some data)), ((tr @ e1) @ e2) @ e3)"
    using assms(2)
    by (auto simp: checkpoint_ok_def is_int_def expected_start_def split: option.splits pyval.splits)
  have run: "resume metric save_path (tr, fs) = (Inr (result, expected_start (Some data)), (tr @ (e1 @ e2 @ e3), fs))"
    unfolding resume_some [OF assms(1)]
    by (simp only: in_trace_apply bindM_apply s1 s2 s3 s4 prod.case sum.case returnM_apply) simp
  have bo: "best_ok result"
    using assms(2) by (auto simp: result_def best_ok_def checkpoint_ok_def split: option.splits)
  have le: "list_all load_event (e1 @ e2 @ e3)" by (simp add: e1_def e2_def e3_def)
  have ml: "model_loads (e1 @ e2 @ e3) = [module_keys (model_state data)]"
    by (simp add: e1_def e2_def e3_def model_loads_def)
  have rc: "e1 @ e2 @ e3 = restore_calls data"
    by (auto simp: e1_def e2_def e3_def restore_calls_def)
  have rb: "best_value result = restored_best metric (Some data)"
    by (auto simp: result_def best_value_def restored_best_def split: option.splits)
  show ?thesis
    by (intro exI [of _ result] exI [of _ "e1 @ e2 @ e3"] conjI run bo le ml rc rb)
qed

lemma construct_event_projs:
  assumes "list_all construct_event evs"
  shows "reports evs = []" "saves evs = []" "model_loads evs = []" "passes evs = []"
  using assms
  by (induction evs)
     (auto simp: reports_def saves_def model_loads_def passes_def construct_event_def split: event.splits)

lemma load_event_projs:
  assumes "list_all load_event evs"
  shows "reports evs = []" "saves evs = []" "passes evs = []"
  using assms
  by (induction evs)
     (auto simp: reports_def saves_def passes_def load_event_def split: event.splits)

lemma train_and_eval_ok:
  fixes ext :: "'t ext"
  assumes cok: "config_ok cfg"
    and ld: "get_dataloaders ext (the (cfg_dataset cfg)) (the (cfg_batch cfg)) dataroot test_ratio cv_fold = (trl, val, tel)"
    and ltr: "loader_ok ext trl" and lva: "loader_ok ext val" and lte: "loader_ok ext tel"
    and met: "metric \<in> {''loss'', ''top1'', ''top5''}"
    and ck: "case checkpoint_at fs save_path of None \<Rightarrow> True | Some data \<Rightarrow> checkpoint_ok metric data"
  shows "\<exists>result evs fs'.
     train_and_eval ext cfg tqdm_disable tag dataroot test_ratio cv_fold metric save_path False (tr, fs) =
       (Inr (Result result), (tr @ evs, fs'))
     \<and> map (\<lambda>(e, tm, vm, ts). (e, ts \<noteq> None)) (reports evs) =
         map (\<lambda>e. (e, the (cfg_epoch cfg) - e \<le> 5)) [expected_start (checkpoint_at fs save_path) .. the (cfg_epoch cfg)]
     \<and> passes evs = concat (map (epoch_passes (the (cfg_epoch cfg))) [expected_start (checkpoint_at fs save_path) .. the (cfg_epoch cfg)])
     \<and> model_loads evs = (case checkpoint_at fs save_path of None \<Rightarrow> [] | Some data \<Rightarrow> [module_keys (model_state data)])
     \<and> (\<exists>pre post. evs = pre @ (case checkpoint_at fs save_path of None \<Rightarrow> [] | Some data \<Rightarrow> restore_calls data) @ post
            \<and> list_all construct_event pre \<and> list_all (\<lambda>e. \<not> load_event e) post)
     \<and> best_value result = track_best (restored_best metric (checkpoint_at fs save_path)) (valid_values metric evs)"
proof -
  from build_cases [of ext cfg tag dataroot test_ratio cv_fold tr] cok
  obtain b e0 where bld: "build ext cfg tag dataroot test_ratio cv_fold tr = (Inr b, tr @ e0)"
    and c0: "list_all construct_event e0"
    and mx: "cfg_epoch cfg = Some (b_max_epoch b)"
    and lds: "(b_trainloader b, b_validloader b, b_testloader b) =
                     get_dataloaders ext (the (cfg_dataset cfg)) (the (cfg_batch cfg)) dataroot test_ratio cv_fold"
    by auto
  from cok obtain oc where oc: "cfg_optimizer cfg = Some oc"
    by (cases "cfg_optimizer cfg") (auto simp: config_ok_def)
  from lds ld ltr lva lte have l1: "loader_ok ext (b_trainloader b)" and l2: "loader_ok ext (b_validloader b)"
    and l3: "loader_ok ext (b_testloader b)" by simp_all
  define start where "start = expected_start (checkpoint_at fs save_path)"
  have "\<exists>result0 e1. resume metric save_path (tr @ e0, fs) = (Inr (result0, start), ((tr @ e0) @ e1, fs))
     \<and> best_ok result0 \<and> list_all load_event e1
     \<and> model_loads e1 = (case checkpoint_at fs save_path of None \<Rightarrow> [] | Some data \<Rightarrow> [module_keys (model_state data)])
     \<and> e1 = (case checkpoint_at fs save_path of None \<Rightarrow> [] | Some data \<Rightarrow> restore_calls data)
     \<and> best_value result0 = restored_best metric (checkpoint_at fs save_path)"
  proof (cases "checkpoint_at fs save_path")
    case None
    then show ?thesis
      by (intro exI [of _ "[]"])
         (simp add: resume_none start_def expected_start_def best_ok_def model_loads_def
            best_value_def restored_best_def)
  next
    case (Some data)
    with ck have "checkpoint_ok metric data" by simp
    from resume_ok [OF Some this, of "tr @ e0"] show ?thesis by (simp add: Some start_def)
  qed
  then obtain result0 e1 where res: "resume metric save_path (tr @ e0, fs) = (Inr (result0, start), ((tr @ e0) @ e1, fs))"
    and b0: "best_ok result0" and c1: "list_all load_event e1"
    and ml1: "model_loads e1 = (case checkpoint_at fs save_path of None \<Rightarrow> [] | Some data \<Rightarrow> [module_keys (model_state data)])"
    and rc1: "e1 = (case checkpoint_at fs save_path of None \<Rightarrow> [] | Some data \<Rightarrow> restore_calls data)"
    and rb1: "best_value result0 = restored_best metric (checkpoint_at fs save_path)"
    by blast
  from train_loop_ok [OF mx oc l1 l2 l3 met b0, where tqdm_disable=tqdm_disable and save_path=save_path
      and epochs="[start .. b_max_epoch b]" and tr="(tr @ e0) @ e1" and fs=fs]
  obtain result e2 fs' where
    lp: "train_loop ext cfg tqdm_disable b metric save_path [start .. b_max_epoch b] result0 ((tr @ e0) @ e1, fs) =
          (Inr result, (((tr @ e0) @ e1) @ e2, fs'))"
    and rp: "map (\<lambda>(e, tm, vm, ts). (e, ts \<noteq> None)) (reports e2) = map (\<lambda>e. (e, b_max_epoch b - e \<le> 5)) [start .. b_max_epoch b]"
    and ps: "passes e2 = concat (map (epoch_passes (b_max_epoch b)) [start .. b_max_epoch b])"
    and ml2: "model_loads e2 = []"
    and nl2: "list_all (\<lambda>e. \<not> load_event e) e2"
    and bv2: "best_value result = track_best (best_value result0) (valid_values metric e2)"
    by auto
  have bld': "in_trace (build ext cfg tag dataroot test_ratio cv_fold) (tr, fs) = (Inr b, (tr @ e0, fs))"
    by (simp add: in_trace_apply bld)
  have run: "train_and_eval ext cfg tqdm_disable tag dataroot test_ratio cv_fold metric save_path False (tr, fs) =
       (Inr (Result result), (tr @ (e0 @ e1 @ e2), fs'))"
    unfolding train_and_eval_def
    by (simp only: bindM_apply bld' res lp prod.case sum.case if_False returnM_apply) simp
  have p0: "reports e0 = []" "passes e0 = []" "model_loads e0 = []"
    using c0 by (simp_all add: construct_event_projs)
  have p1: "reports e1 = []" "passes e1 = []"
    using c1 by (simp_all add: load_event_projs)
  have mxe: "the (cfg_epoch cfg) = b_max_epoch b" using mx by simp
  have f1: "map (\<lambda>(e, tm, vm, ts). (e, ts \<noteq> None)) (reports (e0 @ e1 @ e2)) =
         map (\<lambda>e. (e, the (cfg_epoch cfg) - e \<le> 5)) [expected_start (checkpoint_at fs save_path) .. the (cfg_epoch cfg)]"
    using rp by (simp add: p0 p1 mxe start_def)
  have f2: "passes (e0 @ e1 @ e2) = concat (map (epoch_passes (the (cfg_epoch cfg))) [expected_start (checkpoint_at fs save_path) .. the (cfg_epoch cfg)])"
    using ps by (simp add: p0 p1 mxe start_def)
  have f3: "model_loads (e0 @ e1 @ e2) = (case checkpoint_at fs save_path of None \<Rightarrow> [] | Some data \<Rightarrow> [module_keys (model_state data)])"
    by (simp add: p0 ml1 ml2)
  have f4: "\<exists>pre post. e0 @ e1 @ e2 = pre @ (case checkpoint_at fs save_path of None \<Rightarrow> [] | Some data \<Rightarrow> restore_calls data) @ post
            \<and> list_all construct_event pre \<and> list_all (\<lambda>e. \<not> load_event e) post"
    using rc1 c0 nl2 by (intro exI [of _ e0] exI [of _ e2]) simp
  have f5: "best_value result = track_best (restored_best metric (checkpoint_at fs save_path)) (valid_values metric (e0 @ e1 @ e2))"
    by (simp add: valid_values_def p0 p1 bv2 rb1)
  show ?thesis
    by (intro exI [of _ result] exI [of _ "e0 @ e1 @ e2"] exI [of _ fs'] conjI run f1 f2 f3 f4 f5)
qed

lemma update_nonempty: "AList.update k v al \<noteq> []"
  by (cases al) auto

lemma run_batch_nonempty:
  assumes "run_batch ext cfg loss_fn optimizer epoch verbose scheduler total_steps b st tr = (Inr (m', c', s'), tr')"
  shows "m' \<noteq> []"
proof -
  obtain data label where b: "b = (data, label)" by (cases b)
  obtain m c s where st: "st = (m, c, s)" by (cases st)
  have ne: "add_dict m [(k1, v1), (k2, v2), (k3, v3)] \<noteq> []" for k1 v1 k2 v2 k3 v3
    by (simp add: add_dict_def acc_add_def update_nonempty)
  from assms show ?thesis
    unfolding b st run_batch_def
    by (auto simp: bindM_apply Let_def ne split: prod.splits sum.splits if_splits option.splits)
qed

lemma run_batches_nonempty:
  assumes "run_batches ext cfg loss_fn optimizer epoch verbose scheduler total_steps bs st tr = (Inr (m', c', s'), tr')"
  shows "(if bs = [] then st = (m', c', s') else m' \<noteq> [])"
  using assms
proof (induction bs arbitrary: st tr)
  case Nil
  then show ?case by simp
next
  case (Cons b bs)
  from Cons.prems obtain m1 c1 s1 tr1 where
    rb: "run_batch ext cfg loss_fn optimizer epoch verbose scheduler total_steps b st tr = (Inr (m1, c1, s1), tr1)"
    and rest: "run_batches ext cfg loss_fn optimizer epoch verbose scheduler total_steps bs (m1, c1, s1) tr1 = (Inr (m', c', s'), tr')"
    by (auto simp: bindM_apply split: prod.splits sum.splits)
  from run_batch_nonempty [OF rb] have "m1 \<noteq> []" .
  with Cons.IH [OF rest] show ?case by (cases "bs = []") auto
qed

lemma add_scalars_None: "m \<noteq> [] \<Longrightarrow> add_scalars None m epoch tr = (Inl (AttributeError ''add_scalar''), tr)"
  by (cases m) auto

lemma run_epoch_no_writer:
  "\<exists>e tr'. run_epoch ext cfg tqdm_disable loader loss_fn optimizer desc_default epoch None True scheduler tr = (Inl e, tr')"
proof (cases "cfg_epoch cfg")
  case None
  then show ?thesis by (simp add: run_epoch_def bindM_apply)
next
  case (Some mx)
  define tr0 where "tr0 = tr @ [SetDescription desc_default epoch mx]"
  show ?thesis
  proof (cases "run_batches ext cfg loss_fn optimizer epoch True scheduler (length loader) loader ([], 0, 0) tr0")
    case (Pair r tr1)
    show ?thesis
    proof (cases r)
      case (Inl e)
      with Pair Some show ?thesis by (simp add: run_epoch_def bindM_apply tr0_def)
    next
      case (Inr st)
      obtain m c s where st: "st = (m, c, s)" by (cases st)
      from run_batches_nonempty [OF Pair [unfolded Inr st]]
      have ne: "if loader = [] then c = 0 else m \<noteq> []" by (auto split: if_splits)
      show ?thesis
      proof (cases "c = 0")
        case True
        with Pair Inr st Some show ?thesis by (simp add: run_epoch_def bindM_apply tr0_def)
      next
        case False
        with ne have m: "m \<noteq> []" by (auto split: if_splits)
        then have m2: "map (\<lambda>(k, v). (k, v / real c)) m \<noteq> []" by simp
        have m3: "AList.update ''lr'' x (map (\<lambda>(k, v). (k, v / real c)) m) \<noteq> []" for x
          by (rule update_nonempty)
        from Pair Inr st Some False show ?thesis
          by (simp add: run_epoch_def bindM_apply tr0_def add_scalars_None m m3)
      qed
    qed
  qed
qed

lemma train_passes_concat:
  "map snd (filter (\<lambda>(d, e). d = ''train'') (concat (map (epoch_passes mx) es))) = es"
  by (induction es) (simp_all add: epoch_passes_def)


lemma update_fresh: "k \<notin> fst ` set al \<Longrightarrow> AList.update k v al = al @ [(k, v)]"
  by (induction al) auto

lemma fold_update_distinct:
  "distinct (map fst (acc @ kvs)) \<Longrightarrow> fold (\<lambda>(k, v). AList.update k v) kvs acc = acc @ kvs"
proof (induction kvs arbitrary: acc)
  case Nil
  then show ?case by simp
next
  case (Cons kv kvs)
  obtain k v where kv: "kv = (k, v)" by (cases kv)
  from Cons.prems have fresh: "k \<notin> fst ` set acc" by (auto simp: kv)
  from Cons.prems have "distinct (map fst ((acc @ [(k, v)]) @ kvs))" by (simp add: kv)
  from Cons.IH [OF this] show ?case by (simp add: kv update_fresh [OF fresh])
qed

lemma dict_of_distinct: "distinct (map fst kvs) \<Longrightarrow> dict_of kvs = kvs"
  using fold_update_distinct [of "[]" kvs] by (simp add: dict_of_def)

lemma fold_update_keys:
  "fst ` set (fold (\<lambda>(k, v). AList.update k v) kvs acc) = fst ` set acc \<union> fst ` set kvs"
  by (induction kvs arbitrary: acc) (auto simp: dom_update split: prod.splits)

lemma module_keys_keys: "fst ` set (module_keys items) = (\<lambda>k. if str_in ''module.'' k then k else ''module.'' @ k) ` fst ` set items"
  by (force simp: module_keys_def dict_of_def fold_update_keys image_iff split: prod.splits)

lemma resume_loads_model:
  fixes tr :: "'t event list"
  assumes "checkpoint_at fs save_path = Some data"
    and "case map_of data ''model'' of
           Some v \<Rightarrow> is_dict v
         | None \<Rightarrow> (case map_of data ''state_dict'' of Some v \<Rightarrow> is_dict v | None \<Rightarrow> True)"
  shows "model_loads (fst (snd (resume metric save_path (tr, fs)))) = model_loads tr @ [module_keys (model_state data)]"
proof -
  define e1 :: "'t event list" where "e1 = [ModelLoadStateDict (module_keys (model_state data))]"
  define result :: "(string \<times> 't pyval) list" where "result = (if (map_of data ''model'' \<noteq> None \<or> map_of data ''state_dict'' \<noteq> None) \<and> map_of data metric \<noteq> None
                                then [(''best_valid'', the (map_of data metric))] else [])"
  have s1: "(if map_of data ''model'' \<noteq> None \<or> map_of data ''state_dict'' \<noteq> None then
                      (let key = (if map_of data ''model'' \<noteq> None then ''model'' else ''state_dict'') in
                       bindM (load_model_state (the (map_of data key))) (\<lambda>_.
                       returnM (if map_of data metric \<noteq> None
                                then [(''best_valid'', the (map_of data metric))] else [])))
                    else
                      bindM (emit (ModelLoadStateDict (module_keys data))) (\<lambda>_. returnM [])) tr = (Inr result, tr @ e1)"
    using assms(2)
    by (auto simp: is_dict_def model_state_def load_model_state_def bindM_apply Let_def
        result_def e1_def split: option.splits pyval.splits)
  define e2 :: "'t event list" where "e2 = (if map_of data ''optimizer'' \<noteq> None then [OptimizerLoadStateDict (the (map_of data ''optimizer''))] else [])"
  define e3 :: "'t event list" where "e3 = (if map_of data ''scheduler'' \<noteq> None then [SchedulerLoadStateDict (the (map_of data ''scheduler''))] else [])"
  have s2: "whenM (map_of data ''optimizer'' \<noteq> None)
                      (emit (OptimizerLoadStateDict (the (map_of data ''optimizer'')))) (tr @ e1) = (Inr (), (tr @ e1) @ e2)"
    by (simp add: e2_def)
  have s3: "whenM (map_of data ''scheduler'' \<noteq> None)
                      (emit (SchedulerLoadStateDict (the (map_of data ''scheduler'')))) ((tr @ e1) @ e2) = (Inr (), ((tr @ e1) @ e2) @ e3)"
    by (simp add: e3_def)
  have s4: "\<exists>r. (case map_of data ''epoch'' of
                      None \<Rightarrow> returnM 1
                    | Some (PyInt n) \<Rightarrow> returnM (n + 1)
                    | Some _ \<Rightarrow> raise (TypeError ''+'')) (((tr @ e1) @ e2) @ e3) = (r, ((tr @ e1) @ e2) @ e3)"
    by (auto split: option.splits pyval.splits)
  then obtain r where s4': "(case map_of data ''epoch'' of
                      None \<Rightarrow> returnM 1
                    | Some (PyInt n) \<Rightarrow> returnM (n + 1)
                    | Some _ \<Rightarrow> raise (TypeError ''+'')) (((tr @ e1) @ e2) @ e3) = (r, ((tr @ e1) @ e2) @ e3)" by blast
  have run: "fst (snd (resume metric save_path (tr, fs))) = ((tr @ e1) @ e2) @ e3"
    unfolding resume_some [OF assms(1)]
    by (cases r) (simp_all only: in_trace_apply bindM_apply s1 s2 s3 s4' prod.case sum.case returnM_apply fst_conv snd_conv)
  show ?thesis
    unfolding run by (simp add: e1_def e2_def e3_def model_loads_def)
qed

lemma str_in_simps:
  "str_in [] ys = True" "str_in (x # xs) [] = False"
  "str_in (x # xs) (y # ys) = (prefix (x # xs) (y # ys) \<or> str_in (x # xs) ys)"
  by (simp_all add: str_in_def sublist_code)

lemma module_keys_bare:
  "module_keys bare_checkpoint = [(''module.fc.weight'', PyTensor [1]), (''module.fc.bias'', PyTensor [2])]"
  by (simp add: module_keys_def bare_checkpoint_def dict_of_def str_in_simps)

lemma demo_hyps:
  "config_ok demo_config"
  "get_dataloaders demo_ext (the (cfg_dataset demo_config)) (the (cfg_batch demo_config)) ''./data'' 0 0 =
     (demo_loader, demo_loader, demo_loader)"
  "loader_ok demo_ext demo_loader"
  "''top1'' \<in> {''loss'', ''top1'', ''top5''}"
  "checkpoint_at demo_files (Some ''ckpt.pth'') = Some demo_checkpoint"
  "checkpoint_ok ''top1'' demo_checkpoint"
  "expected_start (Some demo_checkpoint) = 2"
  "the (cfg_epoch demo_config) = 2"
  by (simp_all add: config_ok_def demo_config_def demo_optimizer_conf_def demo_ext_def demo_loader_def
      loader_ok_def checkpoint_at_def demo_files_def checkpoint_ok_def demo_checkpoint_def is_dict_def
      is_int_def num_of_def expected_start_def)

lemma demo_restore:
  "restore_calls demo_checkpoint =
     [ModelLoadStateDict [(''module.fc.weight'', PyTensor [1])], OptimizerLoadStateDict (PyDict []),
      SchedulerLoadStateDict (PyDict [])]"
  "restored_best ''top1'' (Some demo_checkpoint) = Some (1 / 2)"
  by (simp_all add: restore_calls_def restored_best_def demo_checkpoint_def model_state_def module_keys_def
      dict_of_def str_in_simps num_of_def)

section \<open>Claims about run_epoch\<close>

text \<open>
  C3. For a loader with at least one batch, every batch non-empty, \<^verbatim>\<open>run_epoch\<close> returns,
  and its \<^verbatim>\<open>loss\<close>, \<^verbatim>\<open>top1\<close> and \<^verbatim>\<open>top5\<close> entries are the sample-weighted means of the
  per-batch values: the sum of value times batch size over the sum of the batch sizes.
  The configuration must hold the keys the pass reads (\<^verbatim>\<open>epoch\<close> when it displays or logs,
  \<^verbatim>\<open>optimizer\<close> when it trains), and a verbose pass needs a writer.
\<close>

theorem run_epoch_weighted_mean:
  fixes ext :: "'t ext"
  assumes "loader \<noteq> []"
    and "list_all (\<lambda>(d, l). 0 < tensor_len ext d) loader"
    and "verbose \<or> tqdm_disable \<Longrightarrow> cfg_epoch cfg \<noteq> None"
    and "optimizer \<noteq> None \<Longrightarrow> cfg_optimizer cfg \<noteq> None"
    and "verbose \<Longrightarrow> writer \<noteq> None"
  shows "\<exists>m tr'. run_epoch ext cfg tqdm_disable loader loss_fn optimizer desc_default epoch writer verbose scheduler tr = (Inr m, tr')
     \<and> (let st = epoch_stats ext cfg loader loss_fn optimizer desc_default epoch verbose scheduler tr in
          map (\<lambda>(l, t1, t5, n). n) st = map (\<lambda>(d, l). tensor_len ext d) loader
        \<and> map_of m ''loss'' = Some (weighted_mean (map (\<lambda>(l, t1, t5, n). (l, n)) st))
        \<and> map_of m ''top1'' = Some (weighted_mean (map (\<lambda>(l, t1, t5, n). (t1, n)) st))
        \<and> map_of m ''top5'' = Some (weighted_mean (map (\<lambda>(l, t1, t5, n). (t5, n)) st)))"
proof -
  from assms(3) obtain mx where ep: "verbose \<or> tqdm_disable \<Longrightarrow> cfg_epoch cfg = Some mx" by (cases "cfg_epoch cfg") auto
  from assms(4) obtain oc where oc: "optimizer \<noteq> None \<Longrightarrow> cfg_optimizer cfg = Some oc" by (cases "cfg_optimizer cfg") auto
  from assms(5) obtain w where wr: "verbose \<Longrightarrow> writer = Some w" by (cases writer) auto
  have sn: "map (\<lambda>(l, t1, t5, n). n) st = map snd (map snd (map snd st))" for st :: "(real \<times> real \<times> real \<times> nat) list"
    by (simp add: o_def case_prod_unfold)
  from run_epoch_ok [where ext=ext and cfg=cfg and tqdm_disable=tqdm_disable and loader=loader and loss_fn=loss_fn
      and optimizer=optimizer and desc_default=desc_default and epoch=epoch and writer=writer and verbose=verbose
      and scheduler=scheduler and tr=tr and mx=mx and oc=oc and w=w, OF assms(1) assms(2) ep oc wr]
  obtain m evs lrv where
    "run_epoch ext cfg tqdm_disable loader loss_fn optimizer desc_default epoch writer verbose scheduler tr =
           (Inr m, tr @ (if verbose then [SetDescription desc_default epoch mx] else []) @ evs)"
    and m: "m = (let st = epoch_stats ext cfg loader loss_fn optimizer desc_default epoch verbose scheduler tr in
                [(''loss'', weighted_mean (map (\<lambda>(l, t1, t5, n). (l, n)) st)),
                 (''top1'', weighted_mean (map (\<lambda>(l, t1, t5, n). (t1, n)) st)),
                 (''top5'', weighted_mean (map (\<lambda>(l, t1, t5, n). (t5, n)) st))])
                @ (if optimizer \<noteq> None then [(''lr'', lrv)] else [])"
    and sz: "map snd (map snd (map snd (epoch_stats ext cfg loader loss_fn optimizer desc_default epoch verbose scheduler tr)))
               = map (\<lambda>(d, l). tensor_len ext d) loader"
    by blast
  then show ?thesis unfolding sn Let_def by simp
qed

text \<open>
  The instance: batches of sizes 2 and 1 with losses 1 and 0. The pass returns 2/3, the
  weighted mean; the plain mean of the two batch values is 1/2.
\<close>

lemma demo_stats:
  "epoch_stats demo_ext demo_config demo_loader CrossEntropyLoss (Some (SGD (1 / 10) (9 / 10) (1 / 2000) True))
     ''train'' 1 True None [] = [(1, 1, 1, 2), (0, 0, 0, 1)]"
  by (simp add: epoch_stats_def demo_ext_def demo_config_def demo_optimizer_conf_def demo_loader_def
      batch_values_def run_batch_def bindM_apply add_dict_def acc_add_def dict_get_def Let_def)

theorem run_epoch_weighted_mean_witness:
  "demo_loader \<noteq> [] \<and> list_all (\<lambda>(d, l). 0 < tensor_len demo_ext d) demo_loader
   \<and> cfg_epoch demo_config \<noteq> None \<and> cfg_optimizer demo_config \<noteq> None
   \<and> (\<exists>m tr'. run_epoch demo_ext demo_config False demo_loader CrossEntropyLoss
                  (Some (SGD (1 / 10) (9 / 10) (1 / 2000) True)) ''train'' 1 (Some ''w'') True None [] = (Inr m, tr')
        \<and> map_of m ''loss'' = Some (2 / 3))
   \<and> simple_mean [(1, 2), (0, 1)] = 1 / 2"
proof -
  have h1: "demo_loader \<noteq> []" by (simp add: demo_loader_def)
  have h2: "list_all (\<lambda>(d, l). 0 < tensor_len demo_ext d) demo_loader"
    by (simp add: demo_loader_def demo_ext_def)
  have h3: "cfg_epoch demo_config \<noteq> None" by (simp add: demo_config_def)
  have h4: "cfg_optimizer demo_config \<noteq> None" by (simp add: demo_config_def)
  have h5: "Some ''w'' \<noteq> None" by simp
  have wm: "weighted_mean [(1, 2), (0, Suc 0)] = 2 / 3" by (simp add: weighted_mean_def)
  have sm: "simple_mean [(1, 2), (0, 1)] = 1 / 2" by (simp add: simple_mean_def)
  from run_epoch_weighted_mean [where ext=demo_ext and cfg=demo_config and tqdm_disable=False and loader=demo_loader
      and loss_fn=CrossEntropyLoss and optimizer="Some (SGD (1 / 10) (9 / 10) (1 / 2000) True)"
      and desc_default="''train''" and epoch=1 and writer="Some ''w''" and verbose=True and scheduler=None
      and tr="[]", OF h1 h2 h3 h4 h5]
  have "\<exists>m tr'. run_epoch demo_ext demo_config False demo_loader CrossEntropyLoss
                  (Some (SGD (1 / 10) (9 / 10) (1 / 2000) True)) ''train'' 1 (Some ''w'') True None [] = (Inr m, tr')
        \<and> map_of m ''loss'' = Some (2 / 3)"
    by (auto simp: demo_stats wm)
  with h1 h2 h3 h4 sm show ?thesis by blast
qed

text \<open>
  C9. In a training pass (optimizer present) every batch calls \<^verbatim>\<open>loss.backward()\<close>, then
  \<^verbatim>\<open>clip_grad_norm_\<close> with the configured threshold exactly when that threshold is
  positive, then \<^verbatim>\<open>optimizer.step()\<close>. A threshold of zero or less gives no clipping
  call; with the key \<^verbatim>\<open>clip\<close> absent the threshold is 5.
\<close>

theorem run_epoch_clip:
  fixes ext :: "'t ext"
  assumes "loader \<noteq> []"
    and "list_all (\<lambda>(d, l). 0 < tensor_len ext d) loader"
    and "cfg_optimizer cfg = Some oc"
    and "verbose \<or> tqdm_disable \<Longrightarrow> cfg_epoch cfg \<noteq> None"
    and "verbose \<Longrightarrow> writer \<noteq> None"
  shows "\<exists>m evs ls. run_epoch ext cfg tqdm_disable loader loss_fn (Some optimizer) desc_default epoch writer verbose scheduler tr
           = (Inr m, tr @ evs)
     \<and> length ls = length loader
     \<and> grad_events evs =
         concat (map (\<lambda>loss. [Backward loss]
                       @ (case opt_clip oc of
                            None \<Rightarrow> [ClipGradNorm 5]
                          | Some c \<Rightarrow> if 0 < c then [ClipGradNorm c] else [])
                       @ [OptimizerStep]) ls)"
proof -
  from assms(4) obtain mx where ep: "verbose \<or> tqdm_disable \<Longrightarrow> cfg_epoch cfg = Some mx" by (cases "cfg_epoch cfg") auto
  from assms(5) obtain w where wr: "verbose \<Longrightarrow> writer = Some w" by (cases writer) auto
  have oc: "Some optimizer \<noteq> None \<Longrightarrow> cfg_optimizer cfg = Some oc" using assms(3) by simp
  have cl: "(if dict_get (opt_clip oc) 5 > 0 then [ClipGradNorm (dict_get (opt_clip oc) 5)] else []) =
        (case opt_clip oc of None \<Rightarrow> [ClipGradNorm 5] | Some c \<Rightarrow> if 0 < c then [ClipGradNorm c] else [])"
    by (simp add: dict_get_def split: option.splits)
  from run_epoch_ok [where ext=ext and cfg=cfg and tqdm_disable=tqdm_disable and loader=loader and loss_fn=loss_fn
      and optimizer="Some optimizer" and desc_default=desc_default and epoch=epoch and writer=writer and verbose=verbose
      and scheduler=scheduler and tr=tr and mx=mx and oc=oc and w=w, OF assms(1) assms(2) ep oc wr]
  obtain m evs ls where
    run: "run_epoch ext cfg tqdm_disable loader loss_fn (Some optimizer) desc_default epoch writer verbose scheduler tr =
           (Inr m, tr @ (if verbose then [SetDescription desc_default epoch mx] else []) @ evs)"
    and ls: "length ls = length loader"
    and ge: "grad_events evs =
                concat (map (\<lambda>l. [Backward l] @ (if dict_get (opt_clip oc) 5 > 0 then [ClipGradNorm (dict_get (opt_clip oc) 5)] else []) @ [OptimizerStep]) ls)"
    by auto
  have "grad_events ((if verbose then [SetDescription desc_default epoch mx] else []) @ evs) = grad_events evs"
    by (simp add: grad_events_def)
  with run ls ge show ?thesis
    unfolding cl
    by (intro exI [of _ m] exI [of _ "(if verbose then [SetDescription desc_default epoch mx] else []) @ evs"]
        exI [of _ ls]) simp
qed

theorem run_epoch_clip_witness:
  "demo_loader \<noteq> [] \<and> list_all (\<lambda>(d, l). 0 < tensor_len demo_ext d) demo_loader
   \<and> cfg_optimizer demo_config = Some demo_optimizer_conf \<and> cfg_epoch demo_config \<noteq> None
   \<and> (\<exists>m evs ls. run_epoch demo_ext demo_config False demo_loader CrossEntropyLoss
                  (Some (SGD (1 / 10) (9 / 10) (1 / 2000) True)) ''train'' 1 (Some ''w'') True None [] = (Inr m, evs)
        \<and> length ls = 2
        \<and> grad_events evs = concat (map (\<lambda>loss. [Backward loss, ClipGradNorm 5, OptimizerStep]) ls))"
proof -
  have h1: "demo_loader \<noteq> []" by (simp add: demo_loader_def)
  have h2: "list_all (\<lambda>(d, l). 0 < tensor_len demo_ext d) demo_loader"
    by (simp add: demo_loader_def demo_ext_def)
  have h3: "cfg_optimizer demo_config = Some demo_optimizer_conf" by (simp add: demo_config_def)
  have h4: "cfg_epoch demo_config \<noteq> None" by (simp add: demo_config_def)
  have h5: "Some ''w'' \<noteq> None" by simp
  have c: "opt_clip demo_optimizer_conf = None" by (simp add: demo_optimizer_conf_def)
  have l: "length demo_loader = 2" by (simp add: demo_loader_def)
  from run_epoch_clip [where ext=demo_ext and cfg=demo_config and tqdm_disable=False and loader=demo_loader
      and loss_fn=CrossEntropyLoss and optimizer="SGD (1 / 10) (9 / 10) (1 / 2000) True" and oc=demo_optimizer_conf
      and desc_default="''train''" and epoch=1 and writer="Some ''w''" and verbose=True and scheduler=None
      and tr="[]", OF h1 h2 h3 h4 h5]
  have "\<exists>m evs ls. run_epoch demo_ext demo_config False demo_loader CrossEntropyLoss
                  (Some (SGD (1 / 10) (9 / 10) (1 / 2000) True)) ''train'' 1 (Some ''w'') True None [] = (Inr m, evs)
        \<and> length ls = 2
        \<and> grad_events evs = concat (map (\<lambda>loss. [Backward loss, ClipGradNorm 5, OptimizerStep]) ls)"
    by (simp add: c l)
  with h1 h2 h3 h4 show ?thesis by blast
qed

text \<open>
  C6, as amended. With a per-batch scheduler, after batch \<open>b\<close> (counted from 1) of the \<open>E\<close>
  batches of a pass called with \<^verbatim>\<open>epoch = e\<close>, the scheduler is stepped with
  \<open>e - 1 + b / E\<close>: line 68 subtracts one from the epoch argument.
\<close>

theorem run_epoch_scheduler_position:
  fixes ext :: "'t ext"
  assumes "loader \<noteq> []"
    and "list_all (\<lambda>(d, l). 0 < tensor_len ext d) loader"
    and "optimizer \<noteq> None \<Longrightarrow> cfg_optimizer cfg \<noteq> None"
    and "verbose \<or> tqdm_disable \<Longrightarrow> cfg_epoch cfg \<noteq> None"
    and "verbose \<Longrightarrow> writer \<noteq> None"
  shows "\<exists>m evs. run_epoch ext cfg tqdm_disable loader loss_fn optimizer desc_default epoch writer verbose (Some scheduler) tr
           = (Inr m, tr @ evs)
     \<and> sched_steps evs =
         map (\<lambda>b. real_of_int epoch - 1 + real b / real (length loader)) [1 ..< length loader + 1]"
proof -
  from assms(4) obtain mx where ep: "verbose \<or> tqdm_disable \<Longrightarrow> cfg_epoch cfg = Some mx" by (cases "cfg_epoch cfg") auto
  from assms(3) obtain oc where oc: "optimizer \<noteq> None \<Longrightarrow> cfg_optimizer cfg = Some oc" by (cases "cfg_optimizer cfg") auto
  from assms(5) obtain w where wr: "verbose \<Longrightarrow> writer = Some w" by (cases writer) auto
  from run_epoch_ok [where ext=ext and cfg=cfg and tqdm_disable=tqdm_disable and loader=loader and loss_fn=loss_fn
      and optimizer=optimizer and desc_default=desc_default and epoch=epoch and writer=writer and verbose=verbose
      and scheduler="Some scheduler" and tr=tr and mx=mx and oc=oc and w=w, OF assms(1) assms(2) ep oc wr]
  obtain m evs where
    run: "run_epoch ext cfg tqdm_disable loader loss_fn optimizer desc_default epoch writer verbose (Some scheduler) tr =
           (Inr m, tr @ (if verbose then [SetDescription desc_default epoch mx] else []) @ evs)"
    and ss: "sched_steps evs = map (\<lambda>k. real_of_int epoch - 1 + real k / real (length loader)) [1 ..< length loader + 1]"
    by auto
  have "sched_steps ((if verbose then [SetDescription desc_default epoch mx] else []) @ evs) = sched_steps evs"
    by (simp add: sched_steps_def)
  with run ss show ?thesis
    by (intro exI [of _ m] exI [of _ "(if verbose then [SetDescription desc_default epoch mx] else []) @ evs"]) simp
qed

theorem run_epoch_scheduler_position_witness:
  "demo_loader \<noteq> [] \<and> list_all (\<lambda>(d, l). 0 < tensor_len demo_ext d) demo_loader
   \<and> (\<exists>m evs. run_epoch demo_ext demo_config False demo_loader CrossEntropyLoss None ''valid'' 3 None False
                  (Some adjust_learning_rate_resnet) [] = (Inr m, evs)
        \<and> sched_steps evs = [5 / 2, 3])"
proof -
  have h1: "demo_loader \<noteq> []" by (simp add: demo_loader_def)
  have h2: "list_all (\<lambda>(d, l). 0 < tensor_len demo_ext d) demo_loader"
    by (simp add: demo_loader_def demo_ext_def)
  have l: "length demo_loader = 2" by (simp add: demo_loader_def)
  have u: "[Suc 0 ..< 3] = [Suc 0, 2]" by (simp add: upt_rec)
  from run_epoch_scheduler_position [where ext=demo_ext and cfg=demo_config and tqdm_disable=False and loader=demo_loader
      and loss_fn=CrossEntropyLoss and optimizer=None
      and desc_default="''valid''" and epoch=3 and writer=None and verbose=False and scheduler=adjust_learning_rate_resnet
      and tr="[]", OF h1 h2]
  have "\<exists>m evs. run_epoch demo_ext demo_config False demo_loader CrossEntropyLoss None ''valid'' 3 None False
                  (Some adjust_learning_rate_resnet) [] = (Inr m, evs)
        \<and> sched_steps evs = [5 / 2, 3]"
    by (simp add: l u)
  with h1 h2 show ?thesis by blast
qed

text \<open>
  C6 as stated fails: with \<^verbatim>\<open>epoch = 3\<close> and two batches the scheduler is stepped with 5/2
  and 3, not with \<open>3 + 1/2\<close> and \<open>3 + 2/2\<close>.
\<close>

theorem run_epoch_scheduler_position_counterexample:
  "sched_steps (snd (run_epoch demo_ext demo_config False demo_loader CrossEntropyLoss None ''valid'' 3 None False
                  (Some adjust_learning_rate_resnet) [])) = [5 / 2, 3]
   \<and> [5 / 2, 3] \<noteq> [real_of_int 3 + real 1 / real (length demo_loader), real_of_int 3 + real 2 / real (length demo_loader)]"
  by (simp add: run_epoch_def run_batch_def bindM_apply demo_ext_def demo_loader_def sched_steps_def
      add_dict_def acc_add_def dict_get_def Let_def)

text \<open>
  C10. On a loader that yields no batch \<^verbatim>\<open>run_epoch\<close> never returns metrics: \<^verbatim>\<open>cnt\<close> is
  still 0 when the accumulator is divided by it, which is a division by zero. Only a
  missing \<^verbatim>\<open>epoch\<close> key, read first by a verbose or logging pass, raises before that.
\<close>

theorem run_epoch_empty_loader:
  "fst (run_epoch ext cfg tqdm_disable [] loss_fn optimizer desc_default epoch writer verbose scheduler tr) =
     Inl (if (verbose \<or> tqdm_disable) \<and> cfg_epoch cfg = None then KeyError ''epoch'' else ZeroDivisionError)"
  by (cases "cfg_epoch cfg") (auto simp: run_epoch_def bindM_apply)

section \<open>Claims about train_and_eval\<close>

text \<open>
  C1, as amended. In an iteration of the training loop, let \<open>v\<close> be the validation value of
  the target
  metric that the iteration reports. \<^verbatim>\<open>result['best_valid']\<close> becomes \<open>v\<close> exactly when \<open>v\<close> is
  strictly greater than the tracked best value, or there is no tracked best value (lines
  195 and 205), whether a save path is given or not. A checkpoint is written exactly when,
  in addition, the save path is given and not empty (the guard of line 197): then exactly
  one checkpoint is written, the file at the save path becomes the new checkpoint, and it
  holds this epoch and \<open>v\<close>. In every other case nothing is written and the files are
  unchanged. The iteration succeeds on loaders a pass can average over, with a tracked
  metric as target.
\<close>

theorem train_epoch_best_checkpoint:
  fixes ext :: "'t ext"
  assumes "cfg_epoch cfg = Some mx"
    and "cfg_optimizer cfg = Some oc"
    and "loader_ok ext (b_trainloader b)"
    and "loader_ok ext (b_validloader b)"
    and "loader_ok ext (b_testloader b)"
    and "metric \<in> {''loss'', ''top1'', ''top5''}"
    and "best_ok result"
  shows "\<exists>train valid test v ckpt evs result' fs'.
     train_epoch ext cfg tqdm_disable b metric save_path epoch result (tr, fs) = (Inr result', (tr @ evs, fs'))
     \<and> reports evs = [(epoch, train, valid, test)]
     \<and> map_of valid metric = Some v
     \<and> result' = (if improves result v then AList.update ''best_valid'' (PyFloat v) result else result)
     \<and> (if improves result v \<and> truthy save_path
         then saves evs = [(the save_path, ckpt)] \<and> fs' = fs(the save_path \<mapsto> ckpt)
              \<and> map_of ckpt ''epoch'' = Some (PyInt epoch) \<and> map_of ckpt metric = Some (PyFloat v)
         else saves evs = [] \<and> fs' = fs)"
proof -
  from train_epoch_ok [OF assms(1-7), of tqdm_disable save_path epoch tr fs]
  obtain tm vm ts v ckpt evs where
    run: "train_epoch ext cfg tqdm_disable b metric save_path epoch result (tr, fs) =
       (Inr (if improves result v then AList.update ''best_valid'' (PyFloat v) result else result),
        (tr @ evs, if improves result v \<and> truthy save_path then fs(the save_path \<mapsto> ckpt) else fs))"
    and v: "map_of vm metric = Some v"
    and rp: "reports evs = [(epoch, tm, vm, if mx - epoch \<le> 5 then Some ts else None)]"
    and sv: "saves evs = (if improves result v \<and> truthy save_path then [(the save_path, ckpt)] else [])"
    and k1: "map_of ckpt ''epoch'' = Some (PyInt epoch)"
    and k2: "map_of ckpt metric = Some (PyFloat v)"
    by blast
  show ?thesis
    apply (rule exI [of _ tm], rule exI [of _ vm], rule exI [of _ "if mx - epoch \<le> 5 then Some ts else None"],
        rule exI [of _ v], rule exI [of _ ckpt], rule exI [of _ evs],
        rule exI [of _ "if improves result v then AList.update ''best_valid'' (PyFloat v) result else result"],
        rule exI [of _ "if improves result v \<and> truthy save_path then fs(the save_path \<mapsto> ckpt) else fs"])
    using run v rp sv k1 k2 by simp
qed

theorem train_epoch_best_checkpoint_witness:
  "cfg_epoch demo_config = Some 2 \<and> cfg_optimizer demo_config = Some demo_optimizer_conf
   \<and> loader_ok demo_ext demo_loader \<and> best_ok ([] :: (string \<times> real list pyval) list)
   \<and> (\<exists>train valid test v ckpt evs result' fs'.
        train_epoch demo_ext demo_config False demo_built ''top1'' (Some ''ckpt.pth'') 1 [] ([], no_files) =
          (Inr result', (evs, fs'))
        \<and> reports evs = [(1, train, valid, test)] \<and> map_of valid ''top1'' = Some v
        \<and> result' = [(''best_valid'', PyFloat v)]
        \<and> saves evs = [(''ckpt.pth'', ckpt)] \<and> fs' = no_files(''ckpt.pth'' \<mapsto> ckpt)
        \<and> map_of ckpt ''epoch'' = Some (PyInt 1) \<and> map_of ckpt ''top1'' = Some (PyFloat v))"
proof -
  have h1: "cfg_epoch demo_config = Some 2" by (simp add: demo_config_def)
  have h2: "cfg_optimizer demo_config = Some demo_optimizer_conf" by (simp add: demo_config_def)
  have h3: "loader_ok demo_ext (b_trainloader demo_built)" "loader_ok demo_ext (b_validloader demo_built)"
    "loader_ok demo_ext (b_testloader demo_built)"
    by (simp_all add: demo_built_def demo_hyps)
  have h4: "''top1'' \<in> {''loss'', ''top1'', ''top5''}" by simp
  have h5: "best_ok ([] :: (string \<times> real list pyval) list)" by (simp add: best_ok_def)
  have h6: "truthy (Some ''ckpt.pth'')" by (simp add: truthy_def)
  have im: "improves ([] :: (string \<times> real list pyval) list) v" for v by (simp add: improves_def)
  from train_epoch_best_checkpoint [OF h1 h2 h3 h4 h5, of False "Some ''ckpt.pth''" 1 "[]" no_files]
  have "\<exists>train valid test v ckpt evs result' fs'.
        train_epoch demo_ext demo_config False demo_built ''top1'' (Some ''ckpt.pth'') 1 [] ([], no_files) =
          (Inr result', (evs, fs'))
        \<and> reports evs = [(1, train, valid, test)] \<and> map_of valid ''top1'' = Some v
        \<and> result' = [(''best_valid'', PyFloat v)]
        \<and> saves evs = [(''ckpt.pth'', ckpt)] \<and> fs' = no_files(''ckpt.pth'' \<mapsto> ckpt)
        \<and> map_of ckpt ''epoch'' = Some (PyInt 1) \<and> map_of ckpt ''top1'' = Some (PyFloat v)"
    by (simp add: im h6)
  with h1 h2 demo_hyps(3) h5 show ?thesis by blast
qed

text \<open>
  C1 as stated fails: the best value is not updated exactly when a write occurs. Without
  a save path, which
  is the default of \<^verbatim>\<open>train_and_eval\<close> and what the call of line 228 passes, the first epoch
  sets \<^verbatim>\<open>result['best_valid']\<close> to its validation top-1, 2/3, and nothing is written.
\<close>

theorem train_epoch_best_checkpoint_counterexample:
  "fst (train_epoch demo_ext demo_config False demo_built ''top1'' None 1 [] ([], no_files)) =
     Inr [(''best_valid'', PyFloat (2 / 3))]
   \<and> saves (fst (snd (train_epoch demo_ext demo_config False demo_built ''top1'' None 1 [] ([], no_files)))) = []
   \<and> snd (snd (train_epoch demo_ext demo_config False demo_built ''top1'' None 1 [] ([], no_files))) = no_files"
  by (simp add: demo_config_def demo_optimizer_conf_def demo_ext_def demo_loader_def demo_built_def
      train_epoch_def save_if_best_def run_epoch_def run_batch_def acc_getitem_def as_number_def truthy_def
      bindM_apply in_trace_apply add_dict_def acc_add_def dict_get_def Let_def saves_def)

text \<open>
  An equal value does not overwrite: with 2/3 tracked and a validation top-1 of 2/3, the
  iteration writes nothing and the checkpoint file is the one that was there.
\<close>

lemma train_epoch_equal_value:
  "(case train_epoch demo_ext demo_config False demo_built ''top1'' (Some ''ckpt.pth'') 2
           [(''best_valid'', PyFloat (2 / 3))] ([], demo_files) of
      (r, (evs, fs')) \<Rightarrow> (r, saves evs, fs' ''ckpt.pth'', map (\<lambda>(e, tm, vm, ts). map_of vm ''top1'') (reports evs)))
   = (Inr [(''best_valid'', PyFloat (2 / 3))], [], Some demo_checkpoint, [Some (2 / 3)])"
  by (simp add: demo_config_def demo_optimizer_conf_def demo_ext_def demo_loader_def demo_built_def
      demo_files_def train_epoch_def save_if_best_def run_epoch_def run_batch_def acc_getitem_def as_number_def
      bindM_apply in_trace_apply add_dict_def acc_add_def dict_get_def Let_def saves_def reports_def)

text \<open>
  The scenario of the specification: checkpoints are written after epochs 1 and 2, not
  after epoch 3, and the returned best value is 0.55.
\<close>

lemma scenario_best_checkpoint:
  "(case train_and_eval scenario_ext scenario_config False (Some ''demo'') ''./data'' 0 0 ''top1'' (Some ''ckpt.pth'')
           False ([], no_files) of
      (r, (evs, fs')) \<Rightarrow>
        (r, map (\<lambda>(e, tm, vm, ts). (e, map_of vm ''top1'')) (reports evs),
         map (\<lambda>(p, ckpt). (p, map_of ckpt ''epoch'', map_of ckpt ''top1'')) (saves evs),
         map_option (\<lambda>ckpt. map_of ckpt ''epoch'') (fs' ''ckpt.pth'')))
   = (Inr (Result [(''best_valid'', PyFloat (11 / 20))]),
      [(1, Some (2 / 5)), (2, Some (11 / 20)), (3, Some (1 / 2))],
      [(''ckpt.pth'', Some (PyInt 1), Some (PyFloat (2 / 5))), (''ckpt.pth'', Some (PyInt 2), Some (PyFloat (11 / 20)))],
      Some (Some (PyInt 2)))"
  by (simp add: scenario_ext_def scenario_config_def demo_config_def demo_optimizer_conf_def demo_ext_def
      no_files_def build_def make_optimizer_def make_scheduler_def train_and_eval_def resume_def truthy_def
      train_epoch_def save_if_best_def run_epoch_def run_batch_def acc_getitem_def as_number_def torch_save_apply
      bindM_apply in_trace_apply add_dict_def acc_add_def dict_get_def Let_def saves_def reports_def dict_of_def
      upto.simps)

text \<open>
  C2. On a supported configuration and usable loaders, \<^verbatim>\<open>train_and_eval\<close> in training mode
  returns, and the epochs it trains and reports are exactly those from the start epoch
  to \<^verbatim>\<open>max_epoch\<close>. The start epoch is 1 when there is no checkpoint at the save path or the
  checkpoint has no \<^verbatim>\<open>epoch\<close> entry, and \<open>N + 1\<close> when the entry is \<open>N\<close>; epoch \<open>N\<close> is not run
  again. The state of the checkpoint is restored before the first epoch: right after the
  construction of model, optimizer and scheduler come the model's \<^verbatim>\<open>load_state_dict\<close> with
  the normalized model state, then the optimizer's with the \<^verbatim>\<open>optimizer\<close> entry and the
  scheduler's with the \<^verbatim>\<open>scheduler\<close> entry, each when the checkpoint has the entry, and no
  state is loaded anywhere else in the run. The best value returned is the one the loop
  tracks over the validation values of the run when it starts from the best value of the
  checkpoint, and from none without a checkpoint.
\<close>

theorem train_and_eval_resume_epoch:
  fixes ext :: "'t ext"
  assumes "config_ok cfg"
    and "get_dataloaders ext (the (cfg_dataset cfg)) (the (cfg_batch cfg)) dataroot test_ratio cv_fold = (trl, val, tel)"
    and "loader_ok ext trl" and "loader_ok ext val" and "loader_ok ext tel"
    and "metric \<in> {''loss'', ''top1'', ''top5''}"
    and "case checkpoint_at fs save_path of None \<Rightarrow> True | Some data \<Rightarrow> checkpoint_ok metric data"
  shows "\<exists>result evs fs'.
     train_and_eval ext cfg tqdm_disable tag dataroot test_ratio cv_fold metric save_path False (tr, fs) =
       (Inr (Result result), (tr @ evs, fs'))
     \<and> map fst (reports evs) = [expected_start (checkpoint_at fs save_path) .. the (cfg_epoch cfg)]
     \<and> map snd (filter (\<lambda>(d, e). d = ''train'') (passes evs)) =
         [expected_start (checkpoint_at fs save_path) .. the (cfg_epoch cfg)]
     \<and> model_loads evs = (case checkpoint_at fs save_path of None \<Rightarrow> [] | Some data \<Rightarrow> [module_keys (model_state data)])
     \<and> (case checkpoint_at fs save_path of
          None \<Rightarrow> expected_start (checkpoint_at fs save_path) = 1
        | Some data \<Rightarrow>
            (case map_of data ''epoch'' of
               None \<Rightarrow> expected_start (checkpoint_at fs save_path) = 1
             | Some v \<Rightarrow> v = PyInt (expected_start (checkpoint_at fs save_path) - 1)
                        \<and> expected_start (checkpoint_at fs save_path) - 1 \<notin> set (map fst (reports evs))))
     \<and> (\<exists>pre post.
          evs = pre @ (case checkpoint_at fs save_path of None \<Rightarrow> [] | Some data \<Rightarrow> restore_calls data) @ post
          \<and> list_all construct_event pre \<and> list_all (\<lambda>e. \<not> load_event e) post)
     \<and> best_value result =
         track_best (restored_best metric (checkpoint_at fs save_path)) (valid_values metric evs)"
proof -
  define s where "s = expected_start (checkpoint_at fs save_path)"
  define mx where "mx = the (cfg_epoch cfg)"
  from train_and_eval_ok [OF assms, of tqdm_disable tag tr]
  obtain result evs fs' where
    run: "train_and_eval ext cfg tqdm_disable tag dataroot test_ratio cv_fold metric save_path False (tr, fs) =
       (Inr (Result result), (tr @ evs, fs'))"
    and rp: "map (\<lambda>(e, tm, vm, ts). (e, ts \<noteq> None)) (reports evs) = map (\<lambda>e. (e, mx - e \<le> 5)) [s .. mx]"
    and ps: "passes evs = concat (map (epoch_passes mx) [s .. mx])"
    and ml: "model_loads evs = (case checkpoint_at fs save_path of None \<Rightarrow> [] | Some data \<Rightarrow> [module_keys (model_state data)])"
    and rc: "\<exists>pre post.
          evs = pre @ (case checkpoint_at fs save_path of None \<Rightarrow> [] | Some data \<Rightarrow> restore_calls data) @ post
          \<and> list_all construct_event pre \<and> list_all (\<lambda>e. \<not> load_event e) post"
    and bv: "best_value result =
         track_best (restored_best metric (checkpoint_at fs save_path)) (valid_values metric evs)"
    unfolding s_def mx_def by blast
  from arg_cong [OF rp, of "map fst"]
  have r1: "map fst (reports evs) = [s .. mx]" by (simp add: o_def case_prod_unfold)
  have p1: "map snd (filter (\<lambda>(d, e). d = ''train'') (passes evs)) = [s .. mx]"
    by (simp only: ps train_passes_concat)
  have st: "(case checkpoint_at fs save_path of
          None \<Rightarrow> s = 1
        | Some data \<Rightarrow>
            (case map_of data ''epoch'' of
               None \<Rightarrow> s = 1
             | Some v \<Rightarrow> v = PyInt (s - 1) \<and> s - 1 \<notin> set (map fst (reports evs))))"
    using assms(7) unfolding r1
    by (auto simp: s_def expected_start_def checkpoint_ok_def is_int_def split: option.splits pyval.splits)
  show ?thesis
    unfolding s_def [symmetric] mx_def [symmetric]
    by (intro exI [of _ result] exI [of _ evs] exI [of _ fs'] conjI run r1 p1 ml st rc bv)
qed

theorem train_and_eval_resume_epoch_witness:
  "config_ok demo_config \<and> loader_ok demo_ext demo_loader
   \<and> checkpoint_at demo_files (Some ''ckpt.pth'') = Some demo_checkpoint
   \<and> map_of demo_checkpoint ''epoch'' = Some (PyInt 1)
   \<and> checkpoint_ok ''top1'' demo_checkpoint
   \<and> (\<exists>result evs fs'.
        train_and_eval demo_ext demo_config False (Some ''demo'') ''./data'' 0 0 ''top1'' (Some ''ckpt.pth'') False
          ([], demo_files) = (Inr (Result result), (evs, fs'))
        \<and> map fst (reports evs) = [2]
        \<and> map snd (filter (\<lambda>(d, e). d = ''train'') (passes evs)) = [2]
        \<and> (\<exists>pre post.
             evs = pre @ [ModelLoadStateDict [(''module.fc.weight'', PyTensor [1])],
                          OptimizerLoadStateDict (PyDict []), SchedulerLoadStateDict (PyDict [])] @ post
             \<and> list_all construct_event pre \<and> list_all (\<lambda>e. \<not> load_event e) post)
        \<and> best_value result = track_best (Some (1 / 2)) (valid_values ''top1'' evs))"
proof -
  have ck: "case checkpoint_at demo_files (Some ''ckpt.pth'') of None \<Rightarrow> True | Some data \<Rightarrow> checkpoint_ok ''top1'' data"
    by (simp add: demo_hyps)
  have ep: "map_of demo_checkpoint ''epoch'' = Some (PyInt 1)" by (simp add: demo_checkpoint_def)
  from train_and_eval_resume_epoch [OF demo_hyps(1) demo_hyps(2) demo_hyps(3) demo_hyps(3) demo_hyps(3) demo_hyps(4) ck,
      of False "Some ''demo''" "[]"]
  have "\<exists>result evs fs'.
        train_and_eval demo_ext demo_config False (Some ''demo'') ''./data'' 0 0 ''top1'' (Some ''ckpt.pth'') False
          ([], demo_files) = (Inr (Result result), (evs, fs'))
        \<and> map fst (reports evs) = [2]
        \<and> map snd (filter (\<lambda>(d, e). d = ''train'') (passes evs)) = [2]
        \<and> (\<exists>pre post.
             evs = pre @ [ModelLoadStateDict [(''module.fc.weight'', PyTensor [1])],
                          OptimizerLoadStateDict (PyDict []), SchedulerLoadStateDict (PyDict [])] @ post
             \<and> list_all construct_event pre \<and> list_all (\<lambda>e. \<not> load_event e) post)
        \<and> best_value result = track_best (Some (1 / 2)) (valid_values ''top1'' evs)"
    apply (simp add: demo_hyps demo_restore)
    apply (elim exE conjE)
    apply (intro exI conjI)
        apply assumption+
    done
  with demo_hyps ep show ?thesis by blast
qed

text \<open>
  The restored best value is kept: resuming from a checkpoint with best value 0.9, the
  one remaining epoch reaches 2/3, the run returns 0.9 and writes no checkpoint.
\<close>

lemma resume_restores_best:
  "fst (train_and_eval demo_ext demo_config False (Some ''demo'') ''./data'' 0 0 ''top1'' (Some ''ckpt.pth'') False
          ([], best_files)) = Inr (Result [(''best_valid'', PyFloat (9 / 10))])
   \<and> saves (fst (snd (train_and_eval demo_ext demo_config False (Some ''demo'') ''./data'' 0 0 ''top1''
          (Some ''ckpt.pth'') False ([], best_files)))) = []"
  by (simp add: demo_config_def demo_optimizer_conf_def demo_ext_def demo_loader_def
      best_files_def best_checkpoint_def build_def make_optimizer_def make_scheduler_def train_and_eval_def
      resume_def truthy_def load_model_state_def module_keys_def str_in_simps
      train_epoch_def save_if_best_def run_epoch_def run_batch_def acc_getitem_def as_number_def torch_save_apply
      bindM_apply in_trace_apply add_dict_def acc_add_def dict_get_def Let_def saves_def reports_def dict_of_def
      upto.simps)



text \<open>
  C5, as amended. When the configuration is not one the construction phase accepts,
  \<^verbatim>\<open>train_and_eval\<close> raises KeyError (a missing key) or ValueError (an unsupported value)
  before any pass starts and before any file is touched. An \<^verbatim>\<open>optimizer.type\<close> other than
  \<^verbatim>\<open>sgd\<close> and an \<^verbatim>\<open>lr_schedule.type\<close> that is given and is neither \<^verbatim>\<open>cosine\<close> nor \<^verbatim>\<open>resnet\<close>
  raise the ValueError of lines 111 and 124. A missing \<^verbatim>\<open>lr_schedule.type\<close> is accepted:
  \<^verbatim>\<open>config_ok\<close> allows it.
\<close>

theorem train_and_eval_config_error:
  fixes ext :: "'t ext"
  assumes "\<not> config_ok cfg"
  shows "\<exists>e evs.
     train_and_eval ext cfg tqdm_disable tag dataroot test_ratio cv_fold metric save_path only_eval (tr, fs) =
       (Inl e, (tr @ evs, fs))
     \<and> config_error e \<and> list_all construct_event evs \<and> passes evs = []
     \<and> (\<forall>oc ty. cfg_epoch cfg \<noteq> None \<and> cfg_dataset cfg \<noteq> None \<and> cfg_batch cfg \<noteq> None \<and> cfg_model cfg \<noteq> None
           \<and> cfg_optimizer cfg = Some oc \<and> opt_type oc = Some ty \<and> ty \<noteq> ''sgd''
           \<longrightarrow> e = ValueError (''invalid optimizer type='' @ ty))
     \<and> (\<forall>oc ls ty. cfg_epoch cfg \<noteq> None \<and> cfg_dataset cfg \<noteq> None \<and> cfg_batch cfg \<noteq> None \<and> cfg_model cfg \<noteq> None
           \<and> cfg_optimizer cfg = Some oc \<and> opt_type oc = Some ''sgd'' \<and> cfg_lr cfg \<noteq> None
           \<and> opt_decay oc \<noteq> None \<and> opt_nesterov oc \<noteq> None
           \<and> cfg_lr_schedule cfg = Some ls \<and> sched_type ls = Some ty \<and> ty \<notin> {''cosine'', ''resnet''}
           \<longrightarrow> e = ValueError (''invalid lr_schduler='' @ ty))"
proof -
  from build_cases [of ext cfg tag dataroot test_ratio cv_fold tr] assms
  obtain e evs where bld: "build ext cfg tag dataroot test_ratio cv_fold tr = (Inl e, tr @ evs)"
    and ce: "config_error e" and cv: "list_all construct_event evs"
    and sp: "cfg_epoch cfg \<noteq> None \<and> cfg_dataset cfg \<noteq> None \<and> cfg_batch cfg \<noteq> None \<and> cfg_model cfg \<noteq> None
          \<longrightarrow> (case cfg_optimizer cfg of
                 None \<Rightarrow> True
               | Some oc \<Rightarrow>
                   (case opt_type oc of
                      None \<Rightarrow> True
                    | Some ty \<Rightarrow>
                        if ty \<noteq> ''sgd'' then Inl e = (Inl (ValueError (''invalid optimizer type='' @ ty)) :: error + 't built)
                        else (cfg_lr cfg \<noteq> None \<and> opt_decay oc \<noteq> None \<and> opt_nesterov oc \<noteq> None
                              \<longrightarrow> (case cfg_lr_schedule cfg of
                                     None \<Rightarrow> True
                                   | Some ls \<Rightarrow>
                                       (case sched_type ls of
                                          None \<Rightarrow> True
                                        | Some sty \<Rightarrow> sty \<notin> {''cosine'', ''resnet''}
                                            \<longrightarrow> Inl e = (Inl (ValueError (''invalid lr_schduler='' @ sty)) :: error + 't built))))))"
    by auto
  have run: "train_and_eval ext cfg tqdm_disable tag dataroot test_ratio cv_fold metric save_path only_eval (tr, fs) =
       (Inl e, (tr @ evs, fs))"
    by (simp add: train_and_eval_def bindM_apply in_trace_apply bld)
  have ps: "passes evs = []" using cv by (rule construct_event_projs)
  have s1: "\<forall>oc ty. cfg_epoch cfg \<noteq> None \<and> cfg_dataset cfg \<noteq> None \<and> cfg_batch cfg \<noteq> None \<and> cfg_model cfg \<noteq> None
           \<and> cfg_optimizer cfg = Some oc \<and> opt_type oc = Some ty \<and> ty \<noteq> ''sgd''
           \<longrightarrow> e = ValueError (''invalid optimizer type='' @ ty)"
    using sp by auto
  have s2: "\<forall>oc ls ty. cfg_epoch cfg \<noteq> None \<and> cfg_dataset cfg \<noteq> None \<and> cfg_batch cfg \<noteq> None \<and> cfg_model cfg \<noteq> None
           \<and> cfg_optimizer cfg = Some oc \<and> opt_type oc = Some ''sgd'' \<and> cfg_lr cfg \<noteq> None
           \<and> opt_decay oc \<noteq> None \<and> opt_nesterov oc \<noteq> None
           \<and> cfg_lr_schedule cfg = Some ls \<and> sched_type ls = Some ty \<and> ty \<notin> {''cosine'', ''resnet''}
           \<longrightarrow> e = ValueError (''invalid lr_schduler='' @ ty)"
    using sp by auto
  show ?thesis
    by (rule exI [of _ e], rule exI [of _ evs]) (intro conjI run ce cv ps s1 s2)
qed

theorem train_and_eval_config_error_witness:
  "\<not> config_ok adam_config
   \<and> (\<exists>evs. train_and_eval demo_ext adam_config False (Some ''demo'') ''./data'' 0 0 ''top1'' None False ([], no_files) =
         (Inl (ValueError ''invalid optimizer type=adam''), (evs, no_files))
       \<and> passes evs = [])"
proof -
  have h: "\<not> config_ok adam_config"
    by (simp add: config_ok_def adam_config_def demo_config_def demo_optimizer_conf_def)
  from train_and_eval_config_error [OF h, of demo_ext False "Some ''demo''" "''./data''" 0 0 "''top1''" None False "[]" no_files]
  have "\<exists>evs. train_and_eval demo_ext adam_config False (Some ''demo'') ''./data'' 0 0 ''top1'' None False ([], no_files) =
         (Inl (ValueError ''invalid optimizer type=adam''), (evs, no_files))
       \<and> passes evs = []"
    by (auto simp: adam_config_def demo_config_def demo_optimizer_conf_def)
  with h show ?thesis by blast
qed

text \<open>
  C5 as stated fails: without the key \<^verbatim>\<open>lr_schedule.type\<close> the construction phase builds a
  cosine schedule (line 118 reads the key with the default \<^verbatim>\<open>cosine\<close>) and training runs.
\<close>

theorem train_and_eval_config_error_counterexample:
  "cfg_lr_schedule untyped_schedule_config = Some \<lparr> sched_type = None, sched_warmup = None \<rparr>
   \<and> fst (build demo_ext untyped_schedule_config (Some ''demo'') ''./data'' 0 0 ([] :: real list event list)) =
       Inr \<lparr> b_max_epoch = 1, b_trainloader = demo_loader, b_validloader = demo_loader, b_testloader = demo_loader,
             b_criterion = CrossEntropyLoss, b_optimizer = SGD (1 / 10) (9 / 10) (1 / 2000) True,
             b_scheduler = CosineAnnealingLR 1 0,
             b_writers = [''./logs/demo/train'', ''./logs/demo/valid'', ''./logs/demo/test''] \<rparr>
   \<and> fst (train_and_eval demo_ext untyped_schedule_config False (Some ''demo'') ''./data'' 0 0 ''top1'' None False
            ([], no_files)) =
       Inr (Result [(''best_valid'', PyFloat (2 / 3))])"
  by (simp add: untyped_schedule_config_def demo_config_def demo_optimizer_conf_def demo_ext_def demo_loader_def
      no_files_def build_def make_optimizer_def make_scheduler_def train_and_eval_def resume_def truthy_def
      train_epoch_def save_if_best_def run_epoch_def run_batch_def acc_getitem_def
      bindM_apply in_trace_apply add_dict_def acc_add_def dict_get_def Let_def)

text \<open>
  The construction phase raises exactly on the configurations \<^verbatim>\<open>config_ok\<close> rejects.
\<close>

lemma build_fails_iff:
  "isl (fst (build ext cfg tag dataroot test_ratio cv_fold tr)) = (\<not> config_ok cfg)"
proof -
  from build_cases [of ext cfg tag dataroot test_ratio cv_fold tr]
  obtain r evs where "build ext cfg tag dataroot test_ratio cv_fold tr = (r, tr @ evs)"
    and "if config_ok cfg then \<exists>b. r = Inr b else \<exists>e. r = Inl e"
    by (auto split: if_splits)
  then show ?thesis by (auto split: if_splits)
qed

text \<open>
  C7 does not hold of the code. With \<^verbatim>\<open>only_eval=True\<close>, \<^verbatim>\<open>train_and_eval\<close> never returns:
  lines 166 and 167 call \<^verbatim>\<open>run_epoch\<close> with \<^verbatim>\<open>writer=None\<close> and \<^verbatim>\<open>verbose=1\<close>, and line 83 calls
  \<^verbatim>\<open>writer.add_scalar\<close> for the first metric.
\<close>

theorem train_and_eval_only_eval_fails:
  "\<exists>e w'. train_and_eval ext cfg tqdm_disable tag dataroot test_ratio cv_fold metric save_path True w = (Inl e, w')"
proof -
  obtain tr fs where w: "w = (tr, fs)" by (cases w)
  obtain r0 tr0 where bld: "build ext cfg tag dataroot test_ratio cv_fold tr = (r0, tr0)"
    by (cases "build ext cfg tag dataroot test_ratio cv_fold tr")
  show ?thesis
  proof (cases r0)
    case (Inl e)
    with bld show ?thesis by (simp add: train_and_eval_def bindM_apply in_trace_apply w)
  next
    case (Inr b)
    obtain r1 w1 where res: "resume metric save_path (tr0, fs) = (r1, w1)"
      by (cases "resume metric save_path (tr0, fs)")
    show ?thesis
    proof (cases r1)
      case (Inl e)
      with bld Inr res show ?thesis by (simp add: train_and_eval_def bindM_apply in_trace_apply w)
    next
      case r: (Inr p)
      obtain result start where p: "p = (result, start)" by (cases p)
      obtain tr1 fs1 where w1: "w1 = (tr1, fs1)" by (cases w1)
      from run_epoch_no_writer [of ext cfg tqdm_disable "b_validloader b" "b_criterion b" None "''valid''" start None
          "(tr1 @ [ModelCuda]) @ [ModelEval]"]
      obtain e tr2 where "run_epoch ext cfg tqdm_disable (b_validloader b) (b_criterion b) None ''valid''
              start None True None ((tr1 @ [ModelCuda]) @ [ModelEval]) = (Inl e, tr2)" by blast
      then have "eval_only ext cfg tqdm_disable b start tr1 = (Inl e, tr2)"
        by (simp only: eval_only_def bindM_apply emit_apply prod.case sum.case)
      with bld Inr res r p w1 show ?thesis
        by (simp add: train_and_eval_def bindM_apply in_trace_apply w)
    qed
  qed
qed

text \<open>
  On the instance the validation pass of epoch 2 runs, AttributeError is raised at its
  end, no test pass runs and no checkpoint is written.
\<close>

lemma only_eval_fails_on_demo:
  "(case train_and_eval demo_ext demo_config False (Some ''demo'') ''./data'' 0 0 ''top1'' (Some ''ckpt.pth'') True
           ([], demo_files) of
      (r, (evs, fs')) \<Rightarrow> (r, passes evs, saves evs, fs' ''ckpt.pth''))
   = (Inl (AttributeError ''add_scalar''), [(''valid'', 2)], [], Some demo_checkpoint)"
  by (simp add: demo_config_def demo_optimizer_conf_def demo_ext_def demo_loader_def demo_files_def demo_checkpoint_def
      build_def make_optimizer_def make_scheduler_def train_and_eval_def resume_def truthy_def load_model_state_def
      eval_only_def run_epoch_def run_batch_def module_keys_def dict_of_def str_in_simps
      bindM_apply in_trace_apply add_dict_def acc_add_def dict_get_def Let_def saves_def passes_def)

text \<open>
  Both shapes of a checkpoint lead to the same call: a checkpoint that is the bare model
  state and a checkpoint that holds the same state under \<^verbatim>\<open>model\<close> or \<^verbatim>\<open>state_dict\<close> pass the
  same argument to \<^verbatim>\<open>model.load_state_dict\<close>, the state with every key that does not contain
  \<^verbatim>\<open>module.\<close> anywhere prefixed with it. When no two normalized keys coincide the entries
  keep their order and values.
\<close>

lemma resume_bare_equals_wrapped:
  fixes tr :: "'t event list"
  assumes "checkpoint_at fs_bare save_path = Some sd"
    and "map_of sd ''model'' = None" and "map_of sd ''state_dict'' = None"
    and "checkpoint_at fs_wrapped save_path = Some data"
    and "map_of data ''model'' = Some (PyDict sd)
         \<or> map_of data ''model'' = None \<and> map_of data ''state_dict'' = Some (PyDict sd)"
  shows "model_loads (fst (snd (resume metric save_path (tr, fs_bare)))) = model_loads tr @ [module_keys sd]
     \<and> model_loads (fst (snd (resume metric save_path (tr, fs_wrapped)))) = model_loads tr @ [module_keys sd]
     \<and> fst ` set (module_keys sd) = (\<lambda>k. if str_in ''module.'' k then k else ''module.'' @ k) ` fst ` set sd
     \<and> (if distinct (map (\<lambda>(k, v). if str_in ''module.'' k then k else ''module.'' @ k) sd)
         then module_keys sd = map (\<lambda>(k, v). (if str_in ''module.'' k then k else ''module.'' @ k, v)) sd
         else True)"
proof -
  have b1: "case map_of sd ''model'' of
           Some v \<Rightarrow> is_dict v
         | None \<Rightarrow> (case map_of sd ''state_dict'' of Some v \<Rightarrow> is_dict v | None \<Rightarrow> True)"
    using assms(2,3) by simp
  have b2: "model_state sd = sd" using assms(2,3) by (simp add: model_state_def)
  have w1: "case map_of data ''model'' of
           Some v \<Rightarrow> is_dict v
         | None \<Rightarrow> (case map_of data ''state_dict'' of Some v \<Rightarrow> is_dict v | None \<Rightarrow> True)"
    using assms(5) by (auto simp: is_dict_def)
  have w2: "model_state data = sd" using assms(5) by (auto simp: model_state_def)
  have c1: "model_loads (fst (snd (resume metric save_path (tr, fs_bare)))) = model_loads tr @ [module_keys sd]"
    using resume_loads_model [OF assms(1) b1, of metric tr] by (simp add: b2)
  have c2: "model_loads (fst (snd (resume metric save_path (tr, fs_wrapped)))) = model_loads tr @ [module_keys sd]"
    using resume_loads_model [OF assms(4) w1, of metric tr] by (simp add: w2)
  have c3: "fst ` set (module_keys sd) = (\<lambda>k. if str_in ''module.'' k then k else ''module.'' @ k) ` fst ` set sd"
    by (rule module_keys_keys)
  have c4: "(if distinct (map (\<lambda>(k, v). if str_in ''module.'' k then k else ''module.'' @ k) sd)
         then module_keys sd = map (\<lambda>(k, v). (if str_in ''module.'' k then k else ''module.'' @ k, v)) sd
         else True)"
  proof (cases "distinct (map (\<lambda>(k, v). if str_in ''module.'' k then k else ''module.'' @ k) sd)")
    case True
    have eq: "map fst (map (\<lambda>(k, v). (if str_in ''module.'' k then k else ''module.'' @ k, v)) sd) =
          map (\<lambda>(k, v). if str_in ''module.'' k then k else ''module.'' @ k) sd"
      by (simp add: o_def case_prod_unfold)
    have "distinct (map fst (map (\<lambda>(k, v). (if str_in ''module.'' k then k else ''module.'' @ k, v)) sd))"
      unfolding eq by (rule True)
    from dict_of_distinct [OF this] True show ?thesis by (simp add: module_keys_def)
  next
    case False
    then show ?thesis by simp
  qed
  show ?thesis by (intro conjI c1 c2 c3 c4)
qed

lemma resume_bare_equals_wrapped_demo:
  "checkpoint_at bare_files (Some ''ckpt.pth'') = Some bare_checkpoint
   \<and> map_of bare_checkpoint ''model'' = None \<and> map_of bare_checkpoint ''state_dict'' = None
   \<and> checkpoint_at wrapped_files (Some ''ckpt.pth'') = Some wrapped_checkpoint
   \<and> map_of wrapped_checkpoint ''model'' = None
   \<and> map_of wrapped_checkpoint ''state_dict'' = Some (PyDict bare_checkpoint)
   \<and> model_loads (fst (snd (resume ''top1'' (Some ''ckpt.pth'') ([], bare_files)))) =
       [[(''module.fc.weight'', PyTensor [1]), (''module.fc.bias'', PyTensor [2])]]
   \<and> model_loads (fst (snd (resume ''top1'' (Some ''ckpt.pth'') ([], wrapped_files)))) =
       [[(''module.fc.weight'', PyTensor [1]), (''module.fc.bias'', PyTensor [2])]]"
proof -
  have h1: "checkpoint_at bare_files (Some ''ckpt.pth'') = Some bare_checkpoint"
    by (simp add: checkpoint_at_def bare_files_def)
  have h2: "map_of bare_checkpoint ''model'' = None" by (simp add: bare_checkpoint_def)
  have h3: "map_of bare_checkpoint ''state_dict'' = None" by (simp add: bare_checkpoint_def)
  have h4: "checkpoint_at wrapped_files (Some ''ckpt.pth'') = Some wrapped_checkpoint"
    by (simp add: checkpoint_at_def wrapped_files_def)
  have h5a: "map_of wrapped_checkpoint ''model'' = None" by (simp add: wrapped_checkpoint_def)
  have h5b: "map_of wrapped_checkpoint ''state_dict'' = Some (PyDict bare_checkpoint)" by (simp add: wrapped_checkpoint_def)
  have h5: "map_of wrapped_checkpoint ''model'' = Some (PyDict bare_checkpoint)
         \<or> map_of wrapped_checkpoint ''model'' = None \<and> map_of wrapped_checkpoint ''state_dict'' = Some (PyDict bare_checkpoint)"
    using h5a h5b by simp
  from resume_bare_equals_wrapped [OF h1 h2 h3 h4 h5, of "''top1''" "[]"]
  have "model_loads (fst (snd (resume ''top1'' (Some ''ckpt.pth'') ([], bare_files)))) =
       [[(''module.fc.weight'', PyTensor [1]), (''module.fc.bias'', PyTensor [2])]]
   \<and> model_loads (fst (snd (resume ''top1'' (Some ''ckpt.pth'') ([], wrapped_files)))) =
       [[(''module.fc.weight'', PyTensor [1]), (''module.fc.bias'', PyTensor [2])]]"
    by (simp add: module_keys_bare model_loads_def)
  with h1 h2 h3 h4 h5a h5b show ?thesis by blast
qed

text \<open>
  C8 does not hold of the code. The test of lines 148 and 152 is \<^verbatim>\<open>'module.' in k\<close>, a substring test: a key that
  contains \<^verbatim>\<open>module.\<close> anywhere is left as it is. In both shapes, bare and wrapped under
  \<^verbatim>\<open>model\<close>, the state with the keys \<^verbatim>\<open>se_module.fc.weight\<close> and \<^verbatim>\<open>fc.bias\<close> is loaded with
  \<^verbatim>\<open>se_module.fc.weight\<close> unchanged, a key the prefix \<^verbatim>\<open>module.\<close> is not present on, next to
  \<^verbatim>\<open>module.fc.bias\<close>: not every key is normalized.
\<close>

theorem resume_keeps_unprefixed_key:
  "model_loads (fst (snd (resume ''top1'' (Some ''ckpt.pth'') ([], se_files)))) =
     [[(''se_module.fc.weight'', PyTensor [1]), (''module.fc.bias'', PyTensor [2])]]
   \<and> model_loads (fst (snd (resume ''top1'' (Some ''ckpt.pth'') ([], se_wrapped_files)))) =
     [[(''se_module.fc.weight'', PyTensor [1]), (''module.fc.bias'', PyTensor [2])]]
   \<and> \<not> prefix ''module.'' ''se_module.fc.weight''"
  by (simp add: resume_def truthy_def se_files_def se_wrapped_files_def se_checkpoint_def se_wrapped_checkpoint_def
      load_model_state_def module_keys_def dict_of_def str_in_simps bindM_apply in_trace_apply Let_def
      model_loads_def)

text \<open>
  The keys that \<^verbatim>\<open>model.load_state_dict\<close> receives at that input, in both shapes.
\<close>

theorem resume_keeps_unprefixed_key_witness:
  "map (map fst) (model_loads (fst (snd (resume ''top1'' (Some ''ckpt.pth'') ([], se_files))))) =
     [[''se_module.fc.weight'', ''module.fc.bias'']]
   \<and> map (map fst) (model_loads (fst (snd (resume ''top1'' (Some ''ckpt.pth'') ([], se_wrapped_files))))) =
     [[''se_module.fc.weight'', ''module.fc.bias'']]"
  using resume_keeps_unprefixed_key by simp

text \<open>The same on any value under that key.\<close>

lemma module_keys_substring:
  "module_keys [(''se_module.fc.weight'', v)] = [(''se_module.fc.weight'', v)]"
  by (simp add: module_keys_def dict_of_def str_in_simps)

end
